theory Spec2Isabelle
  imports Main "HOL-Library.Multiset"
begin

text \<open>
  A shallow embedding of the payment and transfer core of ArcRelay: the USDC amount
  parser, the greedy balance selector, the deposit retry loops and the transfer
  routes of the backend (\<^verbatim>\<open>gatewayService.ts\<close>, \<^verbatim>\<open>routes/gateway.ts\<close>), the nonce
  registry of the proxy, the facilitator's verification path
  (\<^verbatim>\<open>server.ts\<close>, \<^verbatim>\<open>eip3009.ts\<close>), and the payment header
  (\<^verbatim>\<open>payments.ts\<close>).

  Conventions. A JavaScript \<^verbatim>\<open>bigint\<close> is an \<^typ>\<open>int\<close>; a string is a
  \<^typ>\<open>string\<close>; a thrown \<^verbatim>\<open>Error(message)\<close> is the left injection of a sum, a
  \<^verbatim>\<open>null\<close> result is \<^term>\<open>None\<close>. Everything the code obtains from outside the
  process (the clock, the custody service, the chain, the hash and curve library) is an
  argument of the function that uses it. The functions of the platform that the payment
  header is made with (\<^verbatim>\<open>JSON.stringify\<close>, \<^verbatim>\<open>JSON.parse\<close>, \<^verbatim>\<open>Buffer\<close>) are modelled
  as ECMAScript and Node define them.
\<close>


chapter \<open>The embedding\<close>

section \<open>JavaScript values used throughout\<close>

text \<open>A thrown \<^verbatim>\<open>new Error(message)\<close>; the handlers only ever read the message.\<close>

datatype js_error = Error string

text \<open>\<^verbatim>\<open>bigint.toString()\<close>: the decimal numeral, with a minus sign below zero.\<close>

definition digit_char :: "nat \<Rightarrow> char" where
  "digit_char d = ''0123456789'' ! d"

function nat_toString :: "nat \<Rightarrow> string" where
  "nat_toString n =
     (if n < 10 then [digit_char n] else nat_toString (n div 10) @ [digit_char (n mod 10)])"
  by pat_completeness auto
termination
  by (relation "measure id") auto

definition bigint_toString :: "int \<Rightarrow> string" where
  "bigint_toString i =
     (if i < 0 then CHR ''-'' # nat_toString (nat (- i)) else nat_toString (nat i))"

text \<open>\<^verbatim>\<open>String.prototype.startsWith\<close> and \<^verbatim>\<open>String.prototype.includes\<close>.\<close>

fun startsWith :: "string \<Rightarrow> string \<Rightarrow> bool" where
  "startsWith s [] = True"
| "startsWith [] (p # ps) = False"
| "startsWith (c # cs) (p # ps) = (c = p \<and> startsWith cs ps)"

fun str_includes :: "string \<Rightarrow> string \<Rightarrow> bool" where
  "str_includes [] pat = (pat = [])"
| "str_includes (c # cs) pat = (startsWith (c # cs) pat \<or> str_includes cs pat)"

text \<open>
  \<^verbatim>\<open>toUpperCase\<close> and \<^verbatim>\<open>toLowerCase\<close> on the ASCII letters (the strings they are
  applied to here are HTTP methods, token names and hexadecimal addresses).
\<close>

definition lowerLetters :: string where
  "lowerLetters = ''abcdefghijklmnopqrstuvwxyz''"

definition upperLetters :: string where
  "upperLetters = ''ABCDEFGHIJKLMNOPQRSTUVWXYZ''"

definition toUpperCase :: "string \<Rightarrow> string" where
  "toUpperCase s =
     map (\<lambda>c. case map_of (zip lowerLetters upperLetters) c of None \<Rightarrow> c | Some u \<Rightarrow> u) s"

definition toLowerCase :: "string \<Rightarrow> string" where
  "toLowerCase s =
     map (\<lambda>c. case map_of (zip upperLetters lowerLetters) c of None \<Rightarrow> c | Some l \<Rightarrow> l) s"

text \<open>\<^verbatim>\<open>a / b\<close> on \<^verbatim>\<open>bigint\<close>: the quotient rounded towards zero.\<close>

definition bigint_div :: "int \<Rightarrow> int \<Rightarrow> int" where
  "bigint_div a b = sgn a * sgn b * (\<bar>a\<bar> div \<bar>b\<bar>)"

section \<open>Amount parsing (\<^verbatim>\<open>gatewayService.ts\<close>)\<close>

text \<open>
  A \<^typ>\<open>char\<close> is a byte; the code units the functions below look at are all ASCII.
  \<^verbatim>\<open>[0-9]\<close> of a regular expression:
\<close>

definition isDigit :: "char \<Rightarrow> bool" where
  "isDigit c = (c \<in> set ''0123456789'')"

text \<open>
  The white space \<^verbatim>\<open>String.prototype.trim\<close> and \<^verbatim>\<open>BigInt(string)\<close> strip: tab, line
  feed, vertical tab, form feed, carriage return, space and the no-break space (the
  white space above U+00FF is outside the byte model).
\<close>

definition isWhiteSpace :: "char \<Rightarrow> bool" where
  "isWhiteSpace c = (c \<in> set [CHR 0x09, CHR 0x0A, CHR 0x0B, CHR 0x0C, CHR 0x0D, CHR 0x20, CHR 0xA0])"

definition trim :: "string \<Rightarrow> string" where
  "trim s = rev (dropWhile isWhiteSpace (rev (dropWhile isWhiteSpace s)))"

text \<open>\<^verbatim>\<open>s.split(sep)\<close> for a one-character separator: never the empty array.\<close>

fun split_on :: "char \<Rightarrow> string \<Rightarrow> string list" where
  "split_on sep [] = [[]]"
| "split_on sep (c # cs) =
     (if c = sep then [] # split_on sep cs
      else (case split_on sep cs of
              [] \<Rightarrow> [[c]]
            | part # parts \<Rightarrow> (c # part) # parts))"

text \<open>
  The digits of a numeral in a radix up to sixteen, and \<^verbatim>\<open>BigInt(string)\<close> as
  ECMAScript's StringToBigInt defines it: white space is trimmed, the empty string is
  \<open>0n\<close>, a numeral is decimal with an optional sign or has one of the prefixes
  \<^verbatim>\<open>0x\<close>, \<^verbatim>\<open>0o\<close>, \<^verbatim>\<open>0b\<close> and no sign; anything else throws a SyntaxError
  (\<^term>\<open>None\<close>).
\<close>

definition radixTable :: "(char \<times> nat) list" where
  "radixTable =
     [(CHR ''0'', 0), (CHR ''1'', 1), (CHR ''2'', 2), (CHR ''3'', 3), (CHR ''4'', 4),
      (CHR ''5'', 5), (CHR ''6'', 6), (CHR ''7'', 7), (CHR ''8'', 8), (CHR ''9'', 9),
      (CHR ''a'', 10), (CHR ''b'', 11), (CHR ''c'', 12), (CHR ''d'', 13), (CHR ''e'', 14),
      (CHR ''f'', 15),
      (CHR ''A'', 10), (CHR ''B'', 11), (CHR ''C'', 12), (CHR ''D'', 13), (CHR ''E'', 14),
      (CHR ''F'', 15)]"

fun parseDigits :: "nat \<Rightarrow> int \<Rightarrow> string \<Rightarrow> int option" where
  "parseDigits radix acc [] = Some acc"
| "parseDigits radix acc (c # cs) =
     (case map_of radixTable c of
        None \<Rightarrow> None
      | Some d \<Rightarrow> if d < radix then parseDigits radix (acc * int radix + int d) cs else None)"

definition parseNumeral :: "nat \<Rightarrow> string \<Rightarrow> int option" where
  "parseNumeral radix s = (if s = [] then None else parseDigits radix 0 s)"

definition BigInt_string :: "string \<Rightarrow> int option" where
  "BigInt_string s =
     (let t = trim s in
      if t = [] then Some 0
      else if startsWith t ''0x'' \<or> startsWith t ''0X'' then parseNumeral 16 (drop 2 t)
      else if startsWith t ''0o'' \<or> startsWith t ''0O'' then parseNumeral 8 (drop 2 t)
      else if startsWith t ''0b'' \<or> startsWith t ''0B'' then parseNumeral 2 (drop 2 t)
      else if startsWith t ''-'' then map_option uminus (parseNumeral 10 (drop 1 t))
      else if startsWith t ''+'' then parseNumeral 10 (drop 1 t)
      else parseNumeral 10 t)"

text \<open>
  The destructuring \<^verbatim>\<open>const [intPartRaw, fracPartRaw = ''] = trimmed.split('.')\<close>:
  the first two pieces, the second defaulting to the empty string; later pieces are
  dropped.
\<close>

definition amountParts :: "string \<Rightarrow> string \<times> string" where
  "amountParts trimmed =
     (case split_on CHR ''.'' trimmed of
        [] \<Rightarrow> ([], [])
      | [intPartRaw] \<Rightarrow> (intPartRaw, [])
      | intPartRaw # fracPartRaw # _ \<Rightarrow> (intPartRaw, fracPartRaw))"

definition parseUsdcAmountToBaseUnits :: "string \<Rightarrow> int option" where
  "parseUsdcAmountToBaseUnits amount =
     (let trimmed = trim amount in
      if trimmed = [] then Some 0
      else
        (case amountParts trimmed of
           (intPartRaw, fracPartRaw) \<Rightarrow>
             let intPart = (if filter isDigit intPartRaw = [] then ''0'' else filter isDigit intPartRaw);
                 fracPartPadded = take 6 (filter isDigit fracPartRaw @ ''000000'');
                 full = intPart @ fracPartPadded
             in BigInt_string full))"

text \<open>The number a string of decimal digits denotes.\<close>

definition decimalValue :: "string \<Rightarrow> int" where
  "decimalValue ds = foldl (\<lambda>acc c. acc * 10 + int (the (map_of radixTable c))) 0 ds"

text \<open>
  The decimal digits of the piece before the first dot and of the piece between the
  first and the second dot, every other character removed.
\<close>

definition amountDigits :: "string \<Rightarrow> string \<times> string" where
  "amountDigits amount =
     (filter isDigit (fst (amountParts amount)), filter isDigit (snd (amountParts amount)))"

section \<open>Balance selection (\<^verbatim>\<open>gatewayService.ts\<close>)\<close>

record TokenBalance =
  walletId :: string
  blockchain :: string
  address :: string
  tokenAddress :: string
  amount :: int
  decimals :: nat

text \<open>\<^verbatim>\<open>SelectedToken\<close> has the fields of \<^verbatim>\<open>TokenBalance\<close>.\<close>

type_synonym SelectedToken = TokenBalance

text \<open>
  \<^verbatim>\<open>[...balances].sort((a, b) => a.amount > b.amount ? -1 : a.amount < b.amount ? 1 : 0)\<close>:
  \<^verbatim>\<open>Array.prototype.sort\<close> is stable, so the result is the stable sort by descending
  amount, which is the stable insertion sort on the negated amount.
\<close>

definition sortDescending :: "TokenBalance list \<Rightarrow> TokenBalance list" where
  "sortDescending balances = sort_key (\<lambda>b. - amount b) balances"

text \<open>
  The \<^verbatim>\<open>for (const balance of sortedBalances)\<close> loop, with its two mutable variables
  \<^verbatim>\<open>remaining\<close> and \<^verbatim>\<open>selected\<close> as arguments; \<^verbatim>\<open>break\<close> returns them.
\<close>

fun select_loop :: "TokenBalance list \<Rightarrow> int \<Rightarrow> SelectedToken list \<Rightarrow> SelectedToken list \<times> int" where
  "select_loop [] remaining selected = (selected, remaining)"
| "select_loop (balance # rest) remaining selected =
     (if remaining \<le> 0 then (selected, remaining)
      else if amount balance > 0 then
        (let amountToUse = (if amount balance > remaining then remaining else amount balance)
         in select_loop rest (remaining - amountToUse) (selected @ [balance\<lparr>amount := amountToUse\<rparr>]))
      else select_loop rest remaining selected)"

definition selectTokensForTransfer :: "TokenBalance list \<Rightarrow> int \<Rightarrow> js_error + SelectedToken list" where
  "selectTokensForTransfer balances requestedAmount =
     (case select_loop (sortDescending balances) requestedAmount [] of
        (selected, remaining) \<Rightarrow>
          if remaining > 0 then
            Inl (Error (''Insufficient balance. Need '' @ bigint_toString requestedAmount
                        @ '', have '' @ bigint_toString (requestedAmount - remaining)))
          else Inr selected)"

text \<open>The balances with a positive amount: the only ones the loop ever draws from.\<close>

definition positiveBalances :: "TokenBalance list \<Rightarrow> TokenBalance list" where
  "positiveBalances bs = filter (\<lambda>b. 0 < amount b) bs"

text \<open>A wallet on ARC testnet holding \<open>a\<close> base units, for the concrete scenarios.\<close>

definition wallet :: "string \<Rightarrow> int \<Rightarrow> TokenBalance" where
  "wallet w a = \<lparr>walletId = w, blockchain = ''ARC-TESTNET'', address = ''0xA'',
                 tokenAddress = ''0x3600000000000000000000000000000000000000'',
                 amount = a, decimals = 6\<rparr>"

section \<open>Balance aggregation (\<^verbatim>\<open>getWalletUsdcBalance\<close>)\<close>

text \<open>
  One entry of the custody service's \<^verbatim>\<open>tokenBalances\<close>: the token (which may be
  missing), its name (which may be missing) and the amount as the service reports it,
  already through \<^verbatim>\<open>String(tb.amount ?? '0')\<close> where present.
\<close>

record ReportedBalance =
  tokenName :: "string option option"
  reportedAmount :: "string option"

definition isUsdcLike :: "ReportedBalance \<Rightarrow> bool" where
  "isUsdcLike tb =
     (case tokenName tb of
        None \<Rightarrow> False
      | Some name \<Rightarrow>
          str_includes (toUpperCase (case name of None \<Rightarrow> [] | Some n \<Rightarrow> n)) ''USDC'')"

text \<open>
  The loop \<^verbatim>\<open>totalBaseUnits += parseUsdcAmountToBaseUnits(rawAmount)\<close>; a throw of the
  parser would end it (\<^term>\<open>None\<close>).
\<close>

fun sumUsdc :: "int \<Rightarrow> ReportedBalance list \<Rightarrow> int option" where
  "sumUsdc totalBaseUnits [] = Some totalBaseUnits"
| "sumUsdc totalBaseUnits (tb # tbs) =
     (case parseUsdcAmountToBaseUnits (case reportedAmount tb of None \<Rightarrow> ''0'' | Some a \<Rightarrow> a) of
        None \<Rightarrow> None
      | Some units \<Rightarrow> sumUsdc (totalBaseUnits + units) tbs)"

text \<open>
  \<^verbatim>\<open>getWalletUsdcBalance\<close>, given the wallet's fields, the USDC address of its domain
  (\<^term>\<open>None\<close> when the blockchain has no domain configuration) and the balances the
  service reported. The outer option is a throw, the inner one the \<^verbatim>\<open>null\<close> result.
\<close>

definition getWalletUsdcBalance ::
  "string \<Rightarrow> string \<Rightarrow> string \<Rightarrow> string option \<Rightarrow> ReportedBalance list \<Rightarrow> TokenBalance option option" where
  "getWalletUsdcBalance wId wBlockchain wAddress domainUsdc tokenBalances =
     (case domainUsdc of
        None \<Rightarrow> Some None
      | Some usdcAddress \<Rightarrow>
          if tokenBalances = [] then Some None
          else if filter isUsdcLike tokenBalances = [] then Some None
          else
            (case sumUsdc 0 (filter isUsdcLike tokenBalances) of
               None \<Rightarrow> None
             | Some totalBaseUnits \<Rightarrow>
                 Some (Some \<lparr>walletId = wId, blockchain = wBlockchain, address = wAddress,
                              tokenAddress = usdcAddress, amount = totalBaseUnits, decimals = 6\<rparr>)))"

section \<open>Deposits into the Gateway wallet (\<^verbatim>\<open>depositToGateway\<close>)\<close>

text \<open>
  What one call of \<^verbatim>\<open>circleClient.getTransaction\<close> gives: it throws, or it answers with
  \<^verbatim>\<open>resp.data?.transaction?.state\<close> and \<^verbatim>\<open>errorReason\<close>, either of which may be
  missing.
\<close>

datatype poll = PollThrows string | PollReply "string option" "string option"

text \<open>How the polling loop of \<^verbatim>\<open>waitForTransactionConfirmed\<close> ends.\<close>

datatype poll_outcome =
    Confirmed
  | Terminal string "string option"
  | PollError string
  | TimedOut

definition maxAttempts :: nat where
  "maxAttempts = 80"

text \<open>
  \<^verbatim>\<open>for (let attempt = 0; attempt < maxAttempts; attempt++)\<close>; \<open>polls attempt\<close> is
  the service's answer to the poll of that attempt. A state that is missing or empty is
  falsy and the loop sleeps and polls again, as it does for a state that is not one of
  the six the code names.
\<close>

function pollTransaction :: "(nat \<Rightarrow> poll) \<Rightarrow> nat \<Rightarrow> poll_outcome" where
  "pollTransaction polls attempt =
     (if attempt < maxAttempts then
        (case polls attempt of
           PollThrows m \<Rightarrow> PollError m
         | PollReply None reason \<Rightarrow> pollTransaction polls (Suc attempt)
         | PollReply (Some state) reason \<Rightarrow>
             if state = [] then pollTransaction polls (Suc attempt)
             else if state = ''CONFIRMED'' \<or> state = ''COMPLETE'' \<or> state = ''CLEARED'' then Confirmed
             else if state = ''FAILED'' \<or> state = ''DENIED'' \<or> state = ''CANCELLED'' then
               Terminal state reason
             else pollTransaction polls (Suc attempt))
      else TimedOut)"
  by pat_completeness auto
termination
  by (relation "measure (\<lambda>(polls, attempt). maxAttempts - attempt)") auto

declare pollTransaction.simps [simp del]

text \<open>The errors \<^verbatim>\<open>waitForTransactionConfirmed\<close> throws, with their messages.\<close>

definition waitForTransactionConfirmed :: "string \<Rightarrow> (nat \<Rightarrow> poll) \<Rightarrow> js_error + unit" where
  "waitForTransactionConfirmed transactionId polls =
     (case pollTransaction polls 0 of
        Confirmed \<Rightarrow> Inr ()
      | Terminal state reason \<Rightarrow>
          Inl (Error (''Transaction '' @ transactionId @ '' failed with state='' @ state @
                      (case reason of
                         None \<Rightarrow> []
                       | Some r \<Rightarrow> if r = [] then [] else '' reason='' @ r)))
      | PollError m \<Rightarrow> Inl (Error m)
      | TimedOut \<Rightarrow>
          Inl (Error (''Transaction '' @ transactionId @ '' not confirmed within timeout window'')))"

text \<open>
  What the outside world does in one iteration of a submission loop: the prefund
  (\<^term>\<open>Some m\<close> when it throws), the answer of
  \<^verbatim>\<open>createContractExecutionTransaction\<close> (a throw, or \<^verbatim>\<open>data?.id\<close>), and the polls
  of the transaction it created.
\<close>

datatype create_result = CreateThrows string | CreateReply "string option"

record submission =
  prefund :: "string option"
  created :: create_result
  polls :: "nat \<Rightarrow> poll"

definition maxRetries :: nat where
  "maxRetries = 3"

text \<open>
  The two loops \<^verbatim>\<open>for (let attempt = 1; attempt <= maxRetries; attempt++)\<close> of
  \<^verbatim>\<open>depositToGateway\<close> differ only in the call they submit and in the word of the
  message \<open>Failed to create <what> transaction\<close>. The prefund and the creation stand
  outside the \<^verbatim>\<open>try\<close>, so their errors leave the loop at once; the \<^verbatim>\<open>catch\<close> around
  the wait reads the message of the error. Beside the result (the identifier of the
  transaction last created, on success) the function returns the number of the attempt
  at which the loop was left.
\<close>

function submitWithRetries ::
  "string \<Rightarrow> (nat \<Rightarrow> submission) \<Rightarrow> nat \<Rightarrow> string option \<Rightarrow> (js_error + string option) \<times> nat" where
  "submitWithRetries what env attempt lastTxId =
     (if attempt \<le> maxRetries then
        (case prefund (env attempt) of
           Some m \<Rightarrow> (Inl (Error m), attempt)
         | None \<Rightarrow>
             (case created (env attempt) of
                CreateThrows m \<Rightarrow> (Inl (Error m), attempt)
              | CreateReply None \<Rightarrow>
                  (Inl (Error (''Failed to create '' @ what @ '' transaction'')), attempt)
              | CreateReply (Some txId) \<Rightarrow>
                  if txId = [] then
                    (Inl (Error (''Failed to create '' @ what @ '' transaction'')), attempt)
                  else
                    (case waitForTransactionConfirmed txId (polls (env attempt)) of
                       Inr _ \<Rightarrow> (Inr (Some txId), attempt)
                     | Inl (Error msg) \<Rightarrow>
                         if \<not> str_includes msg ''state=FAILED'' \<or> attempt = maxRetries then
                           (Inl (Error msg), attempt)
                         else submitWithRetries what env (Suc attempt) (Some txId))))
      else (Inr lastTxId, attempt - 1))"
  by pat_completeness auto
termination
  by (relation "measure (\<lambda>(what, env, attempt, lastTxId). Suc maxRetries - attempt)") auto

declare submitWithRetries.simps [simp del]

text \<open>
  \<^verbatim>\<open>waitForGatewayBalanceIncrease\<close>: up to sixty reads of the indexed balance of
  (domain, depositor), each of which may throw.
\<close>

function balanceLoop ::
  "int \<Rightarrow> string \<Rightarrow> int \<Rightarrow> int \<Rightarrow> (nat \<Rightarrow> js_error + int) \<Rightarrow> nat \<Rightarrow> js_error + unit" where
  "balanceLoop domainId depositor expectedDelta startingBalance reads attempt =
     (if attempt \<le> 60 then
        (case reads attempt of
           Inl e \<Rightarrow> Inl e
         | Inr currentBalance \<Rightarrow>
             if currentBalance \<ge> startingBalance + expectedDelta then Inr ()
             else balanceLoop domainId depositor expectedDelta startingBalance reads (Suc attempt))
      else
        Inl (Error (''[Gateway][balances] USDC balance did not increase by expected delta '' @
                    ''within timeout (domain='' @ bigint_toString domainId @
                    '' depositor='' @ depositor @ '')'')))"
  by pat_completeness auto
termination
  by (relation "measure (\<lambda>(dom, dep, d, s, reads, attempt). 61 - attempt)") auto

declare balanceLoop.simps [simp del]

definition waitForGatewayBalanceIncrease ::
  "int \<Rightarrow> string \<Rightarrow> int \<Rightarrow> int \<Rightarrow> (nat \<Rightarrow> js_error + int) \<Rightarrow> js_error + unit" where
  "waitForGatewayBalanceIncrease domainId depositor expectedDelta startingBalance reads =
     balanceLoop domainId depositor expectedDelta startingBalance reads 1"

text \<open>
  Everything \<^verbatim>\<open>depositToGateway\<close> asks of the outside: the domain of the blockchain
  (\<^term>\<open>None\<close> when it has no configuration), the wallet's address, the indexed
  balance before the deposit, the iterations of the two submission loops and the reads
  of the indexed balance afterwards. The result is \<^verbatim>\<open>lastDepositTxId\<close>.
\<close>

record deposit_world =
  domainOf :: "int option"
  depositorAddress :: "js_error + string option"
  gatewayBalanceBefore :: "js_error + int"
  approveAttempts :: "nat \<Rightarrow> submission"
  depositAttempts :: "nat \<Rightarrow> submission"
  balanceReads :: "nat \<Rightarrow> js_error + int"

definition depositToGateway ::
  "deposit_world \<Rightarrow> string \<Rightarrow> string \<Rightarrow> string \<Rightarrow> int \<Rightarrow> js_error + string option" where
  "depositToGateway world wId chain token amt =
     (case domainOf world of
        None \<Rightarrow> Inl (Error (''Unsupported blockchain for deposit: '' @ chain))
      | Some domainId \<Rightarrow>
        (case depositorAddress world of
           Inl e \<Rightarrow> Inl e
         | Inr None \<Rightarrow> Inl (Error (''Unable to resolve wallet address for walletId='' @ wId))
         | Inr (Some depositor) \<Rightarrow>
             if depositor = [] then
               Inl (Error (''Unable to resolve wallet address for walletId='' @ wId))
             else
               (case gatewayBalanceBefore world of
                  Inl e \<Rightarrow> Inl e
                | Inr before \<Rightarrow>
                    (case fst (submitWithRetries ''approval'' (approveAttempts world) 1 None) of
                       Inl e \<Rightarrow> Inl e
                     | Inr _ \<Rightarrow>
                         (case fst (submitWithRetries ''deposit'' (depositAttempts world) 1 None) of
                            Inl e \<Rightarrow> Inl e
                          | Inr lastDepositTxId \<Rightarrow>
                              (case waitForGatewayBalanceIncrease domainId depositor amt before
                                      (balanceReads world) of
                                 Inl e \<Rightarrow> Inl e
                               | Inr _ \<Rightarrow> Inr lastDepositTxId))))))"

text \<open>
  The older copy of the service, which the older copy of the route is shipped with: its
  \<^verbatim>\<open>waitForTransactionConfirmed\<close> polls forty times, and its \<^verbatim>\<open>depositToGateway\<close>
  submits the approval once and the deposit once, with no prefund, no retry and no wait
  for the indexed balance. Of the outside it asks the domain of the blockchain and the
  first iteration of either submission.
\<close>

definition maxAttempts_older :: nat where
  "maxAttempts_older = 40"

function pollTransaction_older :: "(nat \<Rightarrow> poll) \<Rightarrow> nat \<Rightarrow> poll_outcome" where
  "pollTransaction_older replies attempt =
     (if attempt < maxAttempts_older then
        (case replies attempt of
           PollThrows m \<Rightarrow> PollError m
         | PollReply None reason \<Rightarrow> pollTransaction_older replies (Suc attempt)
         | PollReply (Some state) reason \<Rightarrow>
             if state = [] then pollTransaction_older replies (Suc attempt)
             else if state = ''CONFIRMED'' \<or> state = ''COMPLETE'' \<or> state = ''CLEARED'' then Confirmed
             else if state = ''FAILED'' \<or> state = ''DENIED'' \<or> state = ''CANCELLED'' then
               Terminal state reason
             else pollTransaction_older replies (Suc attempt))
      else TimedOut)"
  by pat_completeness auto
termination
  by (relation "measure (\<lambda>(replies, attempt). maxAttempts_older - attempt)") auto

declare pollTransaction_older.simps [simp del]

definition waitForTransactionConfirmed_older :: "string \<Rightarrow> (nat \<Rightarrow> poll) \<Rightarrow> js_error + unit" where
  "waitForTransactionConfirmed_older transactionId replies =
     (case pollTransaction_older replies 0 of
        Confirmed \<Rightarrow> Inr ()
      | Terminal state reason \<Rightarrow>
          Inl (Error (''Transaction '' @ transactionId @ '' failed with state='' @ state @
                      (case reason of
                         None \<Rightarrow> []
                       | Some r \<Rightarrow> if r = [] then [] else '' reason='' @ r)))
      | PollError m \<Rightarrow> Inl (Error m)
      | TimedOut \<Rightarrow>
          Inl (Error (''Transaction '' @ transactionId @ '' not confirmed within timeout window'')))"

definition submitOnce_older :: "string \<Rightarrow> submission \<Rightarrow> js_error + string" where
  "submitOnce_older what sub =
     (case created sub of
        CreateThrows m \<Rightarrow> Inl (Error m)
      | CreateReply None \<Rightarrow> Inl (Error (''Failed to create '' @ what @ '' transaction''))
      | CreateReply (Some txId) \<Rightarrow>
          if txId = [] then Inl (Error (''Failed to create '' @ what @ '' transaction''))
          else
            (case waitForTransactionConfirmed_older txId (polls sub) of
               Inl e \<Rightarrow> Inl e
             | Inr _ \<Rightarrow> Inr txId))"

definition depositToGateway_older ::
  "deposit_world \<Rightarrow> string \<Rightarrow> string \<Rightarrow> string \<Rightarrow> int \<Rightarrow> js_error + string option" where
  "depositToGateway_older world wId chain token amt =
     (case domainOf world of
        None \<Rightarrow> Inl (Error (''Unsupported blockchain for deposit: '' @ chain))
      | Some domainId \<Rightarrow>
          (case submitOnce_older ''approval'' (approveAttempts world 1) of
             Inl e \<Rightarrow> Inl e
           | Inr approveTxId \<Rightarrow>
               (case submitOnce_older ''deposit'' (depositAttempts world 1) of
                  Inl e \<Rightarrow> Inl e
                | Inr depositTxId \<Rightarrow> Inr (Some depositTxId))))"

text \<open>
  What one iteration comes to on its own, the retry aside: the error it throws or the
  identifier of the transaction it confirmed.
\<close>

definition attemptOutcome :: "string \<Rightarrow> submission \<Rightarrow> js_error + string option" where
  "attemptOutcome what sub =
     (case prefund sub of
        Some m \<Rightarrow> Inl (Error m)
      | None \<Rightarrow>
          (case created sub of
             CreateThrows m \<Rightarrow> Inl (Error m)
           | CreateReply None \<Rightarrow> Inl (Error (''Failed to create '' @ what @ '' transaction''))
           | CreateReply (Some txId) \<Rightarrow>
               if txId = [] then Inl (Error (''Failed to create '' @ what @ '' transaction''))
               else
                 (case waitForTransactionConfirmed txId (polls sub) of
                    Inr _ \<Rightarrow> Inr (Some txId)
                  | Inl e \<Rightarrow> Inl e)))"

text \<open>
  The iteration submitted a transaction and the polls found it in the on-chain state
  \<open>FAILED\<close>.
\<close>

definition failedOnChain :: "submission \<Rightarrow> bool" where
  "failedOnChain sub =
     (case prefund sub of
        Some m \<Rightarrow> False
      | None \<Rightarrow>
          (case created sub of
             CreateThrows m \<Rightarrow> False
           | CreateReply None \<Rightarrow> False
           | CreateReply (Some txId) \<Rightarrow>
               txId \<noteq> [] \<and>
               (case pollTransaction (polls sub) 0 of
                  Terminal state reason \<Rightarrow> state = ''FAILED''
                | _ \<Rightarrow> False)))"

text \<open>
  The texts the service hands back (transaction identifiers, error reasons, messages of
  failed polls) do not themselves contain the text \<open>state=FAILED\<close>.
\<close>

definition plainTexts :: "(nat \<Rightarrow> submission) \<Rightarrow> bool" where
  "plainTexts env =
     (\<forall>k. (\<forall>txId. created (env k) = CreateReply (Some txId) \<longrightarrow> \<not> str_includes txId ''state=FAILED'') \<and>
          (\<forall>i state r. polls (env k) i = PollReply state (Some r) \<longrightarrow> \<not> str_includes r ''state=FAILED'') \<and>
          (\<forall>i m. polls (env k) i = PollThrows m \<longrightarrow> \<not> str_includes m ''state=FAILED''))"

text \<open>Concrete iterations for the scenarios: a transaction that ends in a given state.\<close>

definition endsIn :: "string \<Rightarrow> string \<Rightarrow> string option \<Rightarrow> submission" where
  "endsIn txId state reason =
     \<lparr>prefund = None, created = CreateReply (Some txId),
      polls = (\<lambda>i. if i < 2 then PollReply (Some ''SENT'') None else PollReply (Some state) reason)\<rparr>"

text \<open>A first attempt that fails on chain followed by one that is denied.\<close>

definition firstFailsThenDenied :: "nat \<Rightarrow> submission" where
  "firstFailsThenDenied k =
     (if k = 1 then endsIn ''tx-1'' ''FAILED'' (Some ''INSUFFICIENT_TOKEN'')
      else endsIn ''tx-2'' ''DENIED'' None)"

text \<open>
  A first attempt that is denied, with an error reason that reads \<open>state=FAILED\<close>,
  followed by one that is confirmed.
\<close>

definition deniedWithCraftedReason :: "nat \<Rightarrow> submission" where
  "deniedWithCraftedReason k =
     (if k = 1 then endsIn ''tx-1'' ''DENIED'' (Some ''state=FAILED'')
      else endsIn ''tx-2'' ''CONFIRMED'' None)"

section \<open>The transfer route (\<^verbatim>\<open>routes/gateway.ts\<close>)\<close>

record GatewayDomainConfig =
  cfgChain :: string
  cfgNetwork :: string
  cfgBlockchain :: string
  cfgDomain :: int
  walletContractAddress :: string
  minterContractAddress :: string
  usdcAddress :: string

definition GATEWAY_WALLET_ADDRESS :: string where
  "GATEWAY_WALLET_ADDRESS = ''0x0077777d7EBA4688BDeF3E311b846F25870A19B9''"

definition GATEWAY_MINTER_ADDRESS :: string where
  "GATEWAY_MINTER_ADDRESS = ''0x0022222ABE238Cc2C7Bb1f21003F0a260052475B''"

text \<open>
  \<^verbatim>\<open>GATEWAY_DOMAIN_CONFIGS\<close>, keyed by \<open>Chain:Network\<close>, with the USDC addresses the
  code defaults to when the environment sets none. The routes below take the table as
  an argument.
\<close>

definition GATEWAY_DOMAIN_CONFIGS :: "(string \<times> GatewayDomainConfig) list" where
  "GATEWAY_DOMAIN_CONFIGS =
     [(''Avalanche:Fuji'',
       \<lparr>cfgChain = ''Avalanche'', cfgNetwork = ''Fuji'', cfgBlockchain = ''AVAX-FUJI'', cfgDomain = 1,
        walletContractAddress = GATEWAY_WALLET_ADDRESS, minterContractAddress = GATEWAY_MINTER_ADDRESS,
        usdcAddress = ''0x5425890298aed601595a70AB815c96711a31Bc65''\<rparr>),
      (''HyperEVM:Testnet'',
       \<lparr>cfgChain = ''HyperEVM'', cfgNetwork = ''Testnet'', cfgBlockchain = ''HYPEREVM-TESTNET'', cfgDomain = 19,
        walletContractAddress = GATEWAY_WALLET_ADDRESS, minterContractAddress = GATEWAY_MINTER_ADDRESS,
        usdcAddress = ''0x2B3370eE501B4a559b57D449569354196457D8Ab''\<rparr>),
      (''ARC:Testnet'',
       \<lparr>cfgChain = ''ARC'', cfgNetwork = ''Testnet'', cfgBlockchain = ''ARC-TESTNET'', cfgDomain = 26,
        walletContractAddress = GATEWAY_WALLET_ADDRESS, minterContractAddress = GATEWAY_MINTER_ADDRESS,
        usdcAddress = ''0x3600000000000000000000000000000000000000''\<rparr>)]"

text \<open>The table of the older copy of the service, which the older route uses.\<close>

definition GATEWAY_DOMAIN_CONFIGS_older :: "(string \<times> GatewayDomainConfig) list" where
  "GATEWAY_DOMAIN_CONFIGS_older =
     [(''Ethereum:Sepolia'',
       \<lparr>cfgChain = ''Ethereum'', cfgNetwork = ''Sepolia'', cfgBlockchain = ''ETH-SEPOLIA'', cfgDomain = 0,
        walletContractAddress = GATEWAY_WALLET_ADDRESS, minterContractAddress = GATEWAY_MINTER_ADDRESS,
        usdcAddress = ''0x1c7D4B196Cb0C7B01d743Fbc6116a902379C7238''\<rparr>),
      (''Base:Sepolia'',
       \<lparr>cfgChain = ''Base'', cfgNetwork = ''Sepolia'', cfgBlockchain = ''BASE-SEPOLIA'', cfgDomain = 6,
        walletContractAddress = GATEWAY_WALLET_ADDRESS, minterContractAddress = GATEWAY_MINTER_ADDRESS,
        usdcAddress = ''0x036CbD53842c5426634e7929541eC2318f3dCF7e''\<rparr>),
      (''ARC:Testnet'',
       \<lparr>cfgChain = ''ARC'', cfgNetwork = ''Testnet'', cfgBlockchain = ''ARC-TESTNET'', cfgDomain = 26,
        walletContractAddress = GATEWAY_WALLET_ADDRESS, minterContractAddress = GATEWAY_MINTER_ADDRESS,
        usdcAddress = ''0x3600000000000000000000000000000000000000''\<rparr>)]"

definition getDomainConfigByBlockchain ::
  "(string \<times> GatewayDomainConfig) list \<Rightarrow> string \<Rightarrow> GatewayDomainConfig option" where
  "getDomainConfigByBlockchain configs chainId = find (\<lambda>c. cfgBlockchain c = chainId) (map snd configs)"

text \<open>
  A burn intent; the field the source calls \<^verbatim>\<open>value\<close> is \<open>burnValue\<close> here (the
  source's name is a keyword of the theory language).
\<close>

record TransferSpec =
  version :: nat
  sourceDomain :: int
  destinationDomain :: int
  sourceContract :: string
  destinationContract :: string
  sourceToken :: string
  destinationToken :: string
  sourceDepositor :: string
  destinationRecipient :: string
  sourceSigner :: string
  destinationCaller :: string
  burnValue :: int
  salt :: string
  hookData :: string

record BurnIntent =
  maxBlockHeight :: int
  maxFee :: int
  spec :: TransferSpec

definition maxUint256 :: int where
  "maxUint256 = 2 ^ 256 - 1"

definition zeroAddress :: string where
  "zeroAddress = ''0x0000000000000000000000000000000000000000''"

text \<open>\<^verbatim>\<open>createBurnIntent\<close>; the thirty-two random bytes of the salt are an argument.\<close>

definition createBurnIntent ::
  "(string \<times> GatewayDomainConfig) list \<Rightarrow> string \<Rightarrow> string \<Rightarrow> string \<Rightarrow> string \<Rightarrow> string \<Rightarrow> string \<Rightarrow>
     int \<Rightarrow> int \<Rightarrow> string \<Rightarrow> js_error + BurnIntent" where
  "createBurnIntent configs sourceBlockchain destinationBlockchain sourceTokenAddress
       destinationTokenAddress depositor recipient amountToBurn fee randomSalt =
     (case (getDomainConfigByBlockchain configs sourceBlockchain,
            getDomainConfigByBlockchain configs destinationBlockchain) of
        (Some sourceConfig, Some destinationConfig) \<Rightarrow>
          Inr \<lparr>maxBlockHeight = maxUint256,
               maxFee = fee,
               spec = \<lparr>version = 1,
                        sourceDomain = cfgDomain sourceConfig,
                        destinationDomain = cfgDomain destinationConfig,
                        sourceContract = walletContractAddress sourceConfig,
                        destinationContract = minterContractAddress destinationConfig,
                        sourceToken = sourceTokenAddress,
                        destinationToken = destinationTokenAddress,
                        sourceDepositor = depositor,
                        destinationRecipient = recipient,
                        sourceSigner = depositor,
                        destinationCaller = zeroAddress,
                        burnValue = amountToBurn,
                        salt = ''0x'' @ randomSalt,
                        hookData = ''0x''\<rparr>\<rparr>
      | _ \<Rightarrow>
          Inl (Error (''Unsupported blockchain: '' @ sourceBlockchain @ '' or '' @ destinationBlockchain)))"

text \<open>
  The body of a request that passed \<^verbatim>\<open>gatewayTransferSchema\<close>. The amount is a
  decimal without sign (\<^verbatim>\<open>/^\d+(\.\d+)?$/\<close>); \<open>amountUnits\<close> is the natural number
  \<^verbatim>\<open>Math.floor(parseFloat(amount) * 1_000_000)\<close>, whose floating-point computation
  is not part of this model.
\<close>

record transfer_request =
  amountText :: string
  amountUnits :: nat
  destinationAddress :: string
  reqChain :: string
  reqNetwork :: string
  sourceWallets :: "string list option"

text \<open>
  What the route asks of the outside: the authenticated user, the user's wallet set,
  the balances (given the blockchains allowed as sources), the world of each deposit,
  the wallets' addresses, the salts, the signatures of the custody service, and the
  attestation service followed by the mint (the hashes of the mint transactions).
\<close>

record transfer_world =
  userUuid :: "string option"
  walletSetId :: "string option"
  queryUserBalances :: "string list option \<Rightarrow> js_error + TokenBalance list"
  depositWorld :: "SelectedToken \<Rightarrow> deposit_world"
  getWalletAddress :: "string \<Rightarrow> js_error + string"
  randomSalts :: "nat \<Rightarrow> string"
  signBurnIntent :: "string \<Rightarrow> BurnIntent \<Rightarrow> js_error + string"
  attestAndMint :: "string \<Rightarrow> (BurnIntent \<times> string) list \<Rightarrow> js_error + string list"

datatype transfer_response =
    Unauthorized401
  | NotFound404 string
  | BadRequest400 string
  | Failed500 string
  | Initiated200 "string option list" "string list" string string string

text \<open>
  Beside its response a route returns what it did on the way: the tokens it called
  \<^verbatim>\<open>depositToGateway\<close> for, and the burn intents it created.
\<close>

record transfer_trace =
  deposited :: "SelectedToken list"
  intents :: "BurnIntent list"

text \<open>
  Step 3, \<^verbatim>\<open>for (const token of selectedTokens)\<close>: the deposits, one after another.
  \<open>depositStep\<close> is the \<^verbatim>\<open>depositToGateway\<close> the route is shipped with.
\<close>

type_synonym deposit_step = "deposit_world \<Rightarrow> string \<Rightarrow> string \<Rightarrow> string \<Rightarrow> int \<Rightarrow> js_error + string option"

fun depositAll ::
  "deposit_step \<Rightarrow> transfer_world \<Rightarrow> SelectedToken list \<Rightarrow>
     (js_error + string option list) \<times> SelectedToken list" where
  "depositAll depositStep world [] = (Inr [], [])"
| "depositAll depositStep world (token # rest) =
     (case depositStep (depositWorld world token) (walletId token) (blockchain token)
             (tokenAddress token) (amount token) of
        Inl e \<Rightarrow> (Inl e, [token])
      | Inr txId \<Rightarrow>
          (case depositAll depositStep world rest of
             (Inl e, calls) \<Rightarrow> (Inl e, token # calls)
           | (Inr txIds, calls) \<Rightarrow> (Inr (txId # txIds), token # calls)))"

text \<open>
  Step 4: one burn intent per selected token, with the value \<open>valueOf token\<close> and the
  fee \<open>fee\<close>, then its signature. \<open>i\<close> counts the intents, for the salt.
\<close>

fun signIntents ::
  "(string \<times> GatewayDomainConfig) list \<Rightarrow> transfer_world \<Rightarrow> string \<Rightarrow> string \<Rightarrow> string \<Rightarrow>
     (SelectedToken \<Rightarrow> int) \<Rightarrow> int \<Rightarrow> nat \<Rightarrow> SelectedToken list \<Rightarrow>
     (js_error + (BurnIntent \<times> string) list) \<times> BurnIntent list" where
  "signIntents configs world destinationBlockchain destinationUsdc recipient valueOf fee i [] = (Inr [], [])"
| "signIntents configs world destinationBlockchain destinationUsdc recipient valueOf fee i (token # rest) =
     (case getWalletAddress world (walletId token) of
        Inl e \<Rightarrow> (Inl e, [])
      | Inr walletAddress \<Rightarrow>
          (case createBurnIntent configs (blockchain token) destinationBlockchain (tokenAddress token)
                  destinationUsdc walletAddress recipient (valueOf token) fee (randomSalts world i) of
             Inl e \<Rightarrow> (Inl e, [])
           | Inr burnIntent \<Rightarrow>
               (case signBurnIntent world (walletId token) burnIntent of
                  Inl e \<Rightarrow> (Inl e, [burnIntent])
                | Inr signature \<Rightarrow>
                    (case signIntents configs world destinationBlockchain destinationUsdc recipient
                            valueOf fee (Suc i) rest of
                       (Inl e, made) \<Rightarrow> (Inl e, burnIntent # made)
                     | (Inr requests, made) \<Rightarrow> (Inr ((burnIntent, signature) # requests), burnIntent # made)))))"

text \<open>
  Steps 1 to 6 as both routes have them, from the balances on: \<open>depositStep\<close> is the
  route's \<^verbatim>\<open>depositToGateway\<close>, \<open>required\<close> is the amount handed to the selection,
  \<open>valueOf\<close> and \<open>fee\<close> are what the burn intents are built with. Every throw is caught by the route and answered with status 500.
\<close>

definition failed500 :: "js_error \<Rightarrow> transfer_response" where
  "failed500 e = (case e of Error details \<Rightarrow> Failed500 details)"

definition runTransfer ::
  "deposit_step \<Rightarrow> (string \<times> GatewayDomainConfig) list \<Rightarrow> transfer_request \<Rightarrow> transfer_world \<Rightarrow>
     GatewayDomainConfig \<Rightarrow> string list option \<Rightarrow> int \<Rightarrow> (SelectedToken \<Rightarrow> int) \<Rightarrow> int \<Rightarrow>
     transfer_response \<times> transfer_trace" where
  "runTransfer depositStep configs req world destinationConfig allowedBlockchains required valueOf fee =
     (case queryUserBalances world allowedBlockchains of
        Inl e \<Rightarrow> (failed500 e, \<lparr>deposited = [], intents = []\<rparr>)
      | Inr balances \<Rightarrow>
          if balances = [] then
            (BadRequest400 ''No USDC balances found in user wallets'', \<lparr>deposited = [], intents = []\<rparr>)
          else
            (case selectTokensForTransfer balances required of
               Inl e \<Rightarrow> (failed500 e, \<lparr>deposited = [], intents = []\<rparr>)
             | Inr selectedTokens \<Rightarrow>
                 (case depositAll depositStep world selectedTokens of
                    (Inl e, calls) \<Rightarrow> (failed500 e, \<lparr>deposited = calls, intents = []\<rparr>)
                  | (Inr depositTxIds, calls) \<Rightarrow>
                      (case signIntents configs world (cfgBlockchain destinationConfig)
                              (usdcAddress destinationConfig) (destinationAddress req) valueOf fee 0
                              selectedTokens of
                         (Inl e, made) \<Rightarrow> (failed500 e, \<lparr>deposited = calls, intents = made\<rparr>)
                       | (Inr requests, made) \<Rightarrow>
                           (case attestAndMint world (cfgBlockchain destinationConfig) requests of
                              Inl e \<Rightarrow> (failed500 e, \<lparr>deposited = calls, intents = made\<rparr>)
                            | Inr mintTxHashes \<Rightarrow>
                                (Initiated200 depositTxIds mintTxHashes (cfgBlockchain destinationConfig)
                                   (destinationAddress req) (amountText req),
                                 \<lparr>deposited = calls, intents = made\<rparr>))))))"

text \<open>
  \<^verbatim>\<open>Array.from(new Set(xs))\<close>: the elements of \<open>xs\<close> in the order of their first
  occurrence.
\<close>

definition uniqueInOrder :: "string list \<Rightarrow> string list" where
  "uniqueInOrder xs = rev (remdups (rev xs))"

text \<open>
  \<^verbatim>\<open>router.post('/transfer')\<close> of \<^verbatim>\<open>routes/gateway.ts\<close>: the fee is
  \<^verbatim>\<open>(amountBigInt * 1n) / 1000n\<close>, the selection must cover amount and fee, the burn
  intents carry the amount as value and the fee as \<^verbatim>\<open>maxFee\<close>.
\<close>

definition gatewayTransfer ::
  "(string \<times> GatewayDomainConfig) list \<Rightarrow> transfer_request \<Rightarrow> transfer_world \<Rightarrow>
     transfer_response \<times> transfer_trace" where
  "gatewayTransfer configs req world =
     (case userUuid world of
        None \<Rightarrow> (Unauthorized401, \<lparr>deposited = [], intents = []\<rparr>)
      | Some uuid \<Rightarrow>
          (case walletSetId world of
             None \<Rightarrow> (NotFound404 ''User has no wallet set'', \<lparr>deposited = [], intents = []\<rparr>)
           | Some ws \<Rightarrow>
               let amountBigInt = int (amountUnits req);
                   feeBuffer = bigint_div (amountBigInt * 1) 1000;
                   maxFeeAllowed = feeBuffer;
                   totalRequired = amountBigInt + maxFeeAllowed
               in
                 (case map_of configs (reqChain req @ '':'' @ reqNetwork req) of
                    None \<Rightarrow>
                      (BadRequest400 (''Unsupported chain/network combination: '' @ reqChain req @ '' '' @
                                      reqNetwork req),
                       \<lparr>deposited = [], intents = []\<rparr>)
                  | Some destinationConfig \<Rightarrow>
                      (case sourceWallets req of
                         None \<Rightarrow>
                           runTransfer depositToGateway configs req world destinationConfig None totalRequired
                             (\<lambda>token. amountBigInt) maxFeeAllowed
                       | Some keys \<Rightarrow>
                           if keys = [] then
                             runTransfer depositToGateway configs req world destinationConfig None totalRequired
                               (\<lambda>token. amountBigInt) maxFeeAllowed
                           else if List.map_filter (map_of configs) keys = [] then
                             (BadRequest400 ''No valid sourceWallets provided'',
                              \<lparr>deposited = [], intents = []\<rparr>)
                           else
                             runTransfer depositToGateway configs req world destinationConfig
                               (Some (uniqueInOrder (map cfgBlockchain (List.map_filter (map_of configs) keys))))
                               totalRequired (\<lambda>token. amountBigInt) maxFeeAllowed))))"

text \<open>
  \<^verbatim>\<open>router.post('/transfer')\<close> of the older copy of the route, with the older
  service's \<^verbatim>\<open>depositToGateway\<close>: \<^verbatim>\<open>maxFee\<close> is
  \<^verbatim>\<open>amountBigInt + (amountBigInt * 5n / 1000n)\<close> (commented \<open>0.5% fee buffer\<close>), the
  selection covers the amount alone, each burn intent carries its token's draw as value.
\<close>

definition gatewayTransfer_older ::
  "(string \<times> GatewayDomainConfig) list \<Rightarrow> transfer_request \<Rightarrow> transfer_world \<Rightarrow>
     transfer_response \<times> transfer_trace" where
  "gatewayTransfer_older configs req world =
     (case userUuid world of
        None \<Rightarrow> (Unauthorized401, \<lparr>deposited = [], intents = []\<rparr>)
      | Some uuid \<Rightarrow>
          (case walletSetId world of
             None \<Rightarrow> (NotFound404 ''User has no wallet set'', \<lparr>deposited = [], intents = []\<rparr>)
           | Some ws \<Rightarrow>
               let amountBigInt = int (amountUnits req);
                   maxFeeAllowed = amountBigInt + bigint_div (amountBigInt * 5) 1000
               in
                 (case map_of configs (reqChain req @ '':'' @ reqNetwork req) of
                    None \<Rightarrow>
                      (BadRequest400 (''Unsupported chain/network combination: '' @ reqChain req @ '' '' @
                                      reqNetwork req),
                       \<lparr>deposited = [], intents = []\<rparr>)
                  | Some destinationConfig \<Rightarrow>
                      runTransfer depositToGateway_older configs req world destinationConfig None amountBigInt
                        amount maxFeeAllowed)))"

text \<open>
  A world in which everything outside succeeds at once: two wallets on ARC testnet
  holding 0.7 and 0.5 USDC, every transaction confirmed at the first poll, the indexed
  balance raised at the first read.
\<close>

definition confirmedAtOnce :: "string \<Rightarrow> submission" where
  "confirmedAtOnce txId =
     \<lparr>prefund = None, created = CreateReply (Some txId), polls = (\<lambda>i. PollReply (Some ''CONFIRMED'') None)\<rparr>"

definition smoothWorld :: transfer_world where
  "smoothWorld =
     \<lparr>userUuid = Some ''user-1'',
      walletSetId = Some ''set-1'',
      queryUserBalances = (\<lambda>allowed. Inr [wallet ''w1'' 700000, wallet ''w2'' 500000]),
      depositWorld = (\<lambda>token.
        \<lparr>domainOf = Some 26,
         depositorAddress = Inr (Some ''0xA''),
         gatewayBalanceBefore = Inr 0,
         approveAttempts = (\<lambda>k. confirmedAtOnce ''approve-1''),
         depositAttempts = (\<lambda>k. confirmedAtOnce ''deposit-1''),
         balanceReads = (\<lambda>k. Inr (amount token))\<rparr>),
      getWalletAddress = (\<lambda>w. Inr ''0xA''),
      randomSalts = (\<lambda>i. ''00''),
      signBurnIntent = (\<lambda>w b. Inr ''0xsig''),
      attestAndMint = (\<lambda>chain requests. Inr (map (\<lambda>r. ''0xmint'') requests))\<rparr>"

definition oneUsdcToArc :: transfer_request where
  "oneUsdcToArc =
     \<lparr>amountText = ''1'', amountUnits = 1000000,
      destinationAddress = ''0x00000000000000000000000000000000000000bb'',
      reqChain = ''ARC'', reqNetwork = ''Testnet'', sourceWallets = None\<rparr>"

section \<open>The nonce registry of the proxy (\<^verbatim>\<open>pendingNonces\<close>)\<close>

text \<open>
  The fields of an endpoint the registry reads. The source's field \<^verbatim>\<open>method\<close> is
  \<open>httpMethod\<close> here (the source's name is a keyword of the theory language);
  \<^verbatim>\<open>buildNonceKey\<close> admits an endpoint without \<^verbatim>\<open>originalPath\<close>.
\<close>

record endpoint =
  httpMethod :: string
  originalPath :: "string option"
  path :: string
  maxTimeoutSeconds :: int

record PendingNonce =
  expiresAt :: int

text \<open>\<^verbatim>\<open>new Map<string, PendingNonce>()\<close>, the only state shared between requests.\<close>

type_synonym pendingNonces = "string \<rightharpoonup> PendingNonce"

text \<open>\<^verbatim>\<open>endpoint.originalPath || endpoint.path\<close>: a missing or empty string is falsy.\<close>

definition buildNonceKey :: "endpoint \<Rightarrow> string \<Rightarrow> string" where
  "buildNonceKey ep nonce =
     (let route = (case originalPath ep of
                     None \<Rightarrow> path ep
                   | Some p \<Rightarrow> if p = [] then path ep else p)
      in toUpperCase (httpMethod ep) @ ''::'' @ route @ ''::'' @ nonce)"

definition cleanupExpiredNonces :: "int \<Rightarrow> pendingNonces \<Rightarrow> pendingNonces" where
  "cleanupExpiredNonces nowSeconds pending =
     (\<lambda>key. case pending key of
              None \<Rightarrow> None
            | Some entry \<Rightarrow> if expiresAt entry \<le> nowSeconds then None else Some entry)"

text \<open>
  \<^verbatim>\<open>issueNonce\<close>, given the nonce \<^verbatim>\<open>generateNonce()\<close> drew and the second the clock
  shows; it returns the offer's fields and the registry it leaves.
\<close>

definition issueNonce ::
  "endpoint \<Rightarrow> string \<Rightarrow> int \<Rightarrow> pendingNonces \<Rightarrow> (string \<times> int \<times> int) \<times> pendingNonces" where
  "issueNonce ep nonce clock pending =
     (let validAfter = clock;
          validBefore = validAfter + maxTimeoutSeconds ep;
          swept = cleanupExpiredNonces validAfter pending
      in ((nonce, validAfter, validBefore),
          swept(buildNonceKey ep nonce \<mapsto> \<lparr>expiresAt = validBefore\<rparr>)))"

text \<open>
  \<^verbatim>\<open>consumeNonce\<close>: the sweep, then \<^verbatim>\<open>pendingNonces.delete(key)\<close>, which answers
  whether the key was there.
\<close>

definition consumeNonce :: "endpoint \<Rightarrow> string \<Rightarrow> int \<Rightarrow> pendingNonces \<Rightarrow> bool \<times> pendingNonces" where
  "consumeNonce ep nonce clock pending =
     (let swept = cleanupExpiredNonces clock pending;
          key = buildNonceKey ep nonce
      in (swept key \<noteq> None, swept(key := None)))"

text \<open>An endpoint and a nonce for the scenarios.\<close>

definition weatherEndpoint :: endpoint where
  "weatherEndpoint =
     \<lparr>httpMethod = ''get'', originalPath = Some ''/weather'', path = ''/weather'', maxTimeoutSeconds = 300\<rparr>"

section \<open>Payment payloads and requirements (\<^verbatim>\<open>payments.ts\<close>)\<close>

text \<open>
  The source's field names \<^verbatim>\<open>from\<close>, \<^verbatim>\<open>to\<close>, \<^verbatim>\<open>value\<close> and the one-letter
  \<^verbatim>\<open>v\<close>, \<^verbatim>\<open>r\<close>, \<^verbatim>\<open>s\<close> carry a prefix here. Times are seconds since the epoch.
\<close>

record EIP3009Authorization =
  authFrom :: string
  authTo :: string
  authValue :: string
  validAfter :: int
  validBefore :: int
  authNonce :: string

text \<open>
  A signature as \<^verbatim>\<open>toSignature\<close> builds it from a payload: the three fields are
  optional in the payload, and the cast that makes them mandatory checks nothing.
\<close>

record EIP3009Signature =
  sigV :: "int option"
  sigR :: "string option"
  sigS :: "string option"

record PayloadFields =
  payFrom :: string
  payTo :: string
  payValue :: string
  payValidAfter :: int
  payValidBefore :: int
  payNonce :: string
  paySignature :: "string option"
  payV :: "int option"
  payR :: "string option"
  payS :: "string option"

record EIP3009PaymentPayload =
  x402Version :: int
  payScheme :: string
  payNetwork :: string
  payload :: PayloadFields

record PaymentRequirements =
  reqScheme :: string
  reqNetworkName :: string
  reqToken :: string
  reqAmount :: string
  reqRecipient :: string
  reqDescription :: string
  reqMaxTimeoutSeconds :: int

definition toAuthorization :: "EIP3009PaymentPayload \<Rightarrow> EIP3009Authorization" where
  "toAuthorization p =
     \<lparr>authFrom = payFrom (payload p), authTo = payTo (payload p), authValue = payValue (payload p),
      validAfter = payValidAfter (payload p), validBefore = payValidBefore (payload p),
      authNonce = payNonce (payload p)\<rparr>"

definition toSignature :: "EIP3009PaymentPayload \<Rightarrow> EIP3009Signature" where
  "toSignature p = \<lparr>sigV = payV (payload p), sigR = payR (payload p), sigS = payS (payload p)\<rparr>"

section \<open>Signer recovery (\<^verbatim>\<open>eip3009.ts\<close>)\<close>

text \<open>
  The hash and curve library (viem) is outside the repository: the digest of a transfer
  authorization under a token's EIP-712 domain, and \<^verbatim>\<open>recoverAddress\<close>, are
  arguments. Either is \<^term>\<open>None\<close> when the library throws.
\<close>

record crypto =
  typedDataDigest ::
    "string \<Rightarrow> string \<Rightarrow> int \<Rightarrow> int \<Rightarrow> int \<Rightarrow> string \<Rightarrow> string \<Rightarrow> string \<Rightarrow> string \<Rightarrow> int \<Rightarrow> string option"
  recoverAddress :: "string \<Rightarrow> string \<Rightarrow> string option"

text \<open>\<^verbatim>\<open>n.toString(16).padStart(2, '0')\<close> for an integer \<open>n\<close>.\<close>

definition hex_char :: "nat \<Rightarrow> char" where
  "hex_char d = ''0123456789abcdef'' ! d"

function nat_toHex :: "nat \<Rightarrow> string" where
  "nat_toHex n = (if n < 16 then [hex_char n] else nat_toHex (n div 16) @ [hex_char (n mod 16)])"
  by pat_completeness auto
termination
  by (relation "measure id") auto

definition toString16 :: "int \<Rightarrow> string" where
  "toString16 i = (if i < 0 then CHR ''-'' # nat_toHex (nat (- i)) else nat_toHex (nat i))"

definition padStart2 :: "string \<Rightarrow> string" where
  "padStart2 s = replicate (2 - length s) CHR ''0'' @ s"

definition secp256k1N :: int where
  "secp256k1N = 0xFFFFFFFFFFFFFFFFFFFFFFFFFFFFFFFEBAAEDCE6AF48A03BBFD25E8CD0364141"

definition secp256k1halfN :: int where
  "secp256k1halfN = bigint_div secp256k1N 2"

text \<open>
  \<^verbatim>\<open>recoverAddressFromDigest\<close>. Beside its result it returns the calls of
  \<^verbatim>\<open>recoverAddress\<close> it made, each with the digest and the 65-byte signature it
  passed. \<^verbatim>\<open>BigInt(undefined)\<close> and \<^verbatim>\<open>undefined.toString\<close> throw, and the
  \<^verbatim>\<open>catch\<close> turns every throw into \<^verbatim>\<open>null\<close>.
\<close>

definition recoverAddressFromDigest ::
  "crypto \<Rightarrow> string \<Rightarrow> EIP3009Signature \<Rightarrow> string option \<times> (string \<times> string) list" where
  "recoverAddressFromDigest lib digest signature =
     (case sigR signature of
        None \<Rightarrow> (None, [])
      | Some rText \<Rightarrow>
          (case BigInt_string rText of
             None \<Rightarrow> (None, [])
           | Some r \<Rightarrow>
               (case sigS signature of
                  None \<Rightarrow> (None, [])
                | Some sText \<Rightarrow>
                    (case BigInt_string sText of
                       None \<Rightarrow> (None, [])
                     | Some s \<Rightarrow>
                         if s > secp256k1halfN then (None, [])
                         else if r = 0 \<or> s = 0 then (None, [])
                         else
                           (case sigV signature of
                              None \<Rightarrow> (None, [])
                            | Some v \<Rightarrow>
                                let fullSignature = rText @ drop 2 sText @ padStart2 (toString16 v)
                                in (recoverAddress lib digest fullSignature,
                                    [(digest, fullSignature)]))))))"

text \<open>
  \<^verbatim>\<open>verifyTransferAuthorization\<close>: the check of \<^verbatim>\<open>v\<close>, the digest (for which
  \<^verbatim>\<open>BigInt(authorization.value)\<close> may throw), then the recovery.
\<close>

definition verifyTransferAuthorization ::
  "crypto \<Rightarrow> EIP3009Authorization \<Rightarrow> EIP3009Signature \<Rightarrow> string \<Rightarrow> string \<Rightarrow> string \<Rightarrow> int \<Rightarrow>
     string option \<times> (string \<times> string) list" where
  "verifyTransferAuthorization lib authorization signature tokenAddress' tokenName' tokenVersion chainId =
     (if sigV signature \<noteq> Some 27 \<and> sigV signature \<noteq> Some 28 then (None, [])
      else
        (case BigInt_string (authValue authorization) of
           None \<Rightarrow> (None, [])
         | Some amountValue \<Rightarrow>
             (case typedDataDigest lib (authFrom authorization) (authTo authorization) amountValue
                     (validAfter authorization) (validBefore authorization) (authNonce authorization)
                     tokenAddress' tokenName' tokenVersion chainId of
                None \<Rightarrow> (None, [])
              | Some digest \<Rightarrow> recoverAddressFromDigest lib digest signature)))"

text \<open>
  A library for the scenarios, in which every digest is the text \<open>digest\<close> and every
  recovery succeeds with the same address.
\<close>

definition fixedSigner :: "string \<Rightarrow> crypto" where
  "fixedSigner signer =
     \<lparr>typedDataDigest = (\<lambda>f t v a b n tok nm ver c. Some ''digest''),
      recoverAddress = (\<lambda>digest fullSignature. Some signer)\<rparr>"

section \<open>The facilitator (\<^verbatim>\<open>server.ts\<close>, in its two copies)\<close>

text \<open>
  What a facilitator knows of a network it serves: the token contract with its EIP-712
  name and version, the chain id, and the address payments must go to.
\<close>

record NetworkContext =
  ctxUsdcAddress :: string
  ctxUsdcName :: string
  ctxUsdcVersion :: string
  ctxChainId :: int
  ctxWalletAddress :: string

text \<open>
  The facilitator that serves several networks keeps their contexts in a plain object,
  \<^verbatim>\<open>const networkContexts = {}\<close>, and reads it with \<^verbatim>\<open>networkContexts[name]\<close>. The read
  finds the entry the object has of its own under the name, and otherwise, under the name
  of a property of \<^verbatim>\<open>Object.prototype\<close>, what the object inherits: a function or, for
  \<^verbatim>\<open>__proto__\<close>, the prototype itself, each of them truthy and none with a \<^verbatim>\<open>chain\<close>.
\<close>

datatype table_entry = Absent | Inherited | Own NetworkContext

definition objectPrototypeNames :: "string list" where
  "objectPrototypeNames =
     [''constructor'', ''__defineGetter__'', ''__defineSetter__'', ''hasOwnProperty'',
      ''__lookupGetter__'', ''__lookupSetter__'', ''isPrototypeOf'', ''propertyIsEnumerable'',
      ''toString'', ''valueOf'', ''__proto__'', ''toLocaleString'']"

definition lookupNetwork :: "(string \<rightharpoonup> NetworkContext) \<Rightarrow> string \<Rightarrow> table_entry" where
  "lookupNetwork networkContexts name =
     (case networkContexts name of
        Some ctx \<Rightarrow> Own ctx
      | None \<Rightarrow> if name \<in> set objectPrototypeNames then Inherited else Absent)"

text \<open>
  What a request asks of the outside: the library, the token contract's
  \<^verbatim>\<open>authorizationState(authorizer, nonce)\<close> (a read that may throw), and the clock, read
  once by \<^verbatim>\<open>verifyAuthorization\<close> and once by \<^verbatim>\<open>buildInvoice\<close>.
\<close>

record verify_world =
  lib :: crypto
  authorizationState :: "string \<Rightarrow> string \<Rightarrow> string \<Rightarrow> js_error + bool"
  nowTs :: int
  invoiceIssuedAt :: int

record PayloadTemplate =
  tplScheme :: string
  tplNetwork :: string
  tplToken :: string
  tplRecipient :: string
  tplAmount :: string
  tplValidAfter :: int
  tplValidBefore :: int
  nonceHint :: string

record Invoice =
  invoiceReason :: string
  invoiceRequirements :: PaymentRequirements
  payloadTemplate :: PayloadTemplate

definition buildInvoice :: "verify_world \<Rightarrow> PaymentRequirements \<Rightarrow> string \<Rightarrow> Invoice" where
  "buildInvoice world requirements why =
     \<lparr>invoiceReason = why,
      invoiceRequirements = requirements,
      payloadTemplate =
        \<lparr>tplScheme = reqScheme requirements,
         tplNetwork = reqNetworkName requirements,
         tplToken = reqToken requirements,
         tplRecipient = reqRecipient requirements,
         tplAmount = reqAmount requirements,
         tplValidAfter = invoiceIssuedAt world,
         tplValidBefore = invoiceIssuedAt world + reqMaxTimeoutSeconds requirements,
         nonceHint = ''<client-supplied 32-byte hex>''\<rparr>\<rparr>"

text \<open>
  \<^verbatim>\<open>ensureRequirements\<close> of the facilitator that serves several networks, given a
  context of the table's own: the first complaint, or none. \<^verbatim>\<open>BigInt(req.amount)\<close> may
  throw.
\<close>

definition ensureRequirements ::
  "(string \<rightharpoonup> NetworkContext) \<Rightarrow> PaymentRequirements \<Rightarrow> NetworkContext \<Rightarrow> js_error + string option" where
  "ensureRequirements networkContexts req ctx =
     (if reqScheme req \<noteq> ''exact'' then Inr (Some ''Unsupported payment scheme'')
      else if lookupNetwork networkContexts (reqNetworkName req) = Absent then
        Inr (Some ''Unsupported network'')
      else if toLowerCase (reqToken req) \<noteq> toLowerCase (ctxUsdcAddress ctx) then
        Inr (Some ''Unsupported token'')
      else if toLowerCase (reqRecipient req) \<noteq> toLowerCase (ctxWalletAddress ctx) then
        Inr (Some ''Recipient does not match Circle wallet address'')
      else
        (case BigInt_string (reqAmount req) of
           None \<Rightarrow> Inl (Error (''Cannot convert '' @ reqAmount req @ '' to a BigInt''))
         | Some a \<Rightarrow> if a \<le> 0 then Inr (Some ''Amount must be positive'') else Inr None))"

text \<open>
  \<^verbatim>\<open>verifyAuthorization\<close> of the same facilitator. \<^verbatim>\<open>!recovered\<close> holds for
  \<^verbatim>\<open>null\<close> and for the empty string.
\<close>

definition verifyAuthorization ::
  "verify_world \<Rightarrow> EIP3009PaymentPayload \<Rightarrow> PaymentRequirements \<Rightarrow> NetworkContext \<Rightarrow>
     js_error + EIP3009Authorization \<times> EIP3009Signature" where
  "verifyAuthorization world paymentPayload requirements ctx =
     (let auth = toAuthorization paymentPayload;
          sig = toSignature paymentPayload
      in
        if payScheme paymentPayload \<noteq> ''exact'' \<or> payNetwork paymentPayload \<noteq> reqNetworkName requirements
        then Inl (Error ''Payment payload network mismatch'')
        else if payValue (payload paymentPayload) \<noteq> reqAmount requirements
        then Inl (Error ''Payment amount mismatch'')
        else if toLowerCase (payTo (payload paymentPayload)) \<noteq> toLowerCase (reqRecipient requirements)
        then Inl (Error ''Payment recipient mismatch'')
        else
          (case fst (verifyTransferAuthorization (lib world) auth sig (reqToken requirements)
                       (ctxUsdcName ctx) (ctxUsdcVersion ctx) (ctxChainId ctx)) of
             None \<Rightarrow> Inl (Error ''Invalid EIP-3009 signature'')
           | Some recovered \<Rightarrow>
               if recovered = [] \<or> toLowerCase recovered \<noteq> toLowerCase (authFrom auth)
               then Inl (Error ''Invalid EIP-3009 signature'')
               else
                 (case authorizationState world (reqToken requirements) (authFrom auth) (authNonce auth) of
                    Inl e \<Rightarrow> Inl e
                  | Inr alreadyUsed \<Rightarrow>
                      if alreadyUsed then Inl (Error ''Authorization already used'')
                      else if nowTs world \<le> validAfter auth then Inl (Error ''Authorization not yet valid'')
                      else if nowTs world \<ge> validBefore auth then Inl (Error ''Authorization expired'')
                      else Inr (auth, sig))))"

subsection \<open>The facilitator that serves Arc testnet alone\<close>

text \<open>
  Its configuration: the token address, the EIP-712 name and version from the
  environment, the chain id of Arc testnet and the address of its own account.
\<close>

record ArcFacilitator =
  activeUsdcAddress :: string
  accountAddress :: string
  USDC_NAME :: string
  USDC_VERSION :: string

definition arcTestnetId :: int where
  "arcTestnetId = 5042002"

definition ensureRequirements_arc :: "ArcFacilitator \<Rightarrow> PaymentRequirements \<Rightarrow> js_error + string option" where
  "ensureRequirements_arc cfg req =
     (if reqScheme req \<noteq> ''exact'' then Inr (Some ''Unsupported payment scheme'')
      else if reqNetworkName req \<noteq> ''arc-testnet'' then Inr (Some ''Unsupported network'')
      else if toLowerCase (reqToken req) \<noteq> toLowerCase (activeUsdcAddress cfg) then
        Inr (Some ''Unsupported token'')
      else if toLowerCase (reqRecipient req) \<noteq> toLowerCase (accountAddress cfg) then
        Inr (Some ''Recipient does not match facilitator payout address'')
      else
        (case BigInt_string (reqAmount req) of
           None \<Rightarrow> Inl (Error (''Cannot convert '' @ reqAmount req @ '' to a BigInt''))
         | Some a \<Rightarrow> if a \<le> 0 then Inr (Some ''Amount must be positive'') else Inr None))"

definition verifyAuthorization_arc ::
  "ArcFacilitator \<Rightarrow> verify_world \<Rightarrow> EIP3009PaymentPayload \<Rightarrow> PaymentRequirements \<Rightarrow>
     js_error + EIP3009Authorization \<times> EIP3009Signature" where
  "verifyAuthorization_arc cfg world paymentPayload requirements =
     (let auth = toAuthorization paymentPayload;
          sig = toSignature paymentPayload
      in
        if payScheme paymentPayload \<noteq> ''exact'' \<or> payNetwork paymentPayload \<noteq> ''arc-testnet''
        then Inl (Error ''Payment payload network mismatch'')
        else if toLowerCase (payTo (payload paymentPayload)) \<noteq> toLowerCase (accountAddress cfg)
        then Inl (Error ''Payment payload recipient mismatch'')
        else if payValue (payload paymentPayload) \<noteq> reqAmount requirements
        then Inl (Error ''Payment amount mismatch'')
        else if toLowerCase (payTo (payload paymentPayload)) \<noteq> toLowerCase (reqRecipient requirements)
        then Inl (Error ''Payment recipient mismatch'')
        else
          (case fst (verifyTransferAuthorization (lib world) auth sig (reqToken requirements)
                       (USDC_NAME cfg) (USDC_VERSION cfg) arcTestnetId) of
             None \<Rightarrow> Inl (Error ''Invalid EIP-3009 signature'')
           | Some recovered \<Rightarrow>
               if recovered = [] \<or> toLowerCase recovered \<noteq> toLowerCase (authFrom auth)
               then Inl (Error ''Invalid EIP-3009 signature'')
               else
                 (case authorizationState world (reqToken requirements) (authFrom auth) (authNonce auth) of
                    Inl e \<Rightarrow> Inl e
                  | Inr alreadyUsed \<Rightarrow>
                      if alreadyUsed then Inl (Error ''Authorization already used'')
                      else if nowTs world \<le> validAfter auth then Inl (Error ''Authorization not yet valid'')
                      else if nowTs world \<ge> validBefore auth then Inl (Error ''Authorization expired'')
                      else Inr (auth, sig))))"

subsection \<open>The route \<^verbatim>\<open>/verify\<close>\<close>

text \<open>The body of a \<^verbatim>\<open>/verify\<close> request and the response to it.\<close>

record VerifyRequestBody =
  paymentPayload :: "EIP3009PaymentPayload option"
  paymentRequirements :: "PaymentRequirements option"

datatype verify_body =
    ErrorBody string "Invoice option"
  | InvalidBody string "Invoice option"
  | ValidBody string string string string int

record verify_response =
  status :: nat
  body :: verify_body

text \<open>
  The message of the \<^verbatim>\<open>TypeError\<close> that reading \<^verbatim>\<open>context.chain.usdcAddress\<close> throws when
  \<^verbatim>\<open>context.chain\<close> is \<^verbatim>\<open>undefined\<close>, as Node words it.
\<close>

definition noChainMessage :: string where
  "noChainMessage = ''Cannot read properties of undefined (reading '' @ [CHR 0x27] @ ''usdcAddress'' @ [CHR 0x27] @ '')''"

text \<open>
  \<^verbatim>\<open>app.post("/verify")\<close> of the facilitator that serves several networks. Whatever is
  thrown inside the \<^verbatim>\<open>try\<close> is answered by the \<^verbatim>\<open>catch\<close> with status 200. A context that
  was found but is not the table's own passes the test \<^verbatim>\<open>!context\<close>, and
  \<^verbatim>\<open>ensureRequirements\<close> throws at its first line, which reads
  \<^verbatim>\<open>context.chain.usdcAddress\<close>.
\<close>

definition verifyRoute ::
  "(string \<rightharpoonup> NetworkContext) \<Rightarrow> verify_world \<Rightarrow> VerifyRequestBody \<Rightarrow> verify_response" where
  "verifyRoute networkContexts world request =
     (case paymentRequirements request of
        None \<Rightarrow> \<lparr>status = 400, body = ErrorBody ''Missing payment requirements'' None\<rparr>
      | Some requirements \<Rightarrow>
          (case lookupNetwork networkContexts (reqNetworkName requirements) of
             Absent \<Rightarrow> \<lparr>status = 400, body = ErrorBody ''Unsupported network'' None\<rparr>
           | Inherited \<Rightarrow>
               \<lparr>status = 200,
                body = InvalidBody noChainMessage
                         (Some (buildInvoice world requirements noChainMessage))\<rparr>
           | Own ctx \<Rightarrow>
               (case ensureRequirements networkContexts requirements ctx of
                  Inl (Error err) \<Rightarrow>
                    \<lparr>status = 200, body = InvalidBody err (Some (buildInvoice world requirements err))\<rparr>
                | Inr (Some reqError) \<Rightarrow>
                    \<lparr>status = 400,
                     body = ErrorBody reqError (Some (buildInvoice world requirements reqError))\<rparr>
                | Inr None \<Rightarrow>
                    (case paymentPayload request of
                       None \<Rightarrow>
                         \<lparr>status = 200,
                          body = InvalidBody ''Missing payment payload''
                                   (Some (buildInvoice world requirements ''Payment payload required''))\<rparr>
                     | Some p \<Rightarrow>
                         (case verifyAuthorization world p requirements ctx of
                            Inl (Error err) \<Rightarrow>
                              \<lparr>status = 200,
                               body = InvalidBody err (Some (buildInvoice world requirements err))\<rparr>
                          | Inr (authorization, signature) \<Rightarrow>
                              \<lparr>status = 200,
                               body = ValidBody (authFrom authorization) (authValue authorization)
                                        (reqToken requirements) (reqRecipient requirements)
                                        (validBefore authorization)\<rparr>)))))"

text \<open>The same route of the facilitator that serves Arc testnet alone.\<close>

definition verifyRoute_arc :: "ArcFacilitator \<Rightarrow> verify_world \<Rightarrow> VerifyRequestBody \<Rightarrow> verify_response" where
  "verifyRoute_arc cfg world request =
     (case paymentRequirements request of
        None \<Rightarrow> \<lparr>status = 400, body = ErrorBody ''Missing payment requirements'' None\<rparr>
      | Some requirements \<Rightarrow>
          (case ensureRequirements_arc cfg requirements of
             Inl (Error err) \<Rightarrow>
               \<lparr>status = 200, body = InvalidBody err (Some (buildInvoice world requirements err))\<rparr>
           | Inr (Some reqError) \<Rightarrow>
               \<lparr>status = 400,
                body = ErrorBody reqError (Some (buildInvoice world requirements reqError))\<rparr>
           | Inr None \<Rightarrow>
               (case paymentPayload request of
                  None \<Rightarrow>
                    \<lparr>status = 200,
                     body = InvalidBody ''Missing payment payload''
                              (Some (buildInvoice world requirements ''Payment payload required''))\<rparr>
                | Some p \<Rightarrow>
                    (case verifyAuthorization_arc cfg world p requirements of
                       Inl (Error err) \<Rightarrow>
                         \<lparr>status = 200,
                          body = InvalidBody err (Some (buildInvoice world requirements err))\<rparr>
                     | Inr (authorization, signature) \<Rightarrow>
                         \<lparr>status = 200,
                          body = ValidBody (authFrom authorization) (authValue authorization)
                                   (reqToken requirements) (reqRecipient requirements)
                                   (validBefore authorization)\<rparr>))))"



subsection \<open>A request for the scenarios\<close>

text \<open>
  One facilitator of each kind, paid at the same address; requirements for one USDC on
  Arc testnet; a payload that matches them, valid from second 1000 to second 1300, with a
  signature in canonical form that the library attributes to the payer.
\<close>

definition payerAddress :: string where
  "payerAddress = ''0x00000000000000000000000000000000000000aa''"

definition payoutAddress :: string where
  "payoutAddress = ''0x00000000000000000000000000000000000000FF''"

definition arcToken :: string where
  "arcToken = ''0x3600000000000000000000000000000000000000''"

definition arcContexts :: "string \<rightharpoonup> NetworkContext" where
  "arcContexts =
     [''arc-testnet'' \<mapsto>
        \<lparr>ctxUsdcAddress = arcToken, ctxUsdcName = ''USDC'', ctxUsdcVersion = ''2'',
         ctxChainId = 5042002, ctxWalletAddress = payoutAddress\<rparr>]"

definition arcContext :: NetworkContext where
  "arcContext =
     \<lparr>ctxUsdcAddress = arcToken, ctxUsdcName = ''USDC'', ctxUsdcVersion = ''2'',
      ctxChainId = 5042002, ctxWalletAddress = payoutAddress\<rparr>"

definition arcFacilitator :: ArcFacilitator where
  "arcFacilitator =
     \<lparr>activeUsdcAddress = arcToken, accountAddress = payoutAddress, USDC_NAME = ''USDC'', USDC_VERSION = ''2''\<rparr>"

definition oneUsdcRequired :: PaymentRequirements where
  "oneUsdcRequired =
     \<lparr>reqScheme = ''exact'', reqNetworkName = ''arc-testnet'', reqToken = arcToken,
      reqAmount = ''1000000'', reqRecipient = payoutAddress, reqDescription = ''weather'',
      reqMaxTimeoutSeconds = 300\<rparr>"

definition signedPayload :: EIP3009PaymentPayload where
  "signedPayload =
     \<lparr>x402Version = 1, payScheme = ''exact'', payNetwork = ''arc-testnet'',
      payload =
        \<lparr>payFrom = payerAddress, payTo = ''0x00000000000000000000000000000000000000ff'',
         payValue = ''1000000'', payValidAfter = 1000, payValidBefore = 1300,
         payNonce = ''0x01'', paySignature = None,
         payV = Some 27, payR = Some ''0x01'', payS = Some ''0x02''\<rparr>\<rparr>"

text \<open>The outside at second \<open>t\<close>: the nonce unused, recovery giving the payer.\<close>

definition worldAt :: "int \<Rightarrow> verify_world" where
  "worldAt t =
     \<lparr>lib = fixedSigner payerAddress,
      authorizationState = (\<lambda>token authorizer nonce. Inr False),
      nowTs = t,
      invoiceIssuedAt = t\<rparr>"






text \<open>The same requirements for a network called \<open>constructor\<close>.\<close>

definition constructorNetwork :: PaymentRequirements where
  "constructorNetwork = oneUsdcRequired\<lparr>reqNetworkName := ''constructor''\<rparr>"

section \<open>The payment header (\<^verbatim>\<open>payments.ts\<close>)\<close>

subsection \<open>What the platform does: JSON\<close>

text \<open>
  \<^verbatim>\<open>encodePaymentHeader\<close> and \<^verbatim>\<open>decodePaymentHeader\<close> are three lines each around
  \<^verbatim>\<open>JSON.stringify\<close>, \<^verbatim>\<open>JSON.parse\<close> and \<^verbatim>\<open>Buffer\<close>. These are modelled here as
  ECMAScript and Node define them, on the values the model has: a string is a list of
  code units below 256, a number is an integer (of at most \<open>2\<^sup>5\<^sup>3 - 1\<close> in absolute value,
  which \<^verbatim>\<open>JSON.stringify\<close> writes in decimal digits).
\<close>

datatype json =
    JNull
  | JBool bool
  | JNumber int
  | JString string
  | JArray "json list"
  | JObject "(string \<times> json) list"

text \<open>
  A string as \<^verbatim>\<open>JSON.stringify\<close> quotes it: the quotation mark and the backslash are
  escaped, the control characters below U+0020 are written \<^verbatim>\<open>\b\<close>, \<^verbatim>\<open>\t\<close>, \<^verbatim>\<open>\n\<close>,
  \<^verbatim>\<open>\f\<close>, \<^verbatim>\<open>\r\<close> or \<^verbatim>\<open>\u00xx\<close>, every other character stands for itself.
\<close>

definition escapeChar :: "char \<Rightarrow> string" where
  "escapeChar c =
     (if c = CHR 0x22 then [CHR 0x5C, CHR 0x22]
      else if c = CHR 0x5C then [CHR 0x5C, CHR 0x5C]
      else if c = CHR 0x08 then [CHR 0x5C, CHR ''b'']
      else if c = CHR 0x09 then [CHR 0x5C, CHR ''t'']
      else if c = CHR 0x0A then [CHR 0x5C, CHR ''n'']
      else if c = CHR 0x0C then [CHR 0x5C, CHR ''f'']
      else if c = CHR 0x0D then [CHR 0x5C, CHR ''r'']
      else if (of_char c :: nat) < 32 then
        [CHR 0x5C, CHR ''u'', CHR ''0'', CHR ''0'', hex_char (of_char c div 16), hex_char (of_char c mod 16)]
      else [c])"

definition quoteJson :: "string \<Rightarrow> string" where
  "quoteJson s = CHR 0x22 # concat (map escapeChar s) @ [CHR 0x22]"

text \<open>
  \<^verbatim>\<open>JSON.stringify\<close> of a value, without indentation: the members of an object in the
  order of its properties.
\<close>

fun print_json :: "json \<Rightarrow> string"
  and print_elements :: "json list \<Rightarrow> string"
  and print_members :: "(string \<times> json) list \<Rightarrow> string" where
  "print_json JNull = ''null''"
| "print_json (JBool b) = (if b then ''true'' else ''false'')"
| "print_json (JNumber n) = bigint_toString n"
| "print_json (JString s) = quoteJson s"
| "print_json (JArray vs) = ''['' @ print_elements vs @ '']''"
| "print_json (JObject ms) = ''{'' @ print_members ms @ ''}''"
| "print_elements [] = []"
| "print_elements [v] = print_json v"
| "print_elements (v # w # vs) = print_json v @ '','' @ print_elements (w # vs)"
| "print_members [] = []"
| "print_members [(k, v)] = quoteJson k @ '':'' @ print_json v"
| "print_members ((k, v) # m # ms) = quoteJson k @ '':'' @ print_json v @ '','' @ print_members (m # ms)"

text \<open>
  \<^verbatim>\<open>JSON.parse\<close>. White space is space, tab, line feed and carriage return. Inside a
  string, after the opening quotation mark: the escapes of the JSON grammar; a control
  character that is not escaped is a syntax error; an escape \<^verbatim>\<open>\uxxxx\<close> of a code unit
  from 256 on is outside the strings of the model, and the parse fails there.
\<close>

definition isJsonSpace :: "char \<Rightarrow> bool" where
  "isJsonSpace c = (c \<in> set [CHR 0x20, CHR 0x09, CHR 0x0A, CHR 0x0D])"

definition skipSpace :: "string \<Rightarrow> string" where
  "skipSpace s = dropWhile isJsonSpace s"

definition unicodeEscape :: "char \<Rightarrow> char \<Rightarrow> char \<Rightarrow> char \<Rightarrow> nat option" where
  "unicodeEscape h1 h2 h3 h4 =
     (case (map_of radixTable h1, map_of radixTable h2, map_of radixTable h3, map_of radixTable h4) of
        (Some d1, Some d2, Some d3, Some d4) \<Rightarrow> Some (((d1 * 16 + d2) * 16 + d3) * 16 + d4)
      | _ \<Rightarrow> None)"

fun scanString :: "string \<Rightarrow> (string \<times> string) option" where
  "scanString [] = None"
| "scanString (c # cs) =
     (if c = CHR 0x22 then Some ([], cs)
      else if c = CHR 0x5C then
        (case cs of
           [] \<Rightarrow> None
         | e # es \<Rightarrow>
             if e = CHR ''u'' then
               (case es of
                  h1 # h2 # h3 # h4 # after \<Rightarrow>
                    (case unicodeEscape h1 h2 h3 h4 of
                       None \<Rightarrow> None
                     | Some n \<Rightarrow>
                         if n < 256 then map_option (\<lambda>(t, rest). (char_of n # t, rest)) (scanString after)
                         else None)
                | _ \<Rightarrow> None)
             else
               (case map_of [(CHR 0x22, CHR 0x22), (CHR 0x5C, CHR 0x5C), (CHR ''/'', CHR ''/''),
                             (CHR ''b'', CHR 0x08), (CHR ''f'', CHR 0x0C), (CHR ''n'', CHR 0x0A),
                             (CHR ''r'', CHR 0x0D), (CHR ''t'', CHR 0x09)] e of
                  None \<Rightarrow> None
                | Some d \<Rightarrow> map_option (\<lambda>(t, rest). (d # t, rest)) (scanString es)))
      else if (of_char c :: nat) < 32 then None
      else map_option (\<lambda>(t, rest). (c # t, rest)) (scanString cs))"

text \<open>
  A number: an optional minus sign and decimal digits, with no leading zero. A number
  with a fraction or an exponent is outside the integers of the model, and the parse fails
  there.
\<close>

definition parse_number :: "string \<Rightarrow> (json \<times> string) option" where
  "parse_number s =
     (let negative = startsWith s ''-'';
          unsignedText = (if negative then drop 1 s else s);
          digits = takeWhile isDigit unsignedText;
          rest = dropWhile isDigit unsignedText
      in if digits = [] \<or> (startsWith digits ''0'' \<and> length digits > 1) then None
         else if startsWith rest ''.'' \<or> startsWith rest ''e'' \<or> startsWith rest ''E'' then None
         else map_option (\<lambda>n. (JNumber (if negative then - n else n), rest)) (parseDigits 10 0 digits))"

text \<open>
  A value, the elements of an array after its opening bracket, the members of an object
  after its opening brace. The tests on the lengths are always passed (what is left after
  a value or a key is shorter than what there was); they are what the recursion is
  measured by.
\<close>

function parse_value :: "string \<Rightarrow> (json \<times> string) option"
  and parse_elements :: "string \<Rightarrow> (json list \<times> string) option"
  and parse_members :: "string \<Rightarrow> ((string \<times> json) list \<times> string) option" where
  "parse_value s =
     (case skipSpace s of
        [] \<Rightarrow> None
      | c # cs \<Rightarrow>
          if c = CHR ''{'' then
            (case skipSpace cs of
               [] \<Rightarrow> None
             | d # ds \<Rightarrow>
                 if d = CHR ''}'' then Some (JObject [], ds)
                 else map_option (\<lambda>(ms, rest). (JObject ms, rest)) (parse_members cs))
          else if c = CHR ''['' then
            (case skipSpace cs of
               [] \<Rightarrow> None
             | d # ds \<Rightarrow>
                 if d = CHR '']'' then Some (JArray [], ds)
                 else map_option (\<lambda>(vs, rest). (JArray vs, rest)) (parse_elements cs))
          else if c = CHR 0x22 then map_option (\<lambda>(t, rest). (JString t, rest)) (scanString cs)
          else if startsWith (c # cs) ''true'' then Some (JBool True, drop 4 (c # cs))
          else if startsWith (c # cs) ''false'' then Some (JBool False, drop 5 (c # cs))
          else if startsWith (c # cs) ''null'' then Some (JNull, drop 4 (c # cs))
          else parse_number (c # cs))"
| "parse_elements s =
     (case parse_value s of
        None \<Rightarrow> None
      | Some (v, s1) \<Rightarrow>
          (case skipSpace s1 of
             [] \<Rightarrow> None
           | c # s2 \<Rightarrow>
               if c = CHR '']'' then Some ([v], s2)
               else if c = CHR '','' \<and> length s2 < length s then
                 map_option (\<lambda>(vs, rest). (v # vs, rest)) (parse_elements s2)
               else None))"
| "parse_members s =
     (case skipSpace s of
        [] \<Rightarrow> None
      | q # s0 \<Rightarrow>
          if q \<noteq> CHR 0x22 then None
          else
            (case scanString s0 of
               None \<Rightarrow> None
             | Some (k, s1) \<Rightarrow>
                 (case skipSpace s1 of
                    [] \<Rightarrow> None
                  | c # s2 \<Rightarrow>
                      if c = CHR '':'' \<and> length s2 < length s then
                        (case parse_value s2 of
                           None \<Rightarrow> None
                         | Some (v, s3) \<Rightarrow>
                             (case skipSpace s3 of
                                [] \<Rightarrow> None
                              | e # s4 \<Rightarrow>
                                  if e = CHR ''}'' then Some ([(k, v)], s4)
                                  else if e = CHR '','' \<and> length s4 < length s then
                                    map_option (\<lambda>(ms, rest). ((k, v) # ms, rest)) (parse_members s4)
                                  else None))
                      else None)))"
  by pat_completeness auto
termination
proof (relation "measure (\<lambda>x. case x of
                             Inl s \<Rightarrow> 2 * length s
                           | Inr (Inl s) \<Rightarrow> 2 * length s + 1
                           | Inr (Inr s) \<Rightarrow> 2 * length s + 1)", goal_cases)
  case 1
  show ?case by simp
next
  case (2 s c cs d ds)
  have "length (skipSpace s) \<le> length s"
    by (simp add: skipSpace_def length_dropWhile_le)
  with 2(1) show ?case by simp
next
  case (3 s c cs d ds)
  have "length (skipSpace s) \<le> length s"
    by (simp add: skipSpace_def length_dropWhile_le)
  with 3(1) show ?case by simp
next
  case 4
  show ?case by simp
next
  case 5
  then show ?case by simp
next
  case 6
  then show ?case by simp
next
  case 7
  then show ?case by simp
qed

declare parse_value.simps [simp del] parse_elements.simps [simp del] parse_members.simps [simp del]

definition JSON_parse :: "string \<Rightarrow> json option" where
  "JSON_parse s =
     (case parse_value s of
        None \<Rightarrow> None
      | Some (v, rest) \<Rightarrow> if skipSpace rest = [] then Some v else None)"

subsection \<open>What the platform does: \<^verbatim>\<open>Buffer\<close>\<close>

text \<open>
  \<^verbatim>\<open>Buffer.from(text)\<close> holds the UTF-8 bytes of the text: one byte for a code unit below
  128, two for one below 256. \<^verbatim>\<open>buffer.toString('utf-8')\<close> reads them back; bytes that are
  not the UTF-8 of code units below 256 give characters that the strings of the model do
  not have, and the reading gives \<^term>\<open>None\<close> there.
\<close>

fun utf8Bytes :: "string \<Rightarrow> nat list" where
  "utf8Bytes [] = []"
| "utf8Bytes (c # cs) =
     (if (of_char c :: nat) < 128 then [of_char c]
      else [192 + of_char c div 64, 128 + of_char c mod 64]) @ utf8Bytes cs"

fun utf8Text :: "nat list \<Rightarrow> string option" where
  "utf8Text [] = Some []"
| "utf8Text [b] = (if b < 128 then Some [char_of b] else None)"
| "utf8Text (b # b2 # bs) =
     (if b < 128 then map_option (\<lambda>t. char_of b # t) (utf8Text (b2 # bs))
      else if (b = 194 \<or> b = 195) \<and> 128 \<le> b2 \<and> b2 < 192 then
        map_option (\<lambda>t. char_of ((b - 192) * 64 + (b2 - 128)) # t) (utf8Text bs)
      else None)"

text \<open>
  Base64 with the alphabet of RFC 4648 and padding, as \<^verbatim>\<open>buffer.toString('base64')\<close>
  writes it. \<^verbatim>\<open>Buffer.from(header, 'base64')\<close> reads up to the first \<^verbatim>\<open>=\<close>, takes
  \<^verbatim>\<open>-\<close> and \<^verbatim>\<open>_\<close> for \<^verbatim>\<open>+\<close> and \<^verbatim>\<open>/\<close>, and skips every other character that is not
  of the alphabet.
\<close>

definition base64Alphabet :: string where
  "base64Alphabet = ''ABCDEFGHIJKLMNOPQRSTUVWXYZabcdefghijklmnopqrstuvwxyz0123456789+/''"

definition base64Char :: "nat \<Rightarrow> char" where
  "base64Char n = base64Alphabet ! n"

definition unbase64 :: "char \<Rightarrow> nat option" where
  "unbase64 c =
     (if c = CHR ''-'' then Some 62
      else if c = CHR ''_'' then Some 63
      else map_of (zip base64Alphabet [0..<64]) c)"

fun toSextets :: "nat list \<Rightarrow> nat list" where
  "toSextets (a # b # c # bs) =
     [a div 4, (a mod 4) * 16 + b div 16, (b mod 16) * 4 + c div 64, c mod 64] @ toSextets bs"
| "toSextets [a, b] = [a div 4, (a mod 4) * 16 + b div 16, (b mod 16) * 4]"
| "toSextets [a] = [a div 4, (a mod 4) * 16]"
| "toSextets [] = []"

fun fromSextets :: "nat list \<Rightarrow> nat list" where
  "fromSextets (s1 # s2 # s3 # s4 # ss) =
     [s1 * 4 + s2 div 16, (s2 mod 16) * 16 + s3 div 4, (s3 mod 4) * 64 + s4] @ fromSextets ss"
| "fromSextets [s1, s2, s3] = [s1 * 4 + s2 div 16, (s2 mod 16) * 16 + s3 div 4]"
| "fromSextets [s1, s2] = [s1 * 4 + s2 div 16]"
| "fromSextets [s1] = []"
| "fromSextets [] = []"

definition base64_encode :: "nat list \<Rightarrow> string" where
  "base64_encode bs =
     map base64Char (toSextets bs) @ replicate ((3 - length bs mod 3) mod 3) CHR ''=''"

definition base64_decode :: "string \<Rightarrow> nat list" where
  "base64_decode header =
     fromSextets (List.map_filter unbase64 (takeWhile (\<lambda>c. c \<noteq> CHR ''='') header))"

text \<open>
  \<^verbatim>\<open>Buffer.from(text).toString('base64')\<close> and
  \<^verbatim>\<open>Buffer.from(header, 'base64').toString('utf-8')\<close>.
\<close>

definition toBase64 :: "string \<Rightarrow> string" where
  "toBase64 s = base64_encode (utf8Bytes s)"

definition fromBase64 :: "string \<Rightarrow> string option" where
  "fromBase64 header = utf8Text (base64_decode header)"

subsection \<open>A payload as a JSON value\<close>

text \<open>
  The object \<^verbatim>\<open>JSON.stringify\<close> is given: the properties of a payload in the order in
  which \<^verbatim>\<open>createPaymentPayload\<close> writes them, which is that of the interface; a property
  that is \<^verbatim>\<open>undefined\<close> is left out.
\<close>

definition optionalMember :: "string \<Rightarrow> ('a \<Rightarrow> json) \<Rightarrow> 'a option \<Rightarrow> (string \<times> json) list" where
  "optionalMember name wrap field = (case field of None \<Rightarrow> [] | Some x \<Rightarrow> [(name, wrap x)])"

definition toJson :: "EIP3009PaymentPayload \<Rightarrow> json" where
  "toJson paymentData =
     JObject
       [(''x402Version'', JNumber (x402Version paymentData)),
        (''scheme'', JString (payScheme paymentData)),
        (''network'', JString (payNetwork paymentData)),
        (''payload'',
         JObject
           ([(''from'', JString (payFrom (payload paymentData))),
             (''to'', JString (payTo (payload paymentData))),
             (''value'', JString (payValue (payload paymentData))),
             (''validAfter'', JNumber (payValidAfter (payload paymentData))),
             (''validBefore'', JNumber (payValidBefore (payload paymentData))),
             (''nonce'', JString (payNonce (payload paymentData)))] @
            optionalMember ''signature'' JString (paySignature (payload paymentData)) @
            optionalMember ''v'' JNumber (payV (payload paymentData)) @
            optionalMember ''r'' JString (payR (payload paymentData)) @
            optionalMember ''s'' JString (payS (payload paymentData))))]"

text \<open>
  The value \<^verbatim>\<open>JSON.parse\<close> gives, read as a payload of the interface (the cast of the
  source checks nothing): of a property written twice the last one counts, properties the
  interface does not have are dropped. A value that is not of the interface's shape is
  outside the model (\<^term>\<open>None\<close>); where a required property is missing,
  \<^verbatim>\<open>normalizeSignature\<close> answers false or throws, and the decoder gives \<^verbatim>\<open>null\<close>.
\<close>

definition property :: "(string \<times> json) list \<Rightarrow> string \<Rightarrow> json option" where
  "property members name = map_of (rev members) name"

definition textProperty :: "(string \<times> json) list \<Rightarrow> string \<Rightarrow> string option" where
  "textProperty members name = (case property members name of Some (JString s) \<Rightarrow> Some s | _ \<Rightarrow> None)"

definition numberProperty :: "(string \<times> json) list \<Rightarrow> string \<Rightarrow> int option" where
  "numberProperty members name = (case property members name of Some (JNumber n) \<Rightarrow> Some n | _ \<Rightarrow> None)"

text \<open>An optional property is there with the right kind of value, or it is not there.\<close>

definition wellTyped :: "(string \<times> json) list \<Rightarrow> string \<Rightarrow> bool \<Rightarrow> bool" where
  "wellTyped members name isText =
     (case property members name of
        None \<Rightarrow> True
      | Some (JString s) \<Rightarrow> isText
      | Some (JNumber n) \<Rightarrow> \<not> isText
      | Some other \<Rightarrow> False)"

definition fromJson :: "json \<Rightarrow> EIP3009PaymentPayload option" where
  "fromJson parsed =
     (case parsed of
        JObject outer \<Rightarrow>
          (case (numberProperty outer ''x402Version'', textProperty outer ''scheme'',
                 textProperty outer ''network'', property outer ''payload'') of
             (Some protocol, Some scheme, Some network, Some (JObject inner)) \<Rightarrow>
               (case (textProperty inner ''from'', textProperty inner ''to'', textProperty inner ''value'',
                      numberProperty inner ''validAfter'', numberProperty inner ''validBefore'',
                      textProperty inner ''nonce'') of
                  (Some payer, Some payee, Some amountWritten, Some notBefore, Some notAfter, Some nonce) \<Rightarrow>
                    if wellTyped inner ''signature'' True \<and> wellTyped inner ''v'' False \<and>
                       wellTyped inner ''r'' True \<and> wellTyped inner ''s'' True
                    then
                      Some \<lparr>x402Version = protocol, payScheme = scheme, payNetwork = network,
                            payload =
                              \<lparr>payFrom = payer, payTo = payee, payValue = amountWritten,
                               payValidAfter = notBefore, payValidBefore = notAfter, payNonce = nonce,
                               paySignature = textProperty inner ''signature'',
                               payV = numberProperty inner ''v'',
                               payR = textProperty inner ''r'',
                               payS = textProperty inner ''s''\<rparr>\<rparr>
                    else None
                | _ \<Rightarrow> None)
           | _ \<Rightarrow> None)
      | _ \<Rightarrow> None)"

subsection \<open>The two functions of the repository\<close>

definition encodePaymentHeader :: "EIP3009PaymentPayload \<Rightarrow> string" where
  "encodePaymentHeader paymentData = toBase64 (print_json (toJson paymentData))"

text \<open>
  \<^verbatim>\<open>parseInt(text, 16)\<close>: leading white space is skipped, then an optional sign, then an
  optional \<^verbatim>\<open>0x\<close>; the value is that of the longest run of hexadecimal digits that
  follows, and \<^verbatim>\<open>NaN\<close> (\<^term>\<open>None\<close>) when that run is empty.
\<close>

definition parseInt16 :: "string \<Rightarrow> int option" where
  "parseInt16 s =
     (let t = dropWhile isWhiteSpace s;
          unsignedText = (if startsWith t ''-'' \<or> startsWith t ''+'' then drop 1 t else t);
          numeral = (if startsWith unsignedText ''0x'' \<or> startsWith unsignedText ''0X''
                     then drop 2 unsignedText else unsignedText);
          digits = takeWhile (\<lambda>c. map_of radixTable c \<noteq> None) numeral
      in if digits = [] then None
         else map_option (\<lambda>n. if startsWith t ''-'' then - n else n) (parseDigits 16 0 digits))"

text \<open>
  JavaScript's truth of an optional string (\<^verbatim>\<open>undefined\<close> and the empty string are
  false) and of an optional number (\<^verbatim>\<open>undefined\<close> and zero are false).
\<close>

definition truthyText :: "string option \<Rightarrow> bool" where
  "truthyText t = (case t of None \<Rightarrow> False | Some x \<Rightarrow> x \<noteq> [])"

definition truthyNumber :: "int option \<Rightarrow> bool" where
  "truthyNumber n = (case n of None \<Rightarrow> False | Some x \<Rightarrow> x \<noteq> 0)"

text \<open>
  \<^verbatim>\<open>normalizeSignature\<close> answers a boolean and may write \<^verbatim>\<open>r\<close>, \<^verbatim>\<open>s\<close>, \<^verbatim>\<open>v\<close> into
  the payload it is given. Its only caller drops the payload when the answer is false, so
  the model gives \<^term>\<open>None\<close> for false and, for true, the payload as the call leaves
  it. The test \<^verbatim>\<open>=== undefined\<close> of \<^verbatim>\<open>validAfter\<close> and \<^verbatim>\<open>validBefore\<close> is never true of
  a payload of the interface, where both are numbers. After the split of a signature
  blob, \<^verbatim>\<open>v\<close> is what \<^verbatim>\<open>parseInt\<close> gave: defined, possibly \<^verbatim>\<open>NaN\<close> (the inner
  \<^term>\<open>None\<close> of \<open>vrs\<close> below).
\<close>

definition normalizeSignature :: "EIP3009PaymentPayload \<Rightarrow> EIP3009PaymentPayload option" where
  "normalizeSignature paymentData =
     (let p = payload paymentData in
      if x402Version paymentData = 0 \<or> payScheme paymentData = [] \<or> payNetwork paymentData = []
      then None
      else if payFrom p = [] \<or> payTo p = [] \<or> payValue p = [] \<or> payNonce p = [] then None
      else
        (let vrs =
           (if truthyText (paySignature p) \<and>
               (\<not> truthyNumber (payV p) \<or> \<not> truthyText (payR p) \<or> \<not> truthyText (payS p))
            then
              (let hex = (if startsWith (the (paySignature p)) ''0x''
                          then drop 2 (the (paySignature p)) else the (paySignature p))
               in if length hex \<noteq> 130 then None
                  else Some (Some (parseInt16 (take 2 (drop 128 hex))),
                             Some (''0x'' @ take 64 hex),
                             Some (''0x'' @ take 64 (drop 64 hex))))
            else Some (map_option Some (payV p), payR p, payS p))
         in case vrs of
              None \<Rightarrow> None
            | Some (v, r, s) \<Rightarrow>
                if v = None \<or> \<not> truthyText r \<or> \<not> truthyText s then None
                else if v \<noteq> Some (Some 27) \<and> v \<noteq> Some (Some 28) then None
                else Some (paymentData\<lparr>payload := p\<lparr>payV := the v, payR := r, payS := s\<rparr>\<rparr>)))"

text \<open>
  \<^verbatim>\<open>decodePaymentHeader\<close>: whatever is thrown on the way is caught and answered with
  \<^verbatim>\<open>null\<close>.
\<close>

definition decodePaymentHeader :: "string \<Rightarrow> EIP3009PaymentPayload option" where
  "decodePaymentHeader header =
     (case fromBase64 header of
        None \<Rightarrow> None
      | Some decoded \<Rightarrow>
          (case JSON_parse decoded of
             None \<Rightarrow> None
           | Some parsed \<Rightarrow>
               (case fromJson parsed of
                  None \<Rightarrow> None
                | Some paymentData \<Rightarrow> normalizeSignature paymentData)))"

text \<open>
  A payload that \<^const>\<open>normalizeSignature\<close> accepts and leaves as it is: every required
  field is true, \<^verbatim>\<open>v\<close> is 27 or 28, and \<^verbatim>\<open>r\<close> and \<^verbatim>\<open>s\<close> are there and not empty.
\<close>

definition signedInFull :: "EIP3009PaymentPayload \<Rightarrow> bool" where
  "signedInFull paymentData =
     (x402Version paymentData \<noteq> 0 \<and> payScheme paymentData \<noteq> [] \<and> payNetwork paymentData \<noteq> [] \<and>
      payFrom (payload paymentData) \<noteq> [] \<and> payTo (payload paymentData) \<noteq> [] \<and>
      payValue (payload paymentData) \<noteq> [] \<and> payNonce (payload paymentData) \<noteq> [] \<and>
      (payV (payload paymentData) = Some 27 \<or> payV (payload paymentData) = Some 28) \<and>
      truthyText (payR (payload paymentData)) \<and> truthyText (payS (payload paymentData)))"

text \<open>
  The numbers of a payload are integers that a JavaScript number holds exactly.
\<close>

definition safeInteger :: "int \<Rightarrow> bool" where
  "safeInteger n = (\<bar>n\<bar> \<le> 2 ^ 53 - 1)"

definition safeIntegers :: "EIP3009PaymentPayload \<Rightarrow> bool" where
  "safeIntegers paymentData =
     (safeInteger (x402Version paymentData) \<and> safeInteger (payValidAfter (payload paymentData)) \<and>
      safeInteger (payValidBefore (payload paymentData)) \<and>
      (case payV (payload paymentData) of None \<Rightarrow> True | Some v \<Rightarrow> safeInteger v))"

subsection \<open>Headers for the scenarios\<close>

text \<open>The header of the signed payload, as Node writes it.\<close>

definition scenarioHeader :: string where
  "scenarioHeader = ''eyJ4NDAyVmVyc2lvbiI6MSwic2NoZW1lIjoiZXhhY3QiLCJuZXR3b3JrIjoiYXJjLXRlc3RuZXQiLCJwYXlsb2FkIjp7ImZyb20iOiIweDAwMDAwMDAwMDAwMDAwMDAwMDAwMDAwMDAwMDAwMDAwMDAwMDAwYWEiLCJ0byI6IjB4MDAwMDAwMDAwMDAwMDAwMDAwMDAwMDAwMDAwMDAwMDAwMDAwMDBmZiIsInZhbHVlIjoiMTAwMDAwMCIsInZhbGlkQWZ0ZXIiOjEwMDAsInZhbGlkQmVmb3JlIjoxMzAwLCJub25jZSI6IjB4MDEiLCJ2IjoyNywiciI6IjB4MDEiLCJzIjoiMHgwMiJ9fQ==''"

text \<open>
  The signed payload with the recipient's address in mixed case; with the recovery
  identifier 1 in place of 27; and with its signature as one blob of 65 bytes (\<^verbatim>\<open>r\<close>,
  \<^verbatim>\<open>s\<close>, then \<^verbatim>\<open>1b\<close>) and no \<^verbatim>\<open>v\<close>, \<^verbatim>\<open>r\<close>, \<^verbatim>\<open>s\<close>.
\<close>

definition mixedCasePayload :: EIP3009PaymentPayload where
  "mixedCasePayload = signedPayload\<lparr>payload := (payload signedPayload)\<lparr>payTo := payoutAddress\<rparr>\<rparr>"

definition recoveryIdPayload :: EIP3009PaymentPayload where
  "recoveryIdPayload = signedPayload\<lparr>payload := (payload signedPayload)\<lparr>payV := Some 1\<rparr>\<rparr>"

definition blobSignature :: string where
  "blobSignature = ''0x'' @ replicate 63 CHR ''0'' @ ''1'' @ replicate 63 CHR ''0'' @ ''2'' @ ''1b''"

definition blobPayload :: EIP3009PaymentPayload where
  "blobPayload =
     signedPayload\<lparr>payload := (payload signedPayload)
       \<lparr>paySignature := Some blobSignature, payV := None, payR := None, payS := None\<rparr>\<rparr>"


chapter \<open>Properties\<close>

section \<open>Amount parsing: the value of the result\<close>

lemma split_on_nonempty: "split_on sep s \<noteq> []"
  by (induction s) (auto split: list.splits)

lemma amountParts_Nil: "amountParts [] = ([], [])"
  by (simp add: amountParts_def)

lemma amountParts_Cons:
  "amountParts (c # t) =
     (if c = CHR ''.'' then ([], fst (amountParts t))
      else (c # fst (amountParts t), snd (amountParts t)))"
proof -
  obtain part parts where sp: "split_on CHR ''.'' t = part # parts"
    using split_on_nonempty [of "CHR ''.''" t] by (cases "split_on CHR ''.'' t") auto
  show ?thesis
    by (cases parts) (simp_all add: amountParts_def sp)
qed

lemma amountDigits_Nil: "amountDigits [] = ([], [])"
  by (simp add: amountDigits_def amountParts_Nil)

lemma amountDigits_skip:
  "\<not> isDigit c \<Longrightarrow> c \<noteq> CHR ''.'' \<Longrightarrow> amountDigits (c # t) = amountDigits t"
  by (simp add: amountDigits_def amountParts_Cons)

lemma whitespace_other: "isWhiteSpace c \<Longrightarrow> \<not> isDigit c \<and> c \<noteq> CHR ''.''"
  by (auto simp: isWhiteSpace_def isDigit_def)

lemma amountDigits_dropWhile: "amountDigits (dropWhile isWhiteSpace t) = amountDigits t"
  by (induction t) (auto simp: amountDigits_skip dest: whitespace_other)

lemma amountDigits_snoc:
  "\<not> isDigit c \<Longrightarrow> c \<noteq> CHR ''.'' \<Longrightarrow> amountDigits (t @ [c]) = amountDigits t"
  by (induction t) (auto simp: amountDigits_def amountParts_Cons amountParts_Nil)

lemma amountDigits_rtrim: "amountDigits (rev (dropWhile isWhiteSpace (rev t))) = amountDigits t"
proof (induction t rule: rev_induct)
  case Nil
  show ?case by simp
next
  case (snoc c t)
  show ?case
  proof (cases "isWhiteSpace c")
    case True
    with snoc whitespace_other [of c] show ?thesis
      by (simp add: amountDigits_snoc)
  next
    case False
    then show ?thesis by simp
  qed
qed

lemma amountDigits_trim: "amountDigits (trim t) = amountDigits t"
  by (simp add: trim_def amountDigits_rtrim amountDigits_dropWhile)

lemma digit_lookup: "isDigit c \<Longrightarrow> \<exists>d<10. map_of radixTable c = Some d"
proof -
  assume "isDigit c"
  then consider "c = CHR ''0''" | "c = CHR ''1''" | "c = CHR ''2''" | "c = CHR ''3''"
    | "c = CHR ''4''" | "c = CHR ''5''" | "c = CHR ''6''" | "c = CHR ''7''"
    | "c = CHR ''8''" | "c = CHR ''9''"
    unfolding isDigit_def by fastforce
  then show ?thesis
    by cases (simp_all add: radixTable_def)
qed

lemma foldl_decimal:
  "foldl (\<lambda>acc c. acc * 10 + int (the (map_of radixTable c))) a ds =
     a * 10 ^ length ds + decimalValue ds"
proof (induction ds arbitrary: a)
  case Nil
  show ?case by (simp add: decimalValue_def)
next
  case (Cons c ds)
  show ?case
    using Cons [of "a * 10 + int (the (map_of radixTable c))"]
          Cons [of "int (the (map_of radixTable c))"]
    by (simp add: decimalValue_def algebra_simps)
qed

lemma decimalValue_Cons:
  "decimalValue (c # ds) = int (the (map_of radixTable c)) * 10 ^ length ds + decimalValue ds"
  using foldl_decimal [of "int (the (map_of radixTable c))" ds]
  by (simp add: decimalValue_def)

lemma decimalValue_append:
  "decimalValue (xs @ ys) = decimalValue xs * 10 ^ length ys + decimalValue ys"
  using foldl_decimal [of "decimalValue xs" ys]
  by (simp add: decimalValue_def)

lemma decimalValue_bounds:
  "list_all isDigit ds \<Longrightarrow> 0 \<le> decimalValue ds \<and> decimalValue ds < 10 ^ length ds"
proof (induction ds)
  case Nil
  show ?case by (simp add: decimalValue_def)
next
  case (Cons c ds)
  then obtain d where d: "d < 10" "map_of radixTable c = Some d"
    using digit_lookup [of c] by auto
  define P :: int where "P = 10 ^ length ds"
  have "int d \<le> 9" using d(1) by simp
  then have hi: "int d * P \<le> 9 * P"
    by (intro mult_right_mono) (simp_all add: P_def)
  have lo: "0 \<le> int d * P" by (simp add: P_def)
  have v: "0 \<le> decimalValue ds" "decimalValue ds < P"
    using Cons by (simp_all add: P_def)
  have eq: "decimalValue (c # ds) = int d * P + decimalValue ds"
    using d(2) by (simp add: decimalValue_Cons P_def)
  have "(10::int) ^ length (c # ds) = 10 * P" by (simp add: P_def)
  with hi lo v eq show ?case by linarith
qed

lemma parseDigits_decimal:
  "list_all isDigit ds \<Longrightarrow> parseDigits 10 a ds = Some (a * 10 ^ length ds + decimalValue ds)"
proof (induction ds arbitrary: a)
  case Nil
  show ?case by (simp add: decimalValue_def)
next
  case (Cons c ds)
  then obtain d where d: "d < 10" "map_of radixTable c = Some d"
    using digit_lookup [of c] by auto
  with Cons show ?case
    by (simp add: decimalValue_Cons algebra_simps)
qed

lemma digit_not_whitespace: "isDigit c \<Longrightarrow> \<not> isWhiteSpace c"
  by (auto simp: isWhiteSpace_def isDigit_def)

lemma trim_digits: "list_all isDigit ds \<Longrightarrow> trim ds = ds"
proof (cases ds rule: rev_cases)
  case Nil
  then show ?thesis by (simp add: trim_def)
next
  case (snoc xs x)
  assume all: "list_all isDigit ds"
  have front: "dropWhile isWhiteSpace ds = ds"
    using all by (cases ds) (auto dest: digit_not_whitespace)
  have "\<not> isWhiteSpace x" using all snoc by (auto dest: digit_not_whitespace)
  then show ?thesis using snoc front by (simp add: trim_def)
qed

lemma startsWith_two_digits:
  "list_all isDigit ds \<Longrightarrow> \<not> isDigit b \<Longrightarrow> \<not> startsWith ds [a, b]"
  by (cases ds; cases "tl ds") auto

lemma startsWith_one_digit:
  "list_all isDigit ds \<Longrightarrow> \<not> isDigit a \<Longrightarrow> \<not> startsWith ds [a]"
  by (cases ds) auto

lemma BigInt_string_digits:
  assumes "list_all isDigit ds" and "ds \<noteq> []"
  shows "BigInt_string ds = Some (decimalValue ds)"
proof -
  have nd: "\<not> isDigit CHR ''x''" "\<not> isDigit CHR ''X''" "\<not> isDigit CHR ''o''" "\<not> isDigit CHR ''O''"
    "\<not> isDigit CHR ''b''" "\<not> isDigit CHR ''B''" "\<not> isDigit CHR ''-''" "\<not> isDigit CHR ''+''"
    by (simp_all add: isDigit_def)
  show ?thesis
    using assms nd parseDigits_decimal [OF assms(1), of 0]
    by (simp add: BigInt_string_def trim_digits parseNumeral_def
        startsWith_two_digits startsWith_one_digit)
qed

lemma decimalValue_zeros: "decimalValue (replicate k CHR ''0'') = 0"
  by (induction k) (simp_all add: decimalValue_def decimalValue_Cons radixTable_def)

lemma scale_div_le:
  fixes v :: int
  assumes "n \<le> k"
  shows "v * 10 ^ k div 10 ^ n = v * 10 ^ (k - n)"
proof -
  have "(10::int) ^ k = 10 ^ (k - n) * 10 ^ n"
    using assms by (simp add: power_add [symmetric])
  then have "v * 10 ^ k = (v * 10 ^ (k - n)) * 10 ^ n"
    by (simp only: mult.assoc)
  then show ?thesis
    by (simp only: nonzero_mult_div_cancel_right) simp
qed

lemma scale_div_gt:
  fixes v :: int
  assumes "k < n"
  shows "v * 10 ^ k div 10 ^ n = v div 10 ^ (n - k)"
proof -
  have "(10::int) ^ n = 10 ^ (n - k) * 10 ^ k"
    using assms by (simp add: power_add [symmetric])
  moreover have "v * 10 ^ k div (10 ^ (n - k) * 10 ^ k) = v div 10 ^ (n - k)"
    by (rule div_mult_mult2) simp
  ultimately show ?thesis by (simp only:)
qed

lemma fraction_value_gen:
  assumes "list_all isDigit ds"
  shows "decimalValue (take k (ds @ replicate k CHR ''0'')) = decimalValue ds * 10 ^ k div 10 ^ length ds"
proof (cases "length ds \<le> k")
  case True
  then show ?thesis
    by (simp add: scale_div_le decimalValue_append decimalValue_zeros)
next
  case False
  define hi where "hi = take k ds"
  define lo where "lo = drop k ds"
  have ds: "ds = hi @ lo" and len: "length lo = length ds - k"
    by (simp_all add: hi_def lo_def)
  have lo: "0 \<le> decimalValue lo" "decimalValue lo < 10 ^ length lo"
    using decimalValue_bounds [of lo] assms by (simp_all add: lo_def list_all_iff in_set_dropD)
  have v: "decimalValue ds = decimalValue hi * 10 ^ length lo + decimalValue lo"
    using decimalValue_append [of hi lo] ds by simp
  have "decimalValue ds * 10 ^ k div 10 ^ length ds = decimalValue ds div 10 ^ length lo"
    using False by (simp add: scale_div_gt len)
  also have "\<dots> = decimalValue hi"
    unfolding v using lo by (simp add: div_pos_pos_trivial)
  finally show ?thesis using False by (simp add: hi_def)
qed

lemma fraction_value:
  assumes "list_all isDigit ds"
  shows "decimalValue (take 6 (ds @ ''000000'')) = decimalValue ds * 10 ^ 6 div 10 ^ length ds"
proof -
  have z: "''000000'' = replicate 6 CHR ''0''" by (simp add: numeral_eq_Suc)
  show ?thesis unfolding z by (rule fraction_value_gen [OF assms])
qed

lemma parseUsdc_general:
  "parseUsdcAmountToBaseUnits raw =
     Some (decimalValue (fst (amountDigits raw)) * 10 ^ 6 +
           decimalValue (snd (amountDigits raw)) * 10 ^ 6 div 10 ^ length (snd (amountDigits raw)))"
proof (cases "trim raw = []")
  case True
  then have "amountDigits raw = ([], [])"
    using amountDigits_trim [of raw] by (simp add: amountDigits_Nil)
  with True show ?thesis
    by (simp add: parseUsdcAmountToBaseUnits_def decimalValue_def)
next
  case False
  define ip where "ip = fst (amountDigits raw)"
  define fp where "fp = snd (amountDigits raw)"
  define intPart where "intPart = (if ip = [] then ''0'' else ip)"
  define frac where "frac = take 6 (fp @ ''000000'')"
  have parts: "filter isDigit (fst (amountParts (trim raw))) = ip"
    "filter isDigit (snd (amountParts (trim raw))) = fp"
    using amountDigits_trim [of raw] by (simp_all add: amountDigits_def ip_def fp_def)
  have dig: "list_all isDigit ip" "list_all isDigit fp"
    by (simp_all add: ip_def fp_def amountDigits_def list_all_iff)
  have zero: "isDigit CHR ''0''" by (simp add: isDigit_def)
  have v0: "decimalValue ''0'' = 0" "decimalValue [] = 0"
    by (simp_all add: decimalValue_def radixTable_def)
  have dint: "list_all isDigit intPart" "intPart \<noteq> []" "decimalValue intPart = decimalValue ip"
    using dig(1) zero v0 by (simp_all add: intPart_def)
  have "list_all isDigit (fp @ ''000000'')"
    using dig(2) zero by simp
  then have "list_all isDigit frac"
    unfolding frac_def list_all_iff by (meson in_set_takeD)
  moreover have "length frac = 6" by (simp add: frac_def)
  ultimately have dfrac: "list_all isDigit frac" "length frac = 6" by simp_all
  have "parseUsdcAmountToBaseUnits raw = BigInt_string (intPart @ frac)"
    using False parts
    by (simp add: parseUsdcAmountToBaseUnits_def case_prod_beta intPart_def frac_def Let_def)
  also have "\<dots> = Some (decimalValue (intPart @ frac))"
    using dint dfrac by (intro BigInt_string_digits) simp_all
  also have "decimalValue (intPart @ frac) = decimalValue ip * 10 ^ 6 + decimalValue fp * 10 ^ 6 div 10 ^ length fp"
    using dint(3) dfrac(2) fraction_value [OF dig(2)]
    by (simp add: decimalValue_append frac_def)
  finally show ?thesis by (simp add: ip_def fp_def)
qed

lemma fraction_below_unit:
  assumes "list_all isDigit ds"
  shows "0 \<le> decimalValue ds * 10 ^ 6 div 10 ^ length ds \<and> decimalValue ds * 10 ^ 6 div 10 ^ length ds < 10 ^ 6"
proof -
  have "length (take 6 (ds @ ''000000'')) = 6" by simp
  moreover have "list_all isDigit (take 6 (ds @ ''000000''))"
  proof -
    have "list_all isDigit (ds @ ''000000'')" using assms by (simp add: isDigit_def)
    then show ?thesis unfolding list_all_iff by (meson in_set_takeD)
  qed
  ultimately show ?thesis
    using decimalValue_bounds [of "take 6 (ds @ ''000000'')"] fraction_value [OF assms]
    by (simp only:)
qed

lemma sumUsdc_total:
  "sumUsdc acc tbs =
     Some (acc + sum_list (map (\<lambda>tb. the (parseUsdcAmountToBaseUnits
                                   (case reportedAmount tb of None \<Rightarrow> ''0'' | Some a \<Rightarrow> a))) tbs))"
  by (induction tbs arbitrary: acc) (simp_all add: parseUsdc_general)

text \<open>
  Claim C10. For every input string, \<^const>\<open>parseUsdcAmountToBaseUnits\<close> returns (it never
  throws) the integer part times \<open>10\<^sup>6\<close> plus the fraction, where the integer part is
  the number written by the decimal digits before the first dot, every other character
  removed, and the fraction is the number written by the digits \<open>ds\<close> after it, scaled to
  six places and cut off, never rounded up: \<open>\<lfloor>ds \<sqdot> 10\<^sup>6 / 10\<^bsup>length ds\<^esup>\<rfloor>\<close>, below
  \<open>10\<^sup>6\<close>. A leading minus sign changes nothing, so a negative decimal parses to its
  absolute value; a blank string gives \<open>0\<close>. The balance a wallet is credited with by
  \<^const>\<open>getWalletUsdcBalance\<close> is the sum of these values over the USDC-like entries the
  custody service reported.
\<close>

theorem parseUsdcAmountToBaseUnits_exact:
  "parseUsdcAmountToBaseUnits raw =
     Some (decimalValue (fst (amountDigits raw)) * 10 ^ 6 +
           decimalValue (snd (amountDigits raw)) * 10 ^ 6 div 10 ^ length (snd (amountDigits raw))) \<and>
   0 \<le> decimalValue (fst (amountDigits raw)) \<and>
   0 \<le> decimalValue (snd (amountDigits raw)) * 10 ^ 6 div 10 ^ length (snd (amountDigits raw)) \<and>
   decimalValue (snd (amountDigits raw)) * 10 ^ 6 div 10 ^ length (snd (amountDigits raw)) < 10 ^ 6 \<and>
   parseUsdcAmountToBaseUnits (CHR ''-'' # raw) = parseUsdcAmountToBaseUnits raw \<and>
   (trim raw = [] \<longrightarrow> parseUsdcAmountToBaseUnits raw = Some 0) \<and>
   parseUsdcAmountToBaseUnits ''-1.5'' = Some 1500000 \<and>
   parseUsdcAmountToBaseUnits ''0.9999999'' = Some 999999 \<and>
   parseUsdcAmountToBaseUnits ''10'' = Some 10000000 \<and>
   parseUsdcAmountToBaseUnits ''0.1'' = Some 100000 \<and>
   parseUsdcAmountToBaseUnits ''0.01'' = Some 10000 \<and>
   (getWalletUsdcBalance wId wChain wAddr (Some usdc) reported = Some (Some balance) \<longrightarrow>
      amount balance =
        sum_list (map (\<lambda>tb. the (parseUsdcAmountToBaseUnits
                                (case reportedAmount tb of None \<Rightarrow> ''0'' | Some a \<Rightarrow> a)))
                      (filter isUsdcLike reported)))"
proof -
  have dig: "list_all isDigit (fst (amountDigits raw))" "list_all isDigit (snd (amountDigits raw))"
    by (simp_all add: amountDigits_def list_all_iff)
  have minus: "amountDigits (CHR ''-'' # raw) = amountDigits raw"
    by (rule amountDigits_skip) (simp_all add: isDigit_def)
  have sign: "parseUsdcAmountToBaseUnits (CHR ''-'' # raw) = parseUsdcAmountToBaseUnits raw"
    by (simp only: parseUsdc_general minus)
  have blank: "trim raw = [] \<longrightarrow> parseUsdcAmountToBaseUnits raw = Some 0"
    by (simp add: parseUsdcAmountToBaseUnits_def)
  have ex1: "parseUsdcAmountToBaseUnits ''-1.5'' = Some 1500000"
    by (simp add: parseUsdcAmountToBaseUnits_def trim_def isWhiteSpace_def amountParts_def
        isDigit_def BigInt_string_def parseNumeral_def radixTable_def)
  have ex2: "parseUsdcAmountToBaseUnits ''0.9999999'' = Some 999999"
    by (simp add: parseUsdcAmountToBaseUnits_def trim_def isWhiteSpace_def amountParts_def
        isDigit_def BigInt_string_def parseNumeral_def radixTable_def)
  have ex3: "parseUsdcAmountToBaseUnits ''10'' = Some 10000000"
    by (simp add: parseUsdcAmountToBaseUnits_def trim_def isWhiteSpace_def amountParts_def
        isDigit_def BigInt_string_def parseNumeral_def radixTable_def)
  have ex4: "parseUsdcAmountToBaseUnits ''0.1'' = Some 100000"
    by (simp add: parseUsdcAmountToBaseUnits_def trim_def isWhiteSpace_def amountParts_def
        isDigit_def BigInt_string_def parseNumeral_def radixTable_def)
  have ex5: "parseUsdcAmountToBaseUnits ''0.01'' = Some 10000"
    by (simp add: parseUsdcAmountToBaseUnits_def trim_def isWhiteSpace_def amountParts_def
        isDigit_def BigInt_string_def parseNumeral_def radixTable_def)
  have agg: "getWalletUsdcBalance wId wChain wAddr (Some usdc) reported = Some (Some balance) \<longrightarrow>
      amount balance =
        sum_list (map (\<lambda>tb. the (parseUsdcAmountToBaseUnits
                                (case reportedAmount tb of None \<Rightarrow> ''0'' | Some a \<Rightarrow> a)))
                      (filter isUsdcLike reported))"
    by (auto simp: getWalletUsdcBalance_def sumUsdc_total split: if_splits)
  show ?thesis
    using parseUsdc_general [of raw] decimalValue_bounds [OF dig(1)]
      fraction_below_unit [OF dig(2)] sign blank ex1 ex2 ex3 ex4 ex5 agg
    by (simp only: simp_thms)
qed

text \<open>
  The theorem at a blank input and at a wallet with three reported tokens, two of them
  USDC-like, one of those with a minus sign.
\<close>

theorem parseUsdcAmountToBaseUnits_exact_witness:
  "parseUsdcAmountToBaseUnits '' '' = Some 0 \<and>
   sum_list (map (\<lambda>tb. the (parseUsdcAmountToBaseUnits
                           (case reportedAmount tb of None \<Rightarrow> ''0'' | Some a \<Rightarrow> a)))
      (filter isUsdcLike
        [\<lparr>tokenName = Some (Some ''USDC''), reportedAmount = Some ''1.5''\<rparr>,
         \<lparr>tokenName = Some (Some ''Wrapped Ether''), reportedAmount = Some ''7''\<rparr>,
         \<lparr>tokenName = Some (Some ''usdc.e''), reportedAmount = Some ''-0.25''\<rparr>])) = 1750000"
proof -
  define reported where "reported =
      [\<lparr>tokenName = Some (Some ''USDC''), reportedAmount = Some ''1.5''\<rparr>,
       \<lparr>tokenName = Some (Some ''Wrapped Ether''), reportedAmount = Some ''7''\<rparr>,
       \<lparr>tokenName = Some (Some ''usdc.e''), reportedAmount = Some ''-0.25''\<rparr>]"
  define held where "held =
      \<lparr>walletId = ''w1'', blockchain = ''ARC-TESTNET'', address = ''0xA'',
        tokenAddress = ''0x36'', amount = 1750000, decimals = 6\<rparr>"
  have blank: "trim '' '' = []" by (simp add: trim_def isWhiteSpace_def)
  have res: "getWalletUsdcBalance ''w1'' ''ARC-TESTNET'' ''0xA'' (Some ''0x36'') reported = Some (Some held)"
    by (simp add: reported_def held_def getWalletUsdcBalance_def isUsdcLike_def toUpperCase_def
        lowerLetters_def upperLetters_def
        parseUsdcAmountToBaseUnits_def trim_def isWhiteSpace_def amountParts_def
        isDigit_def BigInt_string_def parseNumeral_def radixTable_def)
  note all = parseUsdcAmountToBaseUnits_exact [of "'' ''" "''w1''" "''ARC-TESTNET''" "''0xA''" "''0x36''" reported held]
  note c6 = all [THEN conjunct2, THEN conjunct2, THEN conjunct2, THEN conjunct2, THEN conjunct2, THEN conjunct1]
  note c12 = all [THEN conjunct2, THEN conjunct2, THEN conjunct2, THEN conjunct2, THEN conjunct2, THEN conjunct2,
      THEN conjunct2, THEN conjunct2, THEN conjunct2, THEN conjunct2, THEN conjunct2]
  have first: "parseUsdcAmountToBaseUnits '' '' = Some 0"
    using c6 blank by (rule mp)
  have "amount held = sum_list (map (\<lambda>tb. the (parseUsdcAmountToBaseUnits
                           (case reportedAmount tb of None \<Rightarrow> ''0'' | Some a \<Rightarrow> a)))
      (filter isUsdcLike reported))"
    using c12 res by (rule mp)
  then have second: "sum_list (map (\<lambda>tb. the (parseUsdcAmountToBaseUnits
                           (case reportedAmount tb of None \<Rightarrow> ''0'' | Some a \<Rightarrow> a)))
      (filter isUsdcLike reported)) = 1750000"
    by (simp add: held_def)
  from first second show ?thesis
    unfolding reported_def by (rule conjI)
qed

section \<open>Balance selection: the loop and its result\<close>

lemma select_loop_nonpos: "r \<le> 0 \<Longrightarrow> select_loop bs r sel = (sel, r)"
  by (cases bs) auto


lemma select_loop_remaining:
  "0 < r \<Longrightarrow> snd (select_loop bs r sel) = max 0 (r - sum_list (map amount (positiveBalances bs)))"
proof (induction bs arbitrary: r sel)
  case Nil
  then show ?case by (simp add: positiveBalances_def)
next
  case (Cons b bs)
  show ?case
  proof (cases "0 < amount b")
    case False
    with Cons show ?thesis by (simp add: positiveBalances_def)
  next
    case True
    show ?thesis
    proof (cases "amount b < r")
      case True
      with \<open>0 < amount b\<close> Cons.prems Cons.IH [of "r - amount b"] show ?thesis
        by (simp add: positiveBalances_def algebra_simps)
    next
      case False
      have "0 \<le> sum_list (map amount (positiveBalances bs))"
        by (rule sum_list_nonneg) (auto simp: positiveBalances_def)
      with False \<open>0 < amount b\<close> Cons.prems show ?thesis
        by (auto simp add: positiveBalances_def select_loop_nonpos)
    qed
  qed
qed

lemma select_loop_sum:
  "sum_list (map amount (fst (select_loop bs r sel))) = sum_list (map amount sel) + (r - snd (select_loop bs r sel))"
  by (induction bs arbitrary: r sel) (auto simp: Let_def)



lemma sortDescending_mset: "mset (sortDescending bs) = mset bs"
  by (simp add: sortDescending_def)


lemma sortDescending_sum: "sum_list (map amount (sortDescending bs)) = sum_list (map amount bs)"
proof -
  have "mset (map amount (sortDescending bs)) = mset (map amount bs)"
    by (simp add: sortDescending_mset)
  then show ?thesis
    by (metis sum_mset_sum_list)
qed


lemma sum_positive_nonneg:
  "\<forall>b \<in> set bs. 0 \<le> amount b \<Longrightarrow> sum_list (map amount (positiveBalances bs)) = sum_list (map amount bs)"
  by (induction bs) (auto simp: positiveBalances_def)





text \<open>
  Claim C3, as the code has it. When no balance is negative and the amounts sum to
  strictly less than the requested amount, \<^const>\<open>selectTokensForTransfer\<close> returns no
  selection: it throws an \<^const>\<open>Error\<close> whose message names the requested amount and
  the total that is available, \<open>Insufficient balance. Need <requested>, have <total>\<close>.
  For balances \<open>[300000]\<close> and request \<open>1000000\<close> the message is
  \<open>Insufficient balance. Need 1000000, have 300000\<close>.
\<close>

theorem selectTokens_insufficient:
  assumes "\<forall>b \<in> set balances. 0 \<le> amount b" and "sum_list (map amount balances) < requestedAmount"
  shows "selectTokensForTransfer balances requestedAmount =
           Inl (Error (''Insufficient balance. Need '' @ bigint_toString requestedAmount @
                       '', have '' @ bigint_toString (sum_list (map amount balances)))) \<and>
         selectTokensForTransfer [b\<lparr>amount := 300000\<rparr>] 1000000 =
           Inl (Error ''Insufficient balance. Need 1000000, have 300000'')"
proof -
  define sorted where "sorted = sortDescending balances"
  have nonneg: "\<forall>b \<in> set sorted. 0 \<le> amount b"
    using assms(1) by (simp add: sorted_def sortDescending_def)
  have tot: "sum_list (map amount (positiveBalances sorted)) = sum_list (map amount balances)"
    using sum_positive_nonneg [OF nonneg] sortDescending_sum [of balances] by (simp add: sorted_def)
  have "0 \<le> sum_list (map amount balances)"
    by (rule sum_list_nonneg) (use assms(1) in auto)
  with assms(2) have rpos: "0 < requestedAmount" by simp
  have rem: "snd (select_loop sorted requestedAmount []) = requestedAmount - sum_list (map amount balances)"
    using select_loop_remaining [OF rpos, of sorted "[]"] tot assms(2) by simp
  have general: "selectTokensForTransfer balances requestedAmount =
           Inl (Error (''Insufficient balance. Need '' @ bigint_toString requestedAmount @
                       '', have '' @ bigint_toString (sum_list (map amount balances))))"
    using rem assms(2) by (simp add: selectTokensForTransfer_def sorted_def case_prod_beta)
  have scenario: "selectTokensForTransfer [b\<lparr>amount := 300000\<rparr>] 1000000 =
           Inl (Error ''Insufficient balance. Need 1000000, have 300000'')"
    by (simp add: selectTokensForTransfer_def sortDescending_def bigint_toString_def digit_char_def)
  from general scenario show ?thesis by simp
qed

text \<open>The theorem at two wallets holding half of the request between them.\<close>

theorem selectTokens_insufficient_witness:
  "selectTokensForTransfer [wallet ''a'' 200000, wallet ''b'' 300000] 1000000 =
     Inl (Error ''Insufficient balance. Need 1000000, have 500000'')"
  using selectTokens_insufficient [of "[wallet ''a'' 200000, wallet ''b'' 300000]" 1000000]
  by (simp add: wallet_def bigint_toString_def digit_char_def)

text \<open>
  Claim C3 as stated has the error name the shortfall \<open>700000\<close>. The message names
  the request and the available total; the text \<open>700000\<close> does not occur in it.
\<close>

theorem selectTokens_shortfall_counterexample:
  "selectTokensForTransfer [wallet ''a'' 300000] 1000000 =
     Inl (Error ''Insufficient balance. Need 1000000, have 300000'') \<and>
   \<not> str_includes ''Insufficient balance. Need 1000000, have 300000'' ''700000''"
  by (simp add: selectTokensForTransfer_def sortDescending_def wallet_def bigint_toString_def digit_char_def)

section \<open>Deposits: when a submission is retried\<close>

lemma startsWith_before_space:
  "CHR '' '' \<notin> set p \<Longrightarrow> startsWith (u @ CHR '' '' # b) p = startsWith u p"
proof (induction u arbitrary: p)
  case Nil
  then show ?case by (cases p) auto
next
  case (Cons x u)
  then show ?case by (cases p) auto
qed

lemma includes_across_space:
  assumes "CHR '' '' \<notin> set p" and "p \<noteq> []"
  shows "str_includes (a @ CHR '' '' # b) p = (str_includes a p \<or> str_includes b p)"
proof (induction a)
  case Nil
  from assms obtain c ps where "p = c # ps" "c \<noteq> CHR '' ''" by (cases p) auto
  then show ?case by simp
next
  case (Cons x a)
  have "startsWith (x # a @ CHR '' '' # b) p = startsWith (x # a) p"
    using startsWith_before_space [OF assms(1), of "x # a" b] by simp
  with Cons show ?case by auto
qed

lemma pollTransaction_unfold:
  "pollTransaction ps a =
     (if a < maxAttempts then
        (case ps a of
           PollThrows m \<Rightarrow> PollError m
         | PollReply None reason \<Rightarrow> pollTransaction ps (Suc a)
         | PollReply (Some state) reason \<Rightarrow>
             if state = [] \<or> \<not> (state = ''CONFIRMED'' \<or> state = ''COMPLETE'' \<or> state = ''CLEARED'' \<or>
                               state = ''FAILED'' \<or> state = ''DENIED'' \<or> state = ''CANCELLED'')
             then pollTransaction ps (Suc a)
             else if state = ''CONFIRMED'' \<or> state = ''COMPLETE'' \<or> state = ''CLEARED'' then Confirmed
             else Terminal state reason)
      else TimedOut)"
  by (subst pollTransaction.simps) (simp split: poll.splits option.splits)


lemma poll_step_Terminal:
  assumes "a < maxAttempts" and "pollTransaction ps a = Terminal st r"
  shows "(ps a = PollReply (Some st) r \<and> (st = ''FAILED'' \<or> st = ''DENIED'' \<or> st = ''CANCELLED'')) \<or>
         pollTransaction ps (Suc a) = Terminal st r"
proof (cases "ps a")
  case (PollThrows m)
  with assms pollTransaction_unfold [of ps a] show ?thesis by simp
next
  case (PollReply state reason)
  show ?thesis
  proof (cases state)
    case None
    with PollReply assms pollTransaction_unfold [of ps a] show ?thesis by simp
  next
    case (Some s)
    with PollReply assms pollTransaction_unfold [of ps a] show ?thesis
      by (simp split: if_splits)
  qed
qed

lemma poll_step_PollError:
  assumes "a < maxAttempts" and "pollTransaction ps a = PollError m"
  shows "ps a = PollThrows m \<or> pollTransaction ps (Suc a) = PollError m"
proof (cases "ps a")
  case (PollThrows m')
  with assms pollTransaction_unfold [of ps a] show ?thesis by simp
next
  case (PollReply state reason)
  show ?thesis
  proof (cases state)
    case None
    with PollReply assms pollTransaction_unfold [of ps a] show ?thesis by simp
  next
    case (Some s)
    with PollReply assms pollTransaction_unfold [of ps a] show ?thesis
      by (simp split: if_splits)
  qed
qed

lemma poll_past_end: "maxAttempts \<le> a \<Longrightarrow> pollTransaction ps a = TimedOut"
  by (subst pollTransaction.simps) simp

lemma pollTransaction_Terminal:
  assumes "pollTransaction ps a = Terminal st r"
  shows "(st = ''FAILED'' \<or> st = ''DENIED'' \<or> st = ''CANCELLED'') \<and> (\<exists>i. ps i = PollReply (Some st) r)"
proof (cases "a \<le> maxAttempts")
  case False
  with assms poll_past_end [of a ps] show ?thesis by simp
next
  case True
  then show ?thesis
    using assms
  proof (induction rule: inc_induct)
    case base
    with poll_past_end [of maxAttempts ps] show ?case by simp
  next
    case (step n)
    from poll_step_Terminal [OF step.hyps(2) step.prems]
    show ?case
    proof
      assume "ps n = PollReply (Some st) r \<and> (st = ''FAILED'' \<or> st = ''DENIED'' \<or> st = ''CANCELLED'')"
      then show ?thesis by (intro conjI exI [of _ n]) simp_all
    next
      assume "pollTransaction ps (Suc n) = Terminal st r"
      then show ?thesis by (rule step.IH)
    qed
  qed
qed

lemma pollTransaction_PollError:
  assumes "pollTransaction ps a = PollError m"
  shows "\<exists>i. ps i = PollThrows m"
proof (cases "a \<le> maxAttempts")
  case False
  with assms poll_past_end [of a ps] show ?thesis by simp
next
  case True
  then show ?thesis
    using assms
  proof (induction rule: inc_induct)
    case base
    with poll_past_end [of maxAttempts ps] show ?case by simp
  next
    case (step n)
    from poll_step_PollError [OF step.hyps(2) step.prems]
    show ?case
    proof
      assume "ps n = PollThrows m"
      then show ?thesis by (rule exI)
    next
      assume "pollTransaction ps (Suc n) = PollError m"
      then show ?thesis by (rule step.IH)
    qed
  qed
qed

lemma marker_shape: "CHR '' '' \<notin> set ''state=FAILED''" "''state=FAILED'' \<noteq> []"
  by simp_all

lemma reason_suffix_plain:
  assumes "\<not> str_includes r ''state=FAILED''"
  shows "\<not> str_includes (''reason='' @ r) ''state=FAILED''"
  using assms by simp

lemma terminal_message_marker:
  assumes tx: "\<not> str_includes txId ''state=FAILED''"
    and r: "\<forall>x. reason = Some x \<longrightarrow> \<not> str_includes x ''state=FAILED''"
    and st: "st = ''FAILED'' \<or> st = ''DENIED'' \<or> st = ''CANCELLED''"
  shows "str_includes (''Transaction '' @ txId @ '' failed with state='' @ st @
            (case reason of None \<Rightarrow> [] | Some x \<Rightarrow> if x = [] then [] else '' reason='' @ x))
           ''state=FAILED'' = (st = ''FAILED'')"
proof -
  define suffix where
    "suffix = (case reason of None \<Rightarrow> [] | Some x \<Rightarrow> if x = [] then [] else '' reason='' @ x)"
  have shape: "''Transaction '' @ txId @ '' failed with state='' @ st @ suffix =
      ''Transaction'' @ CHR '' '' # (txId @ CHR '' '' # (''failed'' @ CHR '' '' #
        (''with'' @ CHR '' '' # (''state='' @ st @ suffix))))"
    by simp
  have tail: "str_includes (''state='' @ st @ suffix) ''state=FAILED'' = (st = ''FAILED'')"
  proof (cases "suffix = []")
    case True
    with st show ?thesis by auto
  next
    case False
    then obtain x where x: "reason = Some x" "suffix = CHR '' '' # (''reason='' @ x)"
      by (auto simp: suffix_def split: option.splits if_splits)
    have "\<not> str_includes (''reason='' @ x) ''state=FAILED''"
      using r x(1) by (intro reason_suffix_plain) simp
    moreover have "str_includes (''state='' @ st) ''state=FAILED'' = (st = ''FAILED'')"
      using st by auto
    ultimately show ?thesis
      unfolding x(2)
      using includes_across_space [OF marker_shape, of "''state='' @ st" "''reason='' @ x"]
      by simp
  qed
  have "str_includes (''Transaction '' @ txId @ '' failed with state='' @ st @ suffix) ''state=FAILED''
      = (st = ''FAILED'')"
    unfolding shape
    by (simp only: includes_across_space [OF marker_shape] tail) (use tx in simp)
  then show ?thesis by (simp add: suffix_def)
qed

lemma timeout_message_marker:
  assumes tx: "\<not> str_includes txId ''state=FAILED''"
  shows "\<not> str_includes (''Transaction '' @ txId @ '' not confirmed within timeout window'') ''state=FAILED''"
proof -
  have shape: "''Transaction '' @ txId @ '' not confirmed within timeout window'' =
      ''Transaction'' @ CHR '' '' # (txId @ CHR '' '' # ''not confirmed within timeout window'')"
    by simp
  show ?thesis
    unfolding shape
    by (simp only: includes_across_space [OF marker_shape]) (use tx in simp)
qed

lemma wait_retryable:
  assumes tx: "\<not> str_includes txId ''state=FAILED''"
    and rs: "\<forall>i state r. ps i = PollReply state (Some r) \<longrightarrow> \<not> str_includes r ''state=FAILED''"
    and ms: "\<forall>i m. ps i = PollThrows m \<longrightarrow> \<not> str_includes m ''state=FAILED''"
    and w: "waitForTransactionConfirmed txId ps = Inl (Error msg)"
  shows "str_includes msg ''state=FAILED'' =
           (case pollTransaction ps 0 of Terminal state reason \<Rightarrow> state = ''FAILED'' | _ \<Rightarrow> False)"
proof (cases "pollTransaction ps 0")
  case Confirmed
  with w show ?thesis by (simp add: waitForTransactionConfirmed_def)
next
  case (Terminal st reason)
  from pollTransaction_Terminal [OF Terminal]
  have st: "st = ''FAILED'' \<or> st = ''DENIED'' \<or> st = ''CANCELLED''"
    and "\<exists>i. ps i = PollReply (Some st) reason" by auto
  with rs have r: "\<forall>x. reason = Some x \<longrightarrow> \<not> str_includes x ''state=FAILED''" by blast
  from w Terminal have m: "msg = ''Transaction '' @ txId @ '' failed with state='' @ st @
            (case reason of None \<Rightarrow> [] | Some x \<Rightarrow> if x = [] then [] else '' reason='' @ x)"
    by (simp add: waitForTransactionConfirmed_def)
  have "str_includes msg ''state=FAILED'' = (st = ''FAILED'')"
    unfolding m by (rule terminal_message_marker [OF tx r st])
  with Terminal show ?thesis by simp
next
  case (PollError m)
  from pollTransaction_PollError [OF PollError] ms have "\<not> str_includes m ''state=FAILED''" by blast
  with w PollError show ?thesis by (simp add: waitForTransactionConfirmed_def)
next
  case TimedOut
  with w have m: "msg = ''Transaction '' @ txId @ '' not confirmed within timeout window''"
    by (simp add: waitForTransactionConfirmed_def)
  have "\<not> str_includes msg ''state=FAILED''"
    unfolding m by (rule timeout_message_marker [OF tx])
  with TimedOut show ?thesis by simp
qed

lemma plainTexts_parts:
  assumes "plainTexts env"
  shows "created (env k) = CreateReply (Some txId) \<Longrightarrow> \<not> str_includes txId ''state=FAILED''"
    and "\<forall>i state r. polls (env k) i = PollReply state (Some r) \<longrightarrow> \<not> str_includes r ''state=FAILED''"
    and "\<forall>i m. polls (env k) i = PollThrows m \<longrightarrow> \<not> str_includes m ''state=FAILED''"
  using assms unfolding plainTexts_def by blast+

lemma submit_step:
  assumes plain: "plainTexts env" and bound: "attempt \<le> maxRetries"
  shows "submitWithRetries what env attempt l =
           (if failedOnChain (env attempt) \<and> attempt \<noteq> maxRetries
            then submitWithRetries what env (Suc attempt)
                   (case created (env attempt) of CreateReply t \<Rightarrow> t | CreateThrows m \<Rightarrow> None)
            else (attemptOutcome what (env attempt), attempt))"
proof (cases "prefund (env attempt)")
  case (Some m)
  with bound show ?thesis
    by (subst submitWithRetries.simps) (simp add: failedOnChain_def attemptOutcome_def)
next
  case None
  show ?thesis
  proof (cases "created (env attempt)")
    case (CreateThrows m)
    with bound None show ?thesis
      by (subst submitWithRetries.simps) (simp add: failedOnChain_def attemptOutcome_def)
  next
    case (CreateReply t)
    show ?thesis
    proof (cases t)
      case no_id: None
      with bound None CreateReply show ?thesis
        by (subst submitWithRetries.simps) (simp add: failedOnChain_def attemptOutcome_def)
    next
      case (Some txId)
      show ?thesis
      proof (cases "txId = []")
        case True
        with bound None CreateReply Some show ?thesis
          by (subst submitWithRetries.simps) (simp add: failedOnChain_def attemptOutcome_def)
      next
        case nonempty: False
        show ?thesis
        proof (cases "waitForTransactionConfirmed txId (polls (env attempt))")
          case (Inr u)
          then have "pollTransaction (polls (env attempt)) 0 = Confirmed"
            by (simp add: waitForTransactionConfirmed_def split: poll_outcome.splits)
          with bound None CreateReply Some nonempty Inr show ?thesis
            by (subst submitWithRetries.simps) (simp add: failedOnChain_def attemptOutcome_def)
        next
          case (Inl e)
          obtain msg where e: "e = Error msg" by (cases e)
          have tx: "\<not> str_includes txId ''state=FAILED''"
            using plainTexts_parts(1) [OF plain, of attempt txId] CreateReply Some by simp
          have marker: "str_includes msg ''state=FAILED'' =
              (case pollTransaction (polls (env attempt)) 0 of
                 Terminal state reason \<Rightarrow> state = ''FAILED'' | _ \<Rightarrow> False)"
            using Inl e
            by (intro wait_retryable [OF tx plainTexts_parts(2) [OF plain] plainTexts_parts(3) [OF plain]]) simp
          have failed: "failedOnChain (env attempt) = str_includes msg ''state=FAILED''"
            using None CreateReply Some nonempty marker by (simp add: failedOnChain_def)
          have outcome: "attemptOutcome what (env attempt) = Inl (Error msg)"
            using None CreateReply Some nonempty Inl e by (simp add: attemptOutcome_def)
          show ?thesis
            using bound None CreateReply Some nonempty Inl e
            by (subst submitWithRetries.simps) (simp add: failed outcome)
        qed
      qed
    qed
  qed
qed

text \<open>
  What either submission loop of \<^const>\<open>depositToGateway\<close> does when the texts the custody
  service returns do not themselves contain \<open>state=FAILED\<close> (\<^const>\<open>plainTexts\<close>): it
  makes at least one and at most three attempts (\<open>what\<close> is \<open>approval\<close> or \<open>deposit\<close>);
  every attempt that was followed by another one had submitted a transaction that the
  polls found in the on-chain state \<open>FAILED\<close>; an attempt before the third that ends in
  any other way (confirmation, a polling timeout, \<open>DENIED\<close> or \<open>CANCELLED\<close>, a failed
  poll, a missing transaction identifier, a throw of the prefund or of the submission) is
  the last one; and the loop's result is that last attempt's own outcome, its error
  unchanged.
\<close>

lemma deposit_retry_policy:
  assumes "plainTexts env"
  shows "case submitWithRetries what env 1 None of
           (res, n) \<Rightarrow>
             1 \<le> n \<and> n \<le> 3 \<and>
             (\<forall>k. 1 \<le> k \<and> k < n \<longrightarrow> failedOnChain (env k)) \<and>
             (n < 3 \<longrightarrow> \<not> failedOnChain (env n)) \<and>
             res = attemptOutcome what (env n)"
proof -
  note step = submit_step [OF assms]
  have s1: "submitWithRetries what env 1 None =
      (if failedOnChain (env 1)
       then submitWithRetries what env 2 (case created (env 1) of CreateReply t \<Rightarrow> t | CreateThrows m \<Rightarrow> None)
       else (attemptOutcome what (env 1), 1))"
    using step [of 1 what None] by (simp add: maxRetries_def numeral_2_eq_2)
  have s2: "\<And>l. submitWithRetries what env 2 l =
      (if failedOnChain (env 2)
       then submitWithRetries what env 3 (case created (env 2) of CreateReply t \<Rightarrow> t | CreateThrows m \<Rightarrow> None)
       else (attemptOutcome what (env 2), 2))"
    using step [of 2 what] by (simp add: maxRetries_def numeral_3_eq_3 numeral_2_eq_2)
  have s3: "\<And>l. submitWithRetries what env 3 l = (attemptOutcome what (env 3), 3)"
    using step [of 3 what] by (simp add: maxRetries_def)
  show ?thesis
  proof (cases "failedOnChain (env 1)")
    case False
    with s1 show ?thesis by simp
  next
    case f1: True
    show ?thesis
    proof (cases "failedOnChain (env 2)")
      case False
      have k: "\<And>k::nat. Suc 0 \<le> k \<Longrightarrow> k < 2 \<Longrightarrow> k = Suc 0" by arith
      from f1 False s1 s2 [of "case created (env 1) of CreateReply t \<Rightarrow> t | CreateThrows m \<Rightarrow> None"]
      show ?thesis by (auto dest: k)
    next
      case f2: True
      have k: "\<And>k::nat. Suc 0 \<le> k \<Longrightarrow> k < 3 \<Longrightarrow> k = Suc 0 \<or> k = 2" by arith
      from f1 f2 s1 s2 [of "case created (env 1) of CreateReply t \<Rightarrow> t | CreateThrows m \<Rightarrow> None"]
        s3 [of "case created (env 2) of CreateReply t \<Rightarrow> t | CreateThrows m \<Rightarrow> None"]
      show ?thesis by (auto dest: k)
    qed
  qed
qed

text \<open>
  At a first attempt that fails on chain and a second that is denied: the denial is
  returned from the second attempt, with no third.
\<close>

lemma deposit_retry_policy_example:
  "submitWithRetries ''approval'' firstFailsThenDenied 1 None =
     (attemptOutcome ''approval'' (firstFailsThenDenied 2), 2) \<and>
   attemptOutcome ''approval'' (firstFailsThenDenied 2) =
     Inl (Error ''Transaction tx-2 failed with state=DENIED'')"
proof -
  have plain: "plainTexts firstFailsThenDenied"
    unfolding plainTexts_def firstFailsThenDenied_def endsIn_def
    by (simp split: if_splits)
  have f1: "failedOnChain (firstFailsThenDenied 1)"
    by (simp add: failedOnChain_def firstFailsThenDenied_def endsIn_def pollTransaction.simps maxAttempts_def)
  have f2: "\<not> failedOnChain (firstFailsThenDenied 2)"
    by (simp add: failedOnChain_def firstFailsThenDenied_def endsIn_def pollTransaction.simps maxAttempts_def)
  obtain res n where rn: "submitWithRetries ''approval'' firstFailsThenDenied 1 None = (res, n)"
    by (cases "submitWithRetries ''approval'' firstFailsThenDenied 1 None")
  from deposit_retry_policy [OF plain, of "''approval''"] rn
  have facts: "1 \<le> n" "n \<le> 3" "\<forall>k. 1 \<le> k \<and> k < n \<longrightarrow> failedOnChain (firstFailsThenDenied k)"
    "n < 3 \<longrightarrow> \<not> failedOnChain (firstFailsThenDenied n)"
    "res = attemptOutcome ''approval'' (firstFailsThenDenied n)"
    by simp_all
  have "n \<noteq> 1" using facts(4) f1 by auto
  moreover have "n \<noteq> 3"
  proof
    assume "n = 3"
    with facts(3) have "failedOnChain (firstFailsThenDenied 2)" by simp
    with f2 show False ..
  qed
  ultimately have "n = 2" using facts(1,2) by arith
  with rn facts(5) have first: "submitWithRetries ''approval'' firstFailsThenDenied 1 None =
     (attemptOutcome ''approval'' (firstFailsThenDenied 2), 2)" by simp
  have second: "attemptOutcome ''approval'' (firstFailsThenDenied 2) =
     Inl (Error ''Transaction tx-2 failed with state=DENIED'')"
    by (simp add: attemptOutcome_def firstFailsThenDenied_def endsIn_def waitForTransactionConfirmed_def
        pollTransaction.simps maxAttempts_def)
  from first second show ?thesis by (rule conjI)
qed

text \<open>
  Claim C9 at a transaction that the polls find in the state \<open>DENIED\<close> with the error
  reason \<open>state=FAILED\<close>. The claim, and the comment \<^verbatim>\<open>Retry only on FAILED; other states
  or timeouts bubble up\<close> beside the test, let nothing but the on-chain state \<open>FAILED\<close>
  cause a retry. The \<^verbatim>\<open>catch\<close> tests the text of the message instead, and the message
  \<open>Transaction tx-1 failed with state=DENIED reason=state=FAILED\<close> contains the text it
  looks for: the denied transaction was not failed on chain, yet the loop submits a
  second transaction, and returns that one's identifier from its second attempt.
\<close>

theorem deposit_retries_denied_transaction:
  "pollTransaction (polls (deniedWithCraftedReason 1)) 0 = Terminal ''DENIED'' (Some ''state=FAILED'') \<and>
   \<not> failedOnChain (deniedWithCraftedReason 1) \<and>
   attemptOutcome ''approval'' (deniedWithCraftedReason 1) =
     Inl (Error ''Transaction tx-1 failed with state=DENIED reason=state=FAILED'') \<and>
   submitWithRetries ''approval'' deniedWithCraftedReason 1 None = (Inr (Some ''tx-2''), 2)"
proof -
  have denied: "pollTransaction (polls (deniedWithCraftedReason 1)) 0 =
      Terminal ''DENIED'' (Some ''state=FAILED'')"
    by (simp add: deniedWithCraftedReason_def endsIn_def pollTransaction.simps maxAttempts_def)
  have notFailed: "\<not> failedOnChain (deniedWithCraftedReason 1)"
    using denied by (simp add: failedOnChain_def deniedWithCraftedReason_def endsIn_def)
  have outcome: "attemptOutcome ''approval'' (deniedWithCraftedReason 1) =
     Inl (Error ''Transaction tx-1 failed with state=DENIED reason=state=FAILED'')"
    using denied
    by (simp add: attemptOutcome_def waitForTransactionConfirmed_def deniedWithCraftedReason_def
        endsIn_def)
  have retried: "submitWithRetries ''approval'' deniedWithCraftedReason 1 None = (Inr (Some ''tx-2''), 2)"
    by (simp add: deniedWithCraftedReason_def endsIn_def submitWithRetries.simps maxRetries_def
        waitForTransactionConfirmed_def pollTransaction.simps maxAttempts_def)
  from denied notFailed outcome retried show ?thesis by (intro conjI)
qed

section \<open>The transfer routes: what is deposited and what is burnt\<close>

lemma bigint_div_nonneg: "0 \<le> a \<Longrightarrow> 0 < b \<Longrightarrow> bigint_div a b = a div b"
  by (cases "a = 0") (simp_all add: bigint_div_def)

lemma select_sum_exact:
  assumes "selectTokensForTransfer balances required = Inr selected" and "0 \<le> required"
  shows "sum_list (map amount selected) = required"
proof -
  define r' where "r' = snd (select_loop (sortDescending balances) required [])"
  from assms(1) have sel: "selected = fst (select_loop (sortDescending balances) required [])"
    and le: "r' \<le> 0"
    by (auto simp: selectTokensForTransfer_def r'_def case_prod_beta split: if_splits)
  have "r' = 0"
  proof (cases "0 < required")
    case True
    from select_loop_remaining [OF True, of "sortDescending balances" "[]"] le show ?thesis
      by (simp add: r'_def)
  next
    case False
    with assms(2) show ?thesis by (simp add: r'_def select_loop_nonpos)
  qed
  with select_loop_sum [of "sortDescending balances" required "[]"] show ?thesis
    by (simp add: sel r'_def)
qed

lemma depositAll_all:
  "depositAll step world selected = (Inr txIds, calls) \<Longrightarrow> calls = selected \<and> length txIds = length selected"
proof (induction selected arbitrary: txIds calls)
  case Nil
  then show ?case by simp
next
  case (Cons token rest)
  then show ?case
    by (auto split: sum.splits prod.splits)
qed

lemma depositAll_prefix: "\<exists>k. snd (depositAll step world selected) = take k selected"
proof (induction selected)
  case Nil
  show ?case by simp
next
  case (Cons token rest)
  then obtain k where k: "snd (depositAll step world rest) = take k rest" by blast
  show ?case
  proof (cases "step (depositWorld world token) (walletId token) (blockchain token)
             (tokenAddress token) (amount token)")
    case (Inl e)
    then have "snd (depositAll step world (token # rest)) = take 1 (token # rest)" by simp
    then show ?thesis by blast
  next
    case (Inr txId)
    then have "snd (depositAll step world (token # rest)) = take (Suc k) (token # rest)"
      using k by (cases "depositAll step world rest") (auto split: sum.splits)
    then show ?thesis by blast
  qed
qed

lemma signIntents_made:
  "\<forall>b \<in> set (snd (signIntents configs world dst usdc recipient (\<lambda>token. v) fee i selected)).
      burnValue (spec b) = v \<and> maxFee b = fee"
proof (induction selected arbitrary: i)
  case Nil
  show ?case by simp
next
  case (Cons token rest)
  show ?case
    using Cons [of "Suc i"]
    by (auto simp: createBurnIntent_def split: sum.splits prod.splits option.splits)
qed

lemma signIntents_all:
  "signIntents configs world dst usdc recipient valueOf fee i selected = (Inr requests, made) \<Longrightarrow>
     length made = length selected \<and> map fst requests = made"
proof (induction selected arbitrary: i requests made)
  case Nil
  then show ?case by simp
next
  case (Cons token rest)
  then show ?case
    by (auto split: sum.splits prod.splits)
qed

lemma runTransfer_intents:
  "\<forall>b \<in> set (intents (snd (runTransfer step configs req world dc allowed required (\<lambda>token. v) fee))).
      burnValue (spec b) = v \<and> maxFee b = fee"
proof -
  have made: "\<And>sel x made. signIntents configs world (cfgBlockchain dc) (usdcAddress dc)
        (destinationAddress req) (\<lambda>token. v) fee 0 sel = (x, made) \<Longrightarrow>
        \<forall>b \<in> set made. burnValue (spec b) = v \<and> maxFee b = fee"
    using signIntents_made [of configs world "cfgBlockchain dc" "usdcAddress dc" "destinationAddress req" v fee 0]
    by (metis snd_conv)
  show ?thesis
    unfolding runTransfer_def
    by (auto split: sum.splits prod.splits dest: made)
qed

lemma runTransfer_initiated:
  assumes "runTransfer step configs req world dc allowed required valueOf fee =
             (Initiated200 ids mints c a t, trace)"
    and "0 \<le> required"
  shows "sum_list (map amount (deposited trace)) = required \<and>
         length (intents trace) = length (deposited trace) \<and> length ids = length (deposited trace)"
proof -
  from assms(1) obtain balances sel requests made where
    b: "queryUserBalances world allowed = Inr balances"
    and s: "selectTokensForTransfer balances required = Inr sel"
    and d: "depositAll step world sel = (Inr ids, deposited trace)"
    and i: "signIntents configs world (cfgBlockchain dc) (usdcAddress dc) (destinationAddress req)
              valueOf fee 0 sel = (Inr requests, intents trace)"
    unfolding runTransfer_def failed500_def
    by (auto split: sum.splits prod.splits if_splits js_error.splits)
  from depositAll_all [OF d] signIntents_all [OF i] select_sum_exact [OF s assms(2)]
  show ?thesis by simp
qed

text \<open>
  The route of \<^verbatim>\<open>routes/gateway.ts\<close> does what claim C7 says, for every request and
  whatever the outside does: each burn intent it creates carries the requested amount
  as value and the fee \<open>\<lfloor>amount / 1000\<rfloor>\<close> as \<^verbatim>\<open>maxFee\<close>, and when it answers with
  status 200 it has deposited a selection whose amounts sum to amount plus fee, with one
  burn intent per deposit.
\<close>

lemma gatewayTransfer_fee_policy:
  "case gatewayTransfer configs req world of
     (resp, trace) \<Rightarrow>
       (\<forall>b \<in> set (intents trace).
          burnValue (spec b) = int (amountUnits req) \<and> maxFee b = int (amountUnits req) div 1000) \<and>
       (\<forall>ids mints c a t. resp = Initiated200 ids mints c a t \<longrightarrow>
          sum_list (map amount (deposited trace)) = int (amountUnits req) + int (amountUnits req) div 1000 \<and>
          length (intents trace) = length (deposited trace) \<and>
          length ids = length (deposited trace))"
proof -
  define amt where "amt = int (amountUnits req)"
  define fee where "fee = amt div 1000"
  have feeq: "bigint_div (amt * 1) 1000 = fee"
    by (simp add: fee_def amt_def bigint_div_nonneg)
  have nonneg: "0 \<le> amt + fee"
    by (simp add: fee_def amt_def)
  have run: "\<And>dc allowed. case runTransfer depositToGateway configs req world dc allowed (amt + fee) (\<lambda>token. amt) fee of
     (resp, trace) \<Rightarrow>
       (\<forall>b \<in> set (intents trace). burnValue (spec b) = amt \<and> maxFee b = fee) \<and>
       (\<forall>ids mints c a t. resp = Initiated200 ids mints c a t \<longrightarrow>
          sum_list (map amount (deposited trace)) = amt + fee \<and>
          length (intents trace) = length (deposited trace) \<and>
          length ids = length (deposited trace))"
  proof -
    fix dc allowed
    obtain resp trace where rt: "runTransfer depositToGateway configs req world dc allowed (amt + fee) (\<lambda>token. amt) fee = (resp, trace)"
      by (cases "runTransfer depositToGateway configs req world dc allowed (amt + fee) (\<lambda>token. amt) fee")
    have a: "\<forall>b \<in> set (intents trace). burnValue (spec b) = amt \<and> maxFee b = fee"
      using runTransfer_intents [of depositToGateway configs req world dc allowed "amt + fee" amt fee] rt by simp
    have b: "\<forall>ids mints c a t. resp = Initiated200 ids mints c a t \<longrightarrow>
          sum_list (map amount (deposited trace)) = amt + fee \<and>
          length (intents trace) = length (deposited trace) \<and>
          length ids = length (deposited trace)"
      using runTransfer_initiated [OF _ nonneg] rt by blast
    from a b rt show "case runTransfer depositToGateway configs req world dc allowed (amt + fee) (\<lambda>token. amt) fee of
     (resp, trace) \<Rightarrow>
       (\<forall>b \<in> set (intents trace). burnValue (spec b) = amt \<and> maxFee b = fee) \<and>
       (\<forall>ids mints c a t. resp = Initiated200 ids mints c a t \<longrightarrow>
          sum_list (map amount (deposited trace)) = amt + fee \<and>
          length (intents trace) = length (deposited trace) \<and>
          length ids = length (deposited trace))"
      by auto
  qed
  show ?thesis
    unfolding gatewayTransfer_def Let_def amt_def [symmetric] feeq
    using run
    by (simp add: fee_def split: option.splits)
qed

lemma confirmed_wait_older:
  "waitForTransactionConfirmed_older txId (\<lambda>i. PollReply (Some ''CONFIRMED'') None) = Inr ()"
  by (simp add: waitForTransactionConfirmed_older_def pollTransaction_older.simps [of _ 0]
      maxAttempts_older_def)

lemma confirmedAtOnce_submitOnce:
  "txId \<noteq> [] \<Longrightarrow> submitOnce_older what (confirmedAtOnce txId) = Inr txId"
  by (simp add: submitOnce_older_def confirmedAtOnce_def confirmed_wait_older)

lemma smoothWorld_deposit:
  "depositToGateway_older (depositWorld smoothWorld token) w c t (amount token) = Inr (Some ''deposit-1'')"
  by (simp add: depositToGateway_older_def smoothWorld_def confirmedAtOnce_submitOnce)

lemma smoothWorld_fields:
  "userUuid smoothWorld = Some ''user-1''"
  "walletSetId smoothWorld = Some ''set-1''"
  "queryUserBalances smoothWorld allowed = Inr [wallet ''w1'' 700000, wallet ''w2'' 500000]"
  "getWalletAddress smoothWorld w = Inr ''0xA''"
  "randomSalts smoothWorld i = ''00''"
  "signBurnIntent smoothWorld w b = Inr ''0xsig''"
  "attestAndMint smoothWorld chain requests = Inr (map (\<lambda>r. ''0xmint'') requests)"
  by (simp_all add: smoothWorld_def)

lemma older_selection:
  "selectTokensForTransfer [wallet ''w1'' 700000, wallet ''w2'' 500000] 1000000 =
     Inr [wallet ''w1'' 700000, wallet ''w2'' 300000]"
  by (simp add: selectTokensForTransfer_def sortDescending_def wallet_def)

lemma older_deposits:
  "depositAll depositToGateway_older smoothWorld [wallet ''w1'' 700000, wallet ''w2'' 300000] =
     (Inr [Some ''deposit-1'', Some ''deposit-1''], [wallet ''w1'' 700000, wallet ''w2'' 300000])"
  by (simp add: smoothWorld_deposit)

text \<open>
  Claim C7 at the older copy of the route. A request for one USDC (\<open>1000000\<close> base
  units) by a user holding \<open>700000\<close> and \<open>500000\<close>, with everything outside
  succeeding: the route deposits \<open>700000 + 300000\<close>, the amount without any fee; its two
  burn intents carry the draws \<open>700000\<close> and \<open>300000\<close> as values, not the amount; and
  their \<^verbatim>\<open>maxFee\<close> is \<open>1005000\<close>, the amount plus half a percent, not a fee.
\<close>

theorem gatewayTransfer_older_one_usdc:
  "map amount (deposited (snd (gatewayTransfer_older GATEWAY_DOMAIN_CONFIGS_older oneUsdcToArc smoothWorld)))
     = [700000, 300000] \<and>
   map (\<lambda>b. (burnValue (spec b), maxFee b))
       (intents (snd (gatewayTransfer_older GATEWAY_DOMAIN_CONFIGS_older oneUsdcToArc smoothWorld)))
     = [(700000, 1005000), (300000, 1005000)] \<and>
   fst (gatewayTransfer_older GATEWAY_DOMAIN_CONFIGS_older oneUsdcToArc smoothWorld)
     = Initiated200 [Some ''deposit-1'', Some ''deposit-1''] [''0xmint'', ''0xmint''] ''ARC-TESTNET''
         ''0x00000000000000000000000000000000000000bb'' ''1''"
proof -
  have intents: "signIntents GATEWAY_DOMAIN_CONFIGS_older smoothWorld ''ARC-TESTNET''
      ''0x3600000000000000000000000000000000000000'' ''0x00000000000000000000000000000000000000bb''
      amount 1005000 0 [wallet ''w1'' 700000, wallet ''w2'' 300000] = (Inr requests, made) \<Longrightarrow>
      map (\<lambda>b. (burnValue (spec b), maxFee b)) made = [(700000, 1005000), (300000, 1005000)] \<and>
      length requests = 2" for requests made
    by (auto simp add: smoothWorld_fields createBurnIntent_def getDomainConfigByBlockchain_def
        GATEWAY_DOMAIN_CONFIGS_older_def wallet_def)
  obtain requests made where sm: "signIntents GATEWAY_DOMAIN_CONFIGS_older smoothWorld ''ARC-TESTNET''
      ''0x3600000000000000000000000000000000000000'' ''0x00000000000000000000000000000000000000bb''
      amount 1005000 0 [wallet ''w1'' 700000, wallet ''w2'' 300000] = (Inr requests, made)"
    by (simp add: smoothWorld_fields createBurnIntent_def getDomainConfigByBlockchain_def
        GATEWAY_DOMAIN_CONFIGS_older_def wallet_def)
  from intents [OF sm] have made: "map (\<lambda>b. (burnValue (spec b), maxFee b)) made = [(700000, 1005000), (300000, 1005000)]"
    and two: "length requests = 2" by simp_all
  have cfg: "map_of GATEWAY_DOMAIN_CONFIGS_older ''ARC:Testnet'' =
      Some \<lparr>cfgChain = ''ARC'', cfgNetwork = ''Testnet'', cfgBlockchain = ''ARC-TESTNET'', cfgDomain = 26,
        walletContractAddress = GATEWAY_WALLET_ADDRESS, minterContractAddress = GATEWAY_MINTER_ADDRESS,
        usdcAddress = ''0x3600000000000000000000000000000000000000''\<rparr>"
    by (simp add: GATEWAY_DOMAIN_CONFIGS_older_def)
  have mints: "map (\<lambda>r. ''0xmint'') requests = [''0xmint'', ''0xmint'']"
    using two by (cases requests; cases "tl requests") auto
  have run: "gatewayTransfer_older GATEWAY_DOMAIN_CONFIGS_older oneUsdcToArc smoothWorld =
      (Initiated200 [Some ''deposit-1'', Some ''deposit-1''] [''0xmint'', ''0xmint''] ''ARC-TESTNET''
         ''0x00000000000000000000000000000000000000bb'' ''1'',
       \<lparr>deposited = [wallet ''w1'' 700000, wallet ''w2'' 300000], intents = made\<rparr>)"
    by (simp add: gatewayTransfer_older_def oneUsdcToArc_def smoothWorld_fields cfg bigint_div_def
        runTransfer_def older_selection older_deposits sm mints
        del: signIntents.simps depositAll.simps)
  show ?thesis
    by (simp add: run made) (simp add: wallet_def)
qed

section \<open>The nonce registry: a nonce is consumed at most once\<close>

text \<open>
  Claim C4. \<^const>\<open>consumeNonce\<close> answers true exactly when the registry holds a record
  under the key of (method, route, nonce) whose expiry lies after the clock; afterwards
  no record is left under that key, and the records under other keys are those the sweep
  leaves. A second \<^const>\<open>consumeNonce\<close> of the same nonce answers false, at whatever
  time. Hence after one \<^const>\<open>issueNonce\<close>, two consumptions before the expiry answer
  true and then false.
\<close>

theorem consumeNonce_at_most_once:
  "fst (consumeNonce ep nonce clock pending) =
     (\<exists>entry. pending (buildNonceKey ep nonce) = Some entry \<and> clock < expiresAt entry) \<and>
   snd (consumeNonce ep nonce clock pending) (buildNonceKey ep nonce) = None \<and>
   (\<forall>key. key \<noteq> buildNonceKey ep nonce \<longrightarrow>
      snd (consumeNonce ep nonce clock pending) key = cleanupExpiredNonces clock pending key) \<and>
   \<not> fst (consumeNonce ep nonce later (snd (consumeNonce ep nonce clock pending))) \<and>
   (clock < issuedAt + maxTimeoutSeconds ep \<longrightarrow>
      fst (consumeNonce ep nonce clock (snd (issueNonce ep nonce issuedAt before))) \<and>
      \<not> fst (consumeNonce ep nonce later
               (snd (consumeNonce ep nonce clock (snd (issueNonce ep nonce issuedAt before))))))"
proof -
  have iff: "fst (consumeNonce ep nonce clock pending) =
     (\<exists>entry. pending (buildNonceKey ep nonce) = Some entry \<and> clock < expiresAt entry)"
    by (auto simp: consumeNonce_def cleanupExpiredNonces_def Let_def split: option.splits)
  have gone: "\<And>p. snd (consumeNonce ep nonce clock p) (buildNonceKey ep nonce) = None"
    by (simp add: consumeNonce_def Let_def)
  have others: "\<forall>key. key \<noteq> buildNonceKey ep nonce \<longrightarrow>
      snd (consumeNonce ep nonce clock pending) key = cleanupExpiredNonces clock pending key"
    by (simp add: consumeNonce_def Let_def)
  have absent: "\<And>p t. p (buildNonceKey ep nonce) = None \<Longrightarrow> \<not> fst (consumeNonce ep nonce t p)"
    by (simp add: consumeNonce_def cleanupExpiredNonces_def Let_def)
  have twice: "\<And>p. \<not> fst (consumeNonce ep nonce later (snd (consumeNonce ep nonce clock p)))"
    by (rule absent) (rule gone)
  have issued: "clock < issuedAt + maxTimeoutSeconds ep \<longrightarrow>
      fst (consumeNonce ep nonce clock (snd (issueNonce ep nonce issuedAt before)))"
    by (simp add: consumeNonce_def issueNonce_def cleanupExpiredNonces_def Let_def)
  from iff gone [of pending] others twice [of pending] issued
    twice [of "snd (issueNonce ep nonce issuedAt before)"]
  show ?thesis by simp
qed

text \<open>
  The theorem at a nonce issued at second 1000 for 300 seconds and consumed at seconds
  1060 and 1061.
\<close>

theorem consumeNonce_at_most_once_witness:
  "fst (consumeNonce weatherEndpoint ''0x01'' 1060 (snd (issueNonce weatherEndpoint ''0x01'' 1000 Map.empty))) \<and>
   \<not> fst (consumeNonce weatherEndpoint ''0x01'' 1061
            (snd (consumeNonce weatherEndpoint ''0x01'' 1060
                    (snd (issueNonce weatherEndpoint ''0x01'' 1000 Map.empty)))))"
proof -
  have live: "(1060::int) < 1000 + maxTimeoutSeconds weatherEndpoint"
    by (simp add: weatherEndpoint_def)
  note all = consumeNonce_at_most_once [of weatherEndpoint "''0x01''" 1060 Map.empty 1061 1000 Map.empty]
  note last = all [THEN conjunct2, THEN conjunct2, THEN conjunct2, THEN conjunct2]
  from last live show ?thesis by (rule mp)
qed

section \<open>The facilitator: the validity window, signer recovery, and the status of /verify\<close>

subsection \<open>The validity window\<close>

lemma verifyAuthorization_window:
  assumes "verifyAuthorization world p req ctx = Inr result"
  shows "payValidAfter (payload p) < nowTs world \<and> nowTs world < payValidBefore (payload p)"
  using assms
  by (simp add: verifyAuthorization_def Let_def toAuthorization_def
      split: if_splits option.splits sum.splits)

lemma verifyAuthorization_arc_window:
  assumes "verifyAuthorization_arc cfg world p req = Inr result"
  shows "payValidAfter (payload p) < nowTs world \<and> nowTs world < payValidBefore (payload p)"
  using assms
  by (simp add: verifyAuthorization_arc_def Let_def toAuthorization_def
      split: if_splits option.splits sum.splits)

lemma rejected_cases: "(\<exists>m. x = Inl (Error m)) \<or> (\<exists>result. x = Inr result)"
proof (cases x)
  case (Inl e)
  then show ?thesis by (cases e) simp
next
  case (Inr result)
  then show ?thesis by simp
qed

text \<open>
  Claim C1. When the clock is at or before \<open>validAfter\<close>, or at or after \<open>validBefore\<close>,
  \<^verbatim>\<open>verifyAuthorization\<close> throws, in both servers, whatever the library answers about the
  signature and whatever the requirements are; and \<^verbatim>\<open>/verify\<close> never answers
  \<open>valid: true\<close> for such a payload. Both comparisons include the boundary.
\<close>

theorem outside_window_rejected:
  assumes "nowTs world \<le> payValidAfter (payload p) \<or> payValidBefore (payload p) \<le> nowTs world"
  shows "(\<exists>m. verifyAuthorization world p req ctx = Inl (Error m)) \<and>
         (\<exists>m. verifyAuthorization_arc cfg world p req = Inl (Error m)) \<and>
         (\<forall>payer paid token recipient expiry.
            body (verifyRoute contexts world \<lparr>paymentPayload = Some p, paymentRequirements = requirements\<rparr>)
              \<noteq> ValidBody payer paid token recipient expiry \<and>
            body (verifyRoute_arc cfg world \<lparr>paymentPayload = Some p, paymentRequirements = requirements\<rparr>)
              \<noteq> ValidBody payer paid token recipient expiry)"
proof -
  have multi: "\<exists>m. verifyAuthorization world p r c = Inl (Error m)" for r c
    using rejected_cases [of "verifyAuthorization world p r c"] verifyAuthorization_window [of world p r c] assms
    by fastforce
  have arc: "\<exists>m. verifyAuthorization_arc cfg world p r = Inl (Error m)" for r
    using rejected_cases [of "verifyAuthorization_arc cfg world p r"]
      verifyAuthorization_arc_window [of cfg world p r] assms
    by fastforce
  have route: "body (verifyRoute contexts world \<lparr>paymentPayload = Some p, paymentRequirements = requirements\<rparr>)
              \<noteq> ValidBody payer paid token recipient expiry" for payer paid token recipient expiry
  proof (cases requirements)
    case None
    then show ?thesis by (simp add: verifyRoute_def)
  next
    case (Some r)
    show ?thesis
    proof (cases "lookupNetwork contexts (reqNetworkName r)")
      case Absent
      with Some show ?thesis by (simp add: verifyRoute_def)
    next
      case Inherited
      with Some show ?thesis by (simp add: verifyRoute_def)
    next
      case ctx: (Own c)
      from multi [of r c] obtain m where "verifyAuthorization world p r c = Inl (Error m)" ..
      with Some ctx show ?thesis
        by (simp add: verifyRoute_def split: sum.splits option.splits js_error.splits)
    qed
  qed
  have route_arc: "body (verifyRoute_arc cfg world \<lparr>paymentPayload = Some p, paymentRequirements = requirements\<rparr>)
              \<noteq> ValidBody payer paid token recipient expiry" for payer paid token recipient expiry
  proof (cases requirements)
    case None
    then show ?thesis by (simp add: verifyRoute_arc_def)
  next
    case (Some r)
    from arc [of r] obtain m where "verifyAuthorization_arc cfg world p r = Inl (Error m)" ..
    with Some show ?thesis
      by (simp add: verifyRoute_arc_def split: sum.splits option.splits js_error.splits)
  qed
  from multi arc route route_arc show ?thesis by blast
qed

subsection \<open>The scenario evaluated\<close>

lemma lower_payout: "toLowerCase payoutAddress = ''0x00000000000000000000000000000000000000ff''"
  by (simp add: payoutAddress_def toLowerCase_def lowerLetters_def upperLetters_def)

lemma lower_payer: "toLowerCase payerAddress = payerAddress"
  by (simp add: payerAddress_def toLowerCase_def lowerLetters_def upperLetters_def)

lemma lower_token: "toLowerCase arcToken = arcToken"
  by (simp add: arcToken_def toLowerCase_def lowerLetters_def upperLetters_def)

lemma lower_paid_to: "toLowerCase ''0x00000000000000000000000000000000000000ff'' = ''0x00000000000000000000000000000000000000ff''"
  by (simp add: toLowerCase_def lowerLetters_def upperLetters_def)

lemma scenario_numbers:
  "BigInt_string ''1000000'' = Some 1000000" "BigInt_string ''0x01'' = Some 1" "BigInt_string ''0x02'' = Some 2"
  by (simp_all add: BigInt_string_def trim_def isWhiteSpace_def parseNumeral_def radixTable_def)

lemma scenario_half: "\<not> 2 > secp256k1halfN"
  by (simp add: secp256k1halfN_def secp256k1N_def bigint_div_def)

lemma scenario_pad: "padStart2 (toString16 27) = ''1b''"
  by (simp add: padStart2_def toString16_def hex_char_def)

lemma scenario_recovery:
  "verifyTransferAuthorization (fixedSigner who) (toAuthorization signedPayload) (toSignature signedPayload)
     tok nm ver cid = (Some who, [(''digest'', ''0x01021b'')])"
  by (simp add: verifyTransferAuthorization_def recoverAddressFromDigest_def toAuthorization_def
      toSignature_def signedPayload_def fixedSigner_def scenario_numbers scenario_half scenario_pad)

lemma scenario_fields:
  "payScheme signedPayload = ''exact''" "payNetwork signedPayload = ''arc-testnet''"
  "payValue (payload signedPayload) = ''1000000''"
  "payTo (payload signedPayload) = ''0x00000000000000000000000000000000000000ff''"
  "authFrom (toAuthorization signedPayload) = payerAddress"
  "payFrom (payload signedPayload) = payerAddress"
  "validAfter (toAuthorization signedPayload) = 1000"
  "validBefore (toAuthorization signedPayload) = 1300"
  "payValidAfter (payload signedPayload) = 1000"
  "payValidBefore (payload signedPayload) = 1300"
  "reqAmount oneUsdcRequired = ''1000000''" "reqNetworkName oneUsdcRequired = ''arc-testnet''"
  "reqRecipient oneUsdcRequired = payoutAddress" "reqToken oneUsdcRequired = arcToken"
  "reqScheme oneUsdcRequired = ''exact''"
  by (simp_all add: signedPayload_def oneUsdcRequired_def toAuthorization_def)

lemma payer_nonempty: "payerAddress \<noteq> []"
  by (simp add: payerAddress_def)

lemma scenario_verify:
  "verifyAuthorization (worldAt t) signedPayload oneUsdcRequired arcContext =
     (if t \<le> 1000 then Inl (Error ''Authorization not yet valid'')
      else if 1300 \<le> t then Inl (Error ''Authorization expired'')
      else Inr (toAuthorization signedPayload, toSignature signedPayload))"
  by (simp add: verifyAuthorization_def Let_def scenario_fields lower_payout lower_paid_to lower_payer
      worldAt_def scenario_recovery payer_nonempty)

lemma scenario_verify_arc:
  "verifyAuthorization_arc arcFacilitator (worldAt t) signedPayload oneUsdcRequired =
     (if t \<le> 1000 then Inl (Error ''Authorization not yet valid'')
      else if 1300 \<le> t then Inl (Error ''Authorization expired'')
      else Inr (toAuthorization signedPayload, toSignature signedPayload))"
  by (simp add: verifyAuthorization_arc_def Let_def scenario_fields lower_payout lower_paid_to lower_payer
      worldAt_def scenario_recovery payer_nonempty arcFacilitator_def)

text \<open>
  The theorem at the signed payload of the scenario (valid after 1000, before 1300), whose
  signature the library accepts: rejected at 1000 and at 1300, accepted at 1001.
\<close>

theorem outside_window_rejected_witness:
  "verifyAuthorization (worldAt 1000) signedPayload oneUsdcRequired arcContext =
     Inl (Error ''Authorization not yet valid'') \<and>
   verifyAuthorization_arc arcFacilitator (worldAt 1300) signedPayload oneUsdcRequired =
     Inl (Error ''Authorization expired'') \<and>
   (\<exists>m. verifyAuthorization (worldAt 1300) signedPayload oneUsdcRequired arcContext = Inl (Error m)) \<and>
   (\<exists>result. verifyAuthorization (worldAt 1001) signedPayload oneUsdcRequired arcContext = Inr result)"
proof -
  have boundary: "nowTs (worldAt 1300) \<le> payValidAfter (payload signedPayload) \<or>
      payValidBefore (payload signedPayload) \<le> nowTs (worldAt 1300)"
    by (simp add: scenario_fields worldAt_def)
  from outside_window_rejected [OF boundary, of oneUsdcRequired arcContext]
  have third: "\<exists>m. verifyAuthorization (worldAt 1300) signedPayload oneUsdcRequired arcContext = Inl (Error m)"
    by (rule conjunct1)
  have first: "verifyAuthorization (worldAt 1000) signedPayload oneUsdcRequired arcContext =
     Inl (Error ''Authorization not yet valid'')"
    by (simp add: scenario_verify)
  have second: "verifyAuthorization_arc arcFacilitator (worldAt 1300) signedPayload oneUsdcRequired =
     Inl (Error ''Authorization expired'')"
    by (simp add: scenario_verify_arc)
  have fourth: "\<exists>result. verifyAuthorization (worldAt 1001) signedPayload oneUsdcRequired arcContext = Inr result"
    by (simp add: scenario_verify)
  from first second third fourth show ?thesis by (intro conjI)
qed

subsection \<open>Signer recovery\<close>







subsection \<open>The status of /verify\<close>



text \<open>
  A network name that the table lookup finds on \<^verbatim>\<open>Object.prototype\<close> alone: the route
  answers 200 with the message of the \<^verbatim>\<open>TypeError\<close>.
\<close>

lemma verifyRoute_inherited:
  "paymentRequirements request = Some req \<Longrightarrow> lookupNetwork contexts (reqNetworkName req) = Inherited \<Longrightarrow>
     verifyRoute contexts world request =
       \<lparr>status = 200, body = InvalidBody noChainMessage (Some (buildInvoice world req noChainMessage))\<rparr>"
  by (simp add: verifyRoute_def)

lemma verifyRoute_constructor:
  "verifyRoute arcContexts world \<lparr>paymentPayload = p, paymentRequirements = Some constructorNetwork\<rparr> =
     \<lparr>status = 200,
      body = InvalidBody noChainMessage (Some (buildInvoice world constructorNetwork noChainMessage))\<rparr>"
proof -
  have "lookupNetwork arcContexts (reqNetworkName constructorNetwork) = Inherited"
    by (simp add: lookupNetwork_def arcContexts_def constructorNetwork_def objectPrototypeNames_def)
  then show ?thesis by (simp add: verifyRoute_inherited)
qed












section \<open>The payment header: encoding, then decoding\<close>

subsection \<open>Numbers\<close>

lemma below10:
  assumes "(d::nat) < 10"
  obtains "d = 0" | "d = 1" | "d = 2" | "d = 3" | "d = 4" | "d = 5" | "d = 6" | "d = 7" | "d = 8" | "d = 9"
  using assms by (auto simp: less_Suc_eq numeral_eq_Suc)

lemma digit_char_isDigit: "d < 10 \<Longrightarrow> isDigit (digit_char d)"
proof -
  assume "d < 10"
  then show ?thesis by (cases rule: below10) (simp_all add: digit_char_def isDigit_def)
qed

lemma digit_char_value: "d < 10 \<Longrightarrow> map_of radixTable (digit_char d) = Some d"
proof -
  assume "d < 10"
  then show ?thesis by (cases rule: below10) (simp_all add: digit_char_def radixTable_def)
qed

lemma digit_char_zero: "d < 10 \<Longrightarrow> digit_char d = CHR ''0'' \<longleftrightarrow> d = 0"
proof -
  assume "d < 10"
  then show ?thesis by (cases rule: below10) (simp_all add: digit_char_def)
qed

declare nat_toString.simps [simp del]

lemma nat_toString_digits: "\<forall>c \<in> set (nat_toString n). isDigit c"
proof (induction n rule: nat_toString.induct)
  case (1 n)
  show ?case
  proof (cases "n < 10")
    case True
    then show ?thesis by (subst nat_toString.simps) (simp add: digit_char_isDigit)
  next
    case False
    have "n mod 10 < 10" by simp
    with False 1 show ?thesis by (subst nat_toString.simps) (auto simp: digit_char_isDigit)
  qed
qed

lemma nat_toString_nonempty: "nat_toString n \<noteq> []"
  by (subst nat_toString.simps) simp

lemma parseDigits_append:
  "parseDigits radix acc (xs @ ys) =
     (case parseDigits radix acc xs of None \<Rightarrow> None | Some v \<Rightarrow> parseDigits radix v ys)"
  by (induction xs arbitrary: acc) (auto split: option.splits)

lemma nat_toString_value: "parseDigits 10 0 (nat_toString n) = Some (int n)"
proof (induction n rule: nat_toString.induct)
  case (1 n)
  show ?case
  proof (cases "n < 10")
    case True
    then show ?thesis by (subst nat_toString.simps) (simp add: digit_char_value)
  next
    case False
    have m: "n mod 10 < 10" by simp
    have "int (n div 10) * 10 + int (n mod 10) = int n"
      by (metis mult.commute of_nat_add of_nat_mult of_nat_numeral mult_div_mod_eq)
    with False 1 m show ?thesis
      by (subst nat_toString.simps) (simp add: parseDigits_append digit_char_value)
  qed
qed

lemma nat_toString_head: "hd (nat_toString n) = CHR ''0'' \<Longrightarrow> nat_toString n = ''0''"
proof (induction n rule: nat_toString.induct)
  case (1 n)
  show ?case
  proof (cases "n < 10")
    case True
    with 1(2) have "digit_char n = CHR ''0''" by (subst (asm) nat_toString.simps) simp
    with True have "n = 0" by (simp add: digit_char_zero)
    then show ?thesis by (subst nat_toString.simps) (simp add: digit_char_def)
  next
    case False
    with 1(2) have "hd (nat_toString (n div 10)) = CHR ''0''"
      by (subst (asm) nat_toString.simps) (simp add: nat_toString_nonempty)
    with 1(1) False have "nat_toString (n div 10) = ''0''" by simp
    then have "parseDigits 10 0 (nat_toString (n div 10)) = Some 0"
      by (simp add: radixTable_def)
    then have "n div 10 = 0" by (simp add: nat_toString_value)
    with False show ?thesis by simp
  qed
qed

lemma takeWhile_digits:
  assumes "\<forall>c \<in> set ds. isDigit c" and "rest = [] \<or> \<not> isDigit (hd rest)"
  shows "takeWhile isDigit (ds @ rest) = ds" and "dropWhile isDigit (ds @ rest) = rest"
proof -
  from assms(2) have t: "takeWhile isDigit rest = []" and d: "dropWhile isDigit rest = rest"
    by (cases rest; simp)+
  from assms(1) show "takeWhile isDigit (ds @ rest) = ds"
    by (simp add: takeWhile_append2 t)
  from assms(1) show "dropWhile isDigit (ds @ rest) = rest"
    by (simp add: dropWhile_append2 d)
qed

lemma startsWith_Cons: "startsWith s [p] \<longleftrightarrow> (s \<noteq> [] \<and> hd s = p)"
  by (cases s) auto

lemma parse_number_printed:
  assumes "rest = [] \<or> hd rest \<in> set '',}]''"
  shows "parse_number (bigint_toString n @ rest) = Some (JNumber n, rest)"
proof -
  from assms have nd: "rest = [] \<or> \<not> isDigit (hd rest)"
    by (auto simp: isDigit_def)
  from assms have tail: "\<not> startsWith rest ''.''" "\<not> startsWith rest ''e''" "\<not> startsWith rest ''E''"
    by (auto simp: startsWith_Cons)
  have value_of: "\<And>m. parse_number (nat_toString m @ rest) = Some (JNumber (int m), rest)"
  proof -
    fix m
    have first: "isDigit (hd (nat_toString m))"
      using nat_toString_digits [of m] nat_toString_nonempty [of m]
      by (cases "nat_toString m") auto
    then have nominus: "\<not> startsWith (nat_toString m @ rest) ''-''"
      using nat_toString_nonempty [of m]
      by (cases "nat_toString m") (auto simp: isDigit_def)
    have lead: "\<not> (startsWith (nat_toString m) ''0'' \<and> length (nat_toString m) > 1)"
    proof
      assume a: "startsWith (nat_toString m) ''0'' \<and> length (nat_toString m) > 1"
      then have "hd (nat_toString m) = CHR ''0''" by (simp add: startsWith_Cons)
      then have "nat_toString m = ''0''" by (rule nat_toString_head)
      with a show False by simp
    qed
    show "parse_number (nat_toString m @ rest) = Some (JNumber (int m), rest)"
      unfolding parse_number_def Let_def
      using nominus lead tail
      by (simp add: takeWhile_digits [OF nat_toString_digits nd] nat_toString_nonempty
          nat_toString_value)
  qed
  show ?thesis
  proof (cases "n < 0")
    case False
    then show ?thesis by (simp add: bigint_toString_def value_of)
  next
    case True
    have first: "isDigit (hd (nat_toString (nat (- n))))"
      using nat_toString_digits [of "nat (- n)"] nat_toString_nonempty [of "nat (- n)"]
      by (cases "nat_toString (nat (- n))") auto
    have lead: "\<not> (startsWith (nat_toString (nat (- n))) ''0'' \<and> length (nat_toString (nat (- n))) > 1)"
    proof
      assume a: "startsWith (nat_toString (nat (- n))) ''0'' \<and> length (nat_toString (nat (- n))) > 1"
      then have "hd (nat_toString (nat (- n))) = CHR ''0''" by (simp add: startsWith_Cons)
      then have "nat_toString (nat (- n)) = ''0''" by (rule nat_toString_head)
      with a show False by simp
    qed
    from True have negated: "- int (nat (- n)) = n" by simp
    show ?thesis
      unfolding parse_number_def Let_def bigint_toString_def
      using True lead tail negated
      by (simp add: takeWhile_digits [OF nat_toString_digits nd] nat_toString_nonempty
          nat_toString_value)
  qed
qed

subsection \<open>Strings\<close>

lemma below16:
  assumes "(d::nat) < 16"
  obtains "d = 0" | "d = 1" | "d = 2" | "d = 3" | "d = 4" | "d = 5" | "d = 6" | "d = 7" | "d = 8" | "d = 9"
    | "d = 10" | "d = 11" | "d = 12" | "d = 13" | "d = 14" | "d = 15"
  using assms by (auto simp: less_Suc_eq numeral_eq_Suc)

lemma hex_char_value: "d < 16 \<Longrightarrow> map_of radixTable (hex_char d) = Some d"
  by (erule below16) (simp_all add: hex_char_def radixTable_def)

lemma unicodeEscape_low:
  assumes "n < 256"
  shows "unicodeEscape CHR ''0'' CHR ''0'' (hex_char (n div 16)) (hex_char (n mod 16)) = Some n"
proof -
  from assms have "n div 16 < 16" by simp
  moreover have "n mod 16 < 16" by simp
  moreover have "map_of radixTable CHR ''0'' = Some 0" by (simp add: radixTable_def)
  ultimately show ?thesis
    by (simp add: unicodeEscape_def hex_char_value)
qed

text \<open>The scanner reads one escaped character back.\<close>

lemma scanString_escaped:
  "scanString (escapeChar c @ after) = map_option (\<lambda>(t, rest). (c # t, rest)) (scanString after)"
proof -
  consider (quote) "c = CHR 0x22" | (backslash) "c = CHR 0x5C" | (b) "c = CHR 0x08" | (t) "c = CHR 0x09"
    | (n) "c = CHR 0x0A" | (f) "c = CHR 0x0C" | (r) "c = CHR 0x0D"
    | (control) "c \<noteq> CHR 0x22" "c \<noteq> CHR 0x5C" "c \<noteq> CHR 0x08" "c \<noteq> CHR 0x09" "c \<noteq> CHR 0x0A"
        "c \<noteq> CHR 0x0C" "c \<noteq> CHR 0x0D" "(of_char c :: nat) < 32"
    | (plain) "c \<noteq> CHR 0x22" "c \<noteq> CHR 0x5C" "\<not> (of_char c :: nat) < 32"
    by blast
  then show ?thesis
  proof cases
    case quote
    then show ?thesis by (simp add: escapeChar_def)
  next
    case backslash
    then show ?thesis by (simp add: escapeChar_def)
  next
    case b
    then show ?thesis by (simp add: escapeChar_def)
  next
    case t
    then show ?thesis by (simp add: escapeChar_def)
  next
    case n
    then show ?thesis by (simp add: escapeChar_def)
  next
    case f
    then show ?thesis by (simp add: escapeChar_def)
  next
    case r
    then show ?thesis by (simp add: escapeChar_def)
  next
    case control
    have small: "(of_char c :: nat) < 256" using control(8) by simp
    have same: "char_of (of_char c :: nat) = c" by simp
    from control show ?thesis
      by (simp add: escapeChar_def unicodeEscape_low [OF small] same)
  next
    case plain
    have "c \<noteq> CHR 0x08" "c \<noteq> CHR 0x09" "c \<noteq> CHR 0x0A" "c \<noteq> CHR 0x0C" "c \<noteq> CHR 0x0D"
      using plain(3) by auto
    with plain show ?thesis by (simp add: escapeChar_def)
  qed
qed

lemma scanString_quoted:
  "scanString (concat (map escapeChar t) @ CHR 0x22 # rest) = Some (t, rest)"
  by (induction t) (simp_all add: scanString_escaped del: scanString.simps, simp)

subsection \<open>Values: what is printed is parsed back\<close>

lemma skipSpace_Cons: "\<not> isJsonSpace c \<Longrightarrow> skipSpace (c # s) = c # s"
  by (simp add: skipSpace_def)

lemma skipSpace_Nil: "skipSpace [] = []"
  by (simp add: skipSpace_def)

text \<open>
  The first character of a printed value: a letter of \<^verbatim>\<open>null\<close>, \<^verbatim>\<open>true\<close> or \<^verbatim>\<open>false\<close>,
  a minus sign, a digit, a quotation mark, a bracket or a brace.
\<close>

definition opens :: "char \<Rightarrow> bool" where
  "opens c = (c \<in> set ''ntf-0123456789[{'' \<or> c = CHR 0x22)"

lemma nat_toString_opens: "\<exists>c cs. nat_toString n = c # cs \<and> opens c"
proof -
  obtain c cs where eq: "nat_toString n = c # cs"
    using nat_toString_nonempty [of n] by (cases "nat_toString n") auto
  with nat_toString_digits [of n] have "isDigit c" by simp
  then have "opens c" by (auto simp: isDigit_def opens_def)
  with eq show ?thesis by blast
qed

lemma print_json_opens: "\<exists>c cs. print_json v = c # cs \<and> opens c"
proof (cases v)
  case (JNumber n)
  show ?thesis
  proof (cases "n < 0")
    case True
    with JNumber show ?thesis by (simp add: bigint_toString_def opens_def)
  next
    case False
    with JNumber nat_toString_opens [of "nat n"] show ?thesis by (simp add: bigint_toString_def)
  qed
qed (simp_all add: opens_def quoteJson_def)

lemma opens_facts:
  assumes "opens c"
  shows "\<not> isJsonSpace c" "c \<noteq> CHR ''}''" "c \<noteq> CHR '']''" "c \<noteq> CHR '',''" "c \<noteq> CHR '':''"
  using assms by (auto simp: opens_def isJsonSpace_def)

lemma digit_or_minus:
  assumes "isDigit c \<or> c = CHR ''-''"
  shows "c \<noteq> CHR ''{''" "c \<noteq> CHR ''[''" "c \<noteq> CHR 0x22" "c \<noteq> CHR ''t''" "c \<noteq> CHR ''f''" "c \<noteq> CHR ''n''"
    "\<not> isJsonSpace c"
  using assms by (auto simp: isDigit_def isJsonSpace_def)

lemma bigint_toString_head: "\<exists>c cs. bigint_toString n = c # cs \<and> (isDigit c \<or> c = CHR ''-'')"
proof (cases "n < 0")
  case True
  then show ?thesis by (simp add: bigint_toString_def)
next
  case False
  obtain c cs where eq: "nat_toString (nat n) = c # cs"
    using nat_toString_nonempty [of "nat n"] by (cases "nat_toString (nat n)") auto
  with nat_toString_digits [of "nat n"] have "isDigit c" by simp
  with eq False show ?thesis by (simp add: bigint_toString_def)
qed

lemma parse_value_number:
  assumes "rest = [] \<or> hd rest \<in> set '',}]''"
  shows "parse_value (bigint_toString n @ rest) = Some (JNumber n, rest)"
proof -
  obtain c cs where eq: "bigint_toString n = c # cs" and c: "isDigit c \<or> c = CHR ''-''"
    using bigint_toString_head [of n] by blast
  note no = digit_or_minus [OF c]
  have "parse_value (c # cs @ rest) = parse_number (c # cs @ rest)"
    by (subst parse_value.simps) (simp add: skipSpace_Cons no)
  with parse_number_printed [OF assms, of n] eq show ?thesis by simp
qed

lemma parse_value_string:
  "parse_value (quoteJson t @ rest) = Some (JString t, rest)"
  by (subst parse_value.simps)
     (simp add: quoteJson_def skipSpace_Cons isJsonSpace_def scanString_quoted del: scanString.simps)

lemma parse_value_literal:
  "parse_value (''null'' @ rest) = Some (JNull, rest)"
  "parse_value (''true'' @ rest) = Some (JBool True, rest)"
  "parse_value (''false'' @ rest) = Some (JBool False, rest)"
  by (subst parse_value.simps, simp add: skipSpace_Cons isJsonSpace_def)+

lemma quoteJson_Cons: "quoteJson k = CHR 0x22 # concat (map escapeChar k) @ [CHR 0x22]"
  by (simp add: quoteJson_def)

lemma skipSpace_punct:
  "skipSpace (CHR ''{'' # s) = CHR ''{'' # s" "skipSpace (CHR ''}'' # s) = CHR ''}'' # s"
  "skipSpace (CHR ''['' # s) = CHR ''['' # s" "skipSpace (CHR '']'' # s) = CHR '']'' # s"
  "skipSpace (CHR '','' # s) = CHR '','' # s" "skipSpace (CHR '':'' # s) = CHR '':'' # s"
  "skipSpace (CHR 0x22 # s) = CHR 0x22 # s"
  by (simp_all add: skipSpace_def isJsonSpace_def)

lemma parse_printed:
  "(rest = [] \<or> hd rest \<in> set '',}]'') \<Longrightarrow> parse_value (print_json v @ rest) = Some (v, rest)"
  "vs \<noteq> [] \<Longrightarrow> parse_elements (print_elements vs @ CHR '']'' # rest1) = Some (vs, rest1)"
  "ms \<noteq> [] \<Longrightarrow> parse_members (print_members ms @ CHR ''}'' # rest2) = Some (ms, rest2)"
proof (induction v and vs and ms arbitrary: rest and rest1 and rest2
    rule: print_json_print_elements_print_members.induct)
  case 1
  show ?case using parse_value_literal(1) [of rest] by simp
next
  case (2 b)
  show ?case
    using parse_value_literal(2) [of rest] parse_value_literal(3) [of rest] by (cases b) simp_all
next
  case (3 n)
  then show ?case by (simp add: parse_value_number)
next
  case (4 s)
  show ?case by (simp add: parse_value_string)
next
  case (5 vs)
  show ?case
  proof (cases vs)
    case Nil
    show ?thesis
      by (subst parse_value.simps) (simp add: Nil skipSpace_punct skipSpace_Cons)
  next
    case (Cons w ws)
    obtain c cs where hd: "print_json w = c # cs" and o: "opens c"
      using print_json_opens [of w] by blast
    have first: "\<exists>cs'. print_elements vs @ CHR '']'' # rest = c # cs'"
      using hd Cons by (cases ws) simp_all
    then obtain cs' where f: "print_elements vs @ CHR '']'' # rest = c # cs'" ..
    from 5(1) [of rest] Cons
    have ih0: "parse_elements (print_elements vs @ CHR '']'' # rest) = Some (vs, rest)" by simp
    note ih = ih0 [unfolded f]
    show ?thesis
      by (subst parse_value.simps)
         (simp add: skipSpace_punct skipSpace_Cons f opens_facts [OF o] ih)
  qed
next
  case (6 ms)
  show ?case
  proof (cases ms)
    case Nil
    show ?thesis
      by (subst parse_value.simps) (simp add: Nil skipSpace_punct skipSpace_Cons)
  next
    case (Cons m ms')
    have first: "\<exists>cs'. print_members ms @ CHR ''}'' # rest = CHR 0x22 # cs'"
      using Cons by (cases m; cases ms') (simp_all add: quoteJson_Cons)
    then obtain cs' where f: "print_members ms @ CHR ''}'' # rest = CHR 0x22 # cs'" ..
    from 6(1) [of rest] Cons
    have ih0: "parse_members (print_members ms @ CHR ''}'' # rest) = Some (ms, rest)" by simp
    note ih = ih0 [unfolded f]
    show ?thesis
      by (subst parse_value.simps)
         (simp add: skipSpace_punct skipSpace_Cons f ih)
  qed
next
  case 7
  then show ?case by simp
next
  case (8 v)
  have v: "parse_value (print_json v @ CHR '']'' # rest1) = Some (v, CHR '']'' # rest1)"
    by (rule 8(1)) simp
  show ?case
    by (subst parse_elements.simps) (simp add: v skipSpace_punct skipSpace_Cons)
next
  case (9 v w vs)
  let ?more = "print_elements (w # vs) @ CHR '']'' # rest1"
  have v: "parse_value (print_json v @ CHR '','' # ?more) = Some (v, CHR '','' # ?more)"
    by (rule 9(1)) simp
  have more: "parse_elements ?more = Some (w # vs, rest1)"
    by (rule 9(2)) simp
  show ?case
    by (subst parse_elements.simps) (simp add: v more skipSpace_punct skipSpace_Cons)
next
  case 10
  then show ?case by simp
next
  case (11 k v)
  have v: "parse_value (print_json v @ CHR ''}'' # rest2) = Some (v, CHR ''}'' # rest2)"
    by (rule 11(1)) simp
  show ?case
    by (subst parse_members.simps)
       (simp add: quoteJson_Cons scanString_quoted v skipSpace_punct skipSpace_Cons
          del: scanString.simps)
next
  case (12 k v m ms)
  let ?more = "print_members (m # ms) @ CHR ''}'' # rest2"
  have v: "parse_value (print_json v @ CHR '','' # ?more) = Some (v, CHR '','' # ?more)"
    by (rule 12(1)) simp
  have more: "parse_members ?more = Some (m # ms, rest2)"
    by (rule 12(2)) simp
  show ?case
    by (subst parse_members.simps)
       (simp add: quoteJson_Cons scanString_quoted v more skipSpace_punct skipSpace_Cons
          del: scanString.simps)
qed

lemma JSON_parse_printed: "JSON_parse (print_json v) = Some v"
  using parse_printed(1) [of "[]" v] by (simp add: JSON_parse_def skipSpace_Nil)

subsection \<open>Payloads, bytes and base64\<close>

lemma fromJson_toJson: "fromJson (toJson p) = Some p"
proof -
  obtain b v r s where opt: "paySignature (payload p) = b" "payV (payload p) = v"
    "payR (payload p) = r" "payS (payload p) = s" by blast
  have whole: "p = \<lparr>x402Version = x402Version p, payScheme = payScheme p, payNetwork = payNetwork p,
      payload = \<lparr>payFrom = payFrom (payload p), payTo = payTo (payload p), payValue = payValue (payload p),
        payValidAfter = payValidAfter (payload p), payValidBefore = payValidBefore (payload p),
        payNonce = payNonce (payload p), paySignature = b, payV = v, payR = r, payS = s\<rparr>\<rparr>"
    using opt by simp
  have "fromJson (toJson p) =
      Some \<lparr>x402Version = x402Version p, payScheme = payScheme p, payNetwork = payNetwork p,
      payload = \<lparr>payFrom = payFrom (payload p), payTo = payTo (payload p), payValue = payValue (payload p),
        payValidAfter = payValidAfter (payload p), payValidBefore = payValidBefore (payload p),
        payNonce = payNonce (payload p), paySignature = b, payV = v, payR = r, payS = s\<rparr>\<rparr>"
    unfolding toJson_def opt
    by (cases b; cases v; cases r; cases s)
       (simp_all add: fromJson_def optionalMember_def property_def textProperty_def
          numberProperty_def wellTyped_def)
  with whole show ?thesis by simp
qed

lemma pack:
  fixes p q m :: nat
  assumes "q < m"
  shows "(p * m + q) div m = p" "(p * m + q) mod m = q"
  using assms by simp_all

lemma byte_bounds:
  fixes a :: nat
  assumes "a < 256"
  shows "a div 16 < 16" "a div 64 < 4" "a div 4 < 64"
  using assms by (simp_all add: less_mult_imp_div_less)

lemma small_sums:
  fixes p q :: nat
  shows "p < 4 \<Longrightarrow> q < 16 \<Longrightarrow> p * 16 + q < 64" "p < 16 \<Longrightarrow> q < 4 \<Longrightarrow> p * 4 + q < 64"
    "p < 4 \<Longrightarrow> p * 16 < 64" "p < 16 \<Longrightarrow> p * 4 < 64"
  by simp_all

lemma utf8_round_trip: "utf8Text (utf8Bytes s) = Some s"
proof (induction s)
  case Nil
  show ?case by simp
next
  case (Cons c cs)
  show ?case
  proof (cases "(of_char c :: nat) < 128")
    case True
    have same: "char_of (of_char c :: nat) = c" by simp
    from True Cons show ?thesis
      by (cases "utf8Bytes cs") (simp_all add: same)
  next
    case False
    define n where "n = (of_char c :: nat)"
    have n: "128 \<le> n" "n < 256" using False by (simp_all add: n_def)
    have "n div 64 < 4" by (rule byte_bounds(2) [OF n(2)])
    moreover have "2 \<le> n div 64" using n(1) by (simp add: less_eq_div_iff_mult_less_eq)
    ultimately have lead: "192 + n div 64 = 194 \<or> 192 + n div 64 = 195" by linarith
    have cont: "128 \<le> 128 + n mod 64" "128 + n mod 64 < 192" by simp_all
    from n have sum: "(192 + n div 64 - 192) * 64 + (128 + n mod 64 - 128) = n" by simp
    have big: "\<not> 192 + n div 64 < 128" by simp
    have same: "char_of n = c" by (simp add: n_def)
    have "utf8Text (utf8Bytes (c # cs)) = utf8Text ((192 + n div 64) # (128 + n mod 64) # utf8Bytes cs)"
      using False by (simp add: n_def)
    also have "\<dots> = map_option (\<lambda>t. char_of n # t) (utf8Text (utf8Bytes cs))"
      using lead cont big sum by (subst utf8Text.simps(3)) simp
    finally show ?thesis using Cons same by simp
  qed
qed

lemma utf8Bytes_bytes: "\<forall>b \<in> set (utf8Bytes s). b < 256"
proof (induction s)
  case Nil
  show ?case by simp
next
  case (Cons c cs)
  have "(of_char c :: nat) < 256" by simp
  then have "(of_char c :: nat) div 64 < 4" by (rule byte_bounds(2))
  then have "192 + (of_char c :: nat) div 64 < 256" by simp
  moreover have "128 + (of_char c :: nat) mod 64 < 256" by simp
  ultimately show ?case using Cons by auto
qed

lemma sextets_back:
  fixes a b c :: nat
  assumes "a < 256" "b < 256" "c < 256"
  shows "a div 4 * 4 + ((a mod 4) * 16 + b div 16) div 16 = a"
    "(((a mod 4) * 16 + b div 16) mod 16) * 16 + ((b mod 16) * 4 + c div 64) div 4 = b"
    "(((b mod 16) * 4 + c div 64) mod 4) * 64 + c mod 64 = c"
    "(((a mod 4) * 16 + b div 16) mod 16) * 16 + ((b mod 16) * 4) div 4 = b"
    "a div 4 * 4 + ((a mod 4) * 16) div 16 = a"
  using pack [OF byte_bounds(1) [OF assms(2)], of "a mod 4"]
    pack [OF byte_bounds(2) [OF assms(3)], of "b mod 16"]
  by simp_all

lemma sextets_bounds:
  fixes a b c :: nat
  assumes "a < 256" "b < 256" "c < 256"
  shows "a div 4 < 64" "(a mod 4) * 16 + b div 16 < 64" "(b mod 16) * 4 + c div 64 < 64" "c mod 64 < 64"
    "(b mod 16) * 4 < 64" "(a mod 4) * 16 < 64"
proof -
  have m: "a mod 4 < 4" "b mod 16 < 16" by simp_all
  show "a div 4 < 64" by (rule byte_bounds(3) [OF assms(1)])
  show "(a mod 4) * 16 + b div 16 < 64" by (rule small_sums(1) [OF m(1) byte_bounds(1) [OF assms(2)]])
  show "(b mod 16) * 4 + c div 64 < 64" by (rule small_sums(2) [OF m(2) byte_bounds(2) [OF assms(3)]])
  show "c mod 64 < 64" by simp
  show "(b mod 16) * 4 < 64" by (rule small_sums(4) [OF m(2)])
  show "(a mod 4) * 16 < 64" by (rule small_sums(3) [OF m(1)])
qed

lemma sextets_round_trip: "\<forall>b \<in> set bs. b < 256 \<Longrightarrow> fromSextets (toSextets bs) = bs"
proof (induction bs rule: toSextets.induct)
  case (1 a b c bs)
  then have abc: "a < 256" "b < 256" "c < 256" and rest: "\<forall>b \<in> set bs. b < 256" by simp_all
  show ?case
    by (simp only: toSextets.simps fromSextets.simps append_Cons append_Nil
        sextets_back(1-3) [OF abc] 1(1) [OF rest])
next
  case (2 a b)
  then have ab: "a < 256" "b < 256" by simp_all
  show ?case
    by (simp only: toSextets.simps fromSextets.simps append_Cons append_Nil
        sextets_back(1,4) [OF ab ab(1)])
next
  case (3 a)
  then have a: "a < 256" by simp
  show ?case
    by (simp only: toSextets.simps fromSextets.simps append_Cons append_Nil
        sextets_back(5) [OF a a a])
next
  case 4
  show ?case by simp
qed

lemma toSextets_small: "\<forall>b \<in> set bs. b < 256 \<Longrightarrow> \<forall>x \<in> set (toSextets bs). x < 64"
proof (induction bs rule: toSextets.induct)
  case (1 a b c bs)
  then have abc: "a < 256" "b < 256" "c < 256" and rest: "\<forall>b \<in> set bs. b < 256" by simp_all
  from 1(1) [OF rest] show ?case
    by (simp add: sextets_bounds(1-4) [OF abc])
next
  case (2 a b)
  then have ab: "a < 256" "b < 256" by simp_all
  show ?case by (simp add: sextets_bounds(1,2,5) [OF ab ab(1)])
next
  case (3 a)
  then have a: "a < 256" by simp
  show ?case by (simp add: sextets_bounds(1,6) [OF a a a])
next
  case 4
  show ?case by simp
qed

lemma base64Alphabet_length: "length base64Alphabet = 64"
  by (simp add: base64Alphabet_def)

lemma base64Alphabet_distinct: "distinct base64Alphabet"
  by (simp add: base64Alphabet_def)

lemma base64Alphabet_plain: "\<forall>c \<in> set base64Alphabet. c \<noteq> CHR ''='' \<and> c \<noteq> CHR ''-'' \<and> c \<noteq> CHR ''_''"
  by (simp add: base64Alphabet_def)

lemma unbase64_base64Char:
  assumes "n < 64"
  shows "unbase64 (base64Char n) = Some n" and "base64Char n \<noteq> CHR ''=''"
proof -
  from assms have mem: "base64Char n \<in> set base64Alphabet"
    by (simp add: base64Char_def base64Alphabet_length)
  with base64Alphabet_plain show "base64Char n \<noteq> CHR ''=''" by blast
  from mem base64Alphabet_plain have plain: "base64Char n \<noteq> CHR ''-''" "base64Char n \<noteq> CHR ''_''"
    by blast+
  have "map_of (zip base64Alphabet [0..<64]) (base64Alphabet ! n) = Some ([0..<64] ! n)"
    by (rule map_of_zip_nth) (use assms in \<open>simp_all add: base64Alphabet_length base64Alphabet_distinct\<close>)
  with assms plain show "unbase64 (base64Char n) = Some n"
    by (simp add: unbase64_def base64Char_def)
qed

lemma map_filter_unbase64:
  "\<forall>x \<in> set xs. x < 64 \<Longrightarrow> List.map_filter unbase64 (map base64Char xs) = xs"
  by (induction xs) (simp_all add: List.map_filter_simps unbase64_base64Char)

lemma takeWhile_sextets:
  "\<forall>x \<in> set xs. x < 64 \<Longrightarrow>
     takeWhile (\<lambda>c. c \<noteq> CHR ''='') (map base64Char xs @ replicate k CHR ''='') = map base64Char xs"
proof (induction xs)
  case Nil
  show ?case by (cases k) simp_all
next
  case (Cons x xs)
  then show ?case by (simp add: unbase64_base64Char(2))
qed

lemma base64_round_trip: "\<forall>b \<in> set bs. b < 256 \<Longrightarrow> base64_decode (base64_encode bs) = bs"
  by (simp add: base64_decode_def base64_encode_def takeWhile_sextets toSextets_small
      map_filter_unbase64 sextets_round_trip)

lemma fromBase64_toBase64: "fromBase64 (toBase64 s) = Some s"
  by (simp add: fromBase64_def toBase64_def base64_round_trip utf8Bytes_bytes utf8_round_trip)

text \<open>Encoding, then decoding: what \<^const>\<open>normalizeSignature\<close> makes of the payload.\<close>

lemma decode_encode: "decodePaymentHeader (encodePaymentHeader p) = normalizeSignature p"
  by (simp add: decodePaymentHeader_def encodePaymentHeader_def fromBase64_toBase64
      JSON_parse_printed fromJson_toJson)

subsection \<open>What \<^verbatim>\<open>normalizeSignature\<close> accepts\<close>

lemma normalizeSignature_shape:
  assumes "normalizeSignature pl = Some q"
  shows "\<exists>v r s. (v = 27 \<or> v = 28) \<and> r \<noteq> [] \<and> s \<noteq> [] \<and>
           q = pl\<lparr>payload := (payload pl)\<lparr>payV := Some v, payR := Some r, payS := Some s\<rparr>\<rparr> \<and>
           x402Version pl \<noteq> 0 \<and> payScheme pl \<noteq> [] \<and> payNetwork pl \<noteq> [] \<and>
           payFrom (payload pl) \<noteq> [] \<and> payTo (payload pl) \<noteq> [] \<and>
           payValue (payload pl) \<noteq> [] \<and> payNonce (payload pl) \<noteq> []"
proof -
  define vrs where "vrs =
           (if truthyText (paySignature (payload pl)) \<and>
               (\<not> truthyNumber (payV (payload pl)) \<or> \<not> truthyText (payR (payload pl)) \<or> \<not> truthyText (payS (payload pl)))
            then
              (let hex = (if startsWith (the (paySignature (payload pl))) ''0x''
                          then drop 2 (the (paySignature (payload pl))) else the (paySignature (payload pl)))
               in if length hex \<noteq> 130 then None
                  else Some (Some (parseInt16 (take 2 (drop 128 hex))),
                             Some (''0x'' @ take 64 hex),
                             Some (''0x'' @ take 64 (drop 64 hex))))
            else Some (map_option Some (payV (payload pl)), payR (payload pl), payS (payload pl)))"
  have unfolded: "normalizeSignature pl =
      (if x402Version pl = 0 \<or> payScheme pl = [] \<or> payNetwork pl = [] then None
       else if payFrom (payload pl) = [] \<or> payTo (payload pl) = [] \<or> payValue (payload pl) = [] \<or>
               payNonce (payload pl) = [] then None
       else (case vrs of
              None \<Rightarrow> None
            | Some (v, r, s) \<Rightarrow>
                if v = None \<or> \<not> truthyText r \<or> \<not> truthyText s then None
                else if v \<noteq> Some (Some 27) \<and> v \<noteq> Some (Some 28) then None
                else Some (pl\<lparr>payload := (payload pl)\<lparr>payV := the v, payR := r, payS := s\<rparr>\<rparr>)))"
    unfolding normalizeSignature_def vrs_def Let_def by (rule refl)
  from assms have fields: "x402Version pl \<noteq> 0" "payScheme pl \<noteq> []" "payNetwork pl \<noteq> []"
    "payFrom (payload pl) \<noteq> []" "payTo (payload pl) \<noteq> []"
    "payValue (payload pl) \<noteq> []" "payNonce (payload pl) \<noteq> []"
    unfolding unfolded by (simp_all split: if_splits)
  from assms fields obtain v r s where some: "vrs = Some (v, r, s)"
    and rest: "(if v = None \<or> \<not> truthyText r \<or> \<not> truthyText s then None
                else if v \<noteq> Some (Some 27) \<and> v \<noteq> Some (Some 28) then None
                else Some (pl\<lparr>payload := (payload pl)\<lparr>payV := the v, payR := r, payS := s\<rparr>\<rparr>)) = Some q"
    unfolding unfolded by (cases vrs) auto
  from rest have v: "v = Some (Some 27) \<or> v = Some (Some 28)" and r: "truthyText r" and s: "truthyText s"
    and q: "q = pl\<lparr>payload := (payload pl)\<lparr>payV := the v, payR := r, payS := s\<rparr>\<rparr>"
    by (simp_all split: if_splits)
  from r obtain rt where rt: "r = Some rt" "rt \<noteq> []" by (cases r) (simp_all add: truthyText_def)
  from s obtain st where st: "s = Some st" "st \<noteq> []" by (cases s) (simp_all add: truthyText_def)
  from v obtain n where n: "the v = Some n" "n = 27 \<or> n = 28" by auto
  from q n(1) rt(1) st(1)
  have "q = pl\<lparr>payload := (payload pl)\<lparr>payV := Some n, payR := Some rt, payS := Some st\<rparr>\<rparr>"
    by simp
  with n(2) rt(2) st(2) fields show ?thesis
    apply -
    apply (rule exI [of _ n])
    apply (rule exI [of _ rt])
    apply (rule exI [of _ st])
    apply simp
    done
qed

lemma normalizeSignature_signed: "normalizeSignature pl = Some q \<Longrightarrow> signedInFull q"
  by (drule normalizeSignature_shape) (auto simp: signedInFull_def truthyText_def)

lemma normalizeSignature_keeps:
  "normalizeSignature pl = Some q \<Longrightarrow>
     x402Version q = x402Version pl \<and> payScheme q = payScheme pl \<and> payNetwork q = payNetwork pl \<and>
     payFrom (payload q) = payFrom (payload pl) \<and> payTo (payload q) = payTo (payload pl) \<and>
     payValue (payload q) = payValue (payload pl) \<and>
     payValidAfter (payload q) = payValidAfter (payload pl) \<and>
     payValidBefore (payload q) = payValidBefore (payload pl) \<and>
     payNonce (payload q) = payNonce (payload pl) \<and>
     paySignature (payload q) = paySignature (payload pl)"
  by (drule normalizeSignature_shape) auto

lemma normalizeSignature_fixed: "normalizeSignature pl = Some pl \<longleftrightarrow> signedInFull pl"
proof
  assume "normalizeSignature pl = Some pl"
  then show "signedInFull pl" by (rule normalizeSignature_signed)
next
  assume s: "signedInFull pl"
  then have t: "truthyNumber (payV (payload pl))" "truthyText (payR (payload pl))" "truthyText (payS (payload pl))"
    by (auto simp: signedInFull_def truthyNumber_def)
  from s have f: "x402Version pl \<noteq> 0" "payScheme pl \<noteq> []" "payNetwork pl \<noteq> []"
    "payFrom (payload pl) \<noteq> []" "payTo (payload pl) \<noteq> []"
    "payValue (payload pl) \<noteq> []" "payNonce (payload pl) \<noteq> []"
    "payV (payload pl) = Some 27 \<or> payV (payload pl) = Some 28"
    by (simp_all add: signedInFull_def)
  from f(8) show "normalizeSignature pl = Some pl"
    by (auto simp: normalizeSignature_def Let_def t f(1-7))
qed


text \<open>
  Claim C6, amended. For a payload whose numbers are safe integers,
  \<^verbatim>\<open>decodePaymentHeader(encodePaymentHeader(payload))\<close> is what \<^verbatim>\<open>normalizeSignature\<close> makes
  of the payload: JSON, UTF-8 and base64 carry every payload through unchanged. It is the
  payload itself when the payload is signed in full (the version, scheme, network,
  \<open>from\<close>, \<open>to\<close>, \<open>value\<close> and \<open>nonce\<close> are true, \<open>v\<close> is 27 or 28, and \<open>r\<close> and \<open>s\<close> are not
  empty), and only then. Whenever a payload comes back at all, it is signed in full and
  every field but \<open>v\<close>, \<open>r\<close>, \<open>s\<close> has the value that went in, character for character: no
  address is changed in case.
\<close>

theorem header_round_trip:
  assumes "safeIntegers p"
  shows "(signedInFull p \<longrightarrow> decodePaymentHeader (encodePaymentHeader p) = Some p) \<and>
         (\<not> signedInFull p \<longrightarrow> decodePaymentHeader (encodePaymentHeader p) \<noteq> Some p) \<and>
         decodePaymentHeader (encodePaymentHeader p) = normalizeSignature p \<and>
         (\<forall>q. decodePaymentHeader (encodePaymentHeader p) = Some q \<longrightarrow>
            signedInFull q \<and>
            x402Version q = x402Version p \<and> payScheme q = payScheme p \<and> payNetwork q = payNetwork p \<and>
            payFrom (payload q) = payFrom (payload p) \<and> payTo (payload q) = payTo (payload p) \<and>
            payValue (payload q) = payValue (payload p) \<and>
            payValidAfter (payload q) = payValidAfter (payload p) \<and>
            payValidBefore (payload q) = payValidBefore (payload p) \<and>
            payNonce (payload q) = payNonce (payload p) \<and>
            paySignature (payload q) = paySignature (payload p))"
proof -
  have same: "decodePaymentHeader (encodePaymentHeader p) = normalizeSignature p"
    by (rule decode_encode)
  have fixed: "signedInFull p \<longrightarrow> decodePaymentHeader (encodePaymentHeader p) = Some p"
    unfolding same by (simp add: normalizeSignature_fixed)
  have only: "\<not> signedInFull p \<longrightarrow> decodePaymentHeader (encodePaymentHeader p) \<noteq> Some p"
    unfolding same by (simp add: normalizeSignature_fixed)
  have kept: "\<forall>q. decodePaymentHeader (encodePaymentHeader p) = Some q \<longrightarrow>
            signedInFull q \<and>
            x402Version q = x402Version p \<and> payScheme q = payScheme p \<and> payNetwork q = payNetwork p \<and>
            payFrom (payload q) = payFrom (payload p) \<and> payTo (payload q) = payTo (payload p) \<and>
            payValue (payload q) = payValue (payload p) \<and>
            payValidAfter (payload q) = payValidAfter (payload p) \<and>
            payValidBefore (payload q) = payValidBefore (payload p) \<and>
            payNonce (payload q) = payNonce (payload p) \<and>
            paySignature (payload q) = paySignature (payload p)"
    unfolding same using normalizeSignature_signed normalizeSignature_keeps by blast
  from fixed only same kept show ?thesis by (intro conjI)
qed

lemma signedPayload_signedInFull: "signedInFull signedPayload" "signedInFull mixedCasePayload"
  by (simp_all add: signedInFull_def signedPayload_def mixedCasePayload_def payerAddress_def
      payoutAddress_def truthyText_def)

lemma signedPayload_safe: "safeIntegers signedPayload" "safeIntegers mixedCasePayload"
  by (simp_all add: safeIntegers_def safeInteger_def signedPayload_def mixedCasePayload_def)

lemma signedPayload_header: "encodePaymentHeader signedPayload = scenarioHeader"
  by code_simp

text \<open>
  The theorem at the signed payload of the scenario, whose header is the one Node writes,
  and at the same payload with the recipient's address in mixed case: each comes back as
  it went in, so the two, which differ in the case of one letter pair only, stay apart.
\<close>

theorem header_round_trip_witness:
  "decodePaymentHeader scenarioHeader = Some signedPayload \<and>
   decodePaymentHeader (encodePaymentHeader mixedCasePayload) = Some mixedCasePayload \<and>
   payTo (payload mixedCasePayload) = ''0x00000000000000000000000000000000000000FF'' \<and>
   payTo (payload signedPayload) = ''0x00000000000000000000000000000000000000ff''"
proof -
  from header_round_trip [OF signedPayload_safe(1), THEN conjunct1] signedPayload_signedInFull(1)
  have "decodePaymentHeader (encodePaymentHeader signedPayload) = Some signedPayload" by simp
  then have first: "decodePaymentHeader scenarioHeader = Some signedPayload"
    by (simp add: signedPayload_header)
  from header_round_trip [OF signedPayload_safe(2), THEN conjunct1] signedPayload_signedInFull(2)
  have second: "decodePaymentHeader (encodePaymentHeader mixedCasePayload) = Some mixedCasePayload"
    by simp
  have third: "payTo (payload mixedCasePayload) = ''0x00000000000000000000000000000000000000FF''"
    by (simp add: mixedCasePayload_def payoutAddress_def)
  have fourth: "payTo (payload signedPayload) = ''0x00000000000000000000000000000000000000ff''"
    by (simp add: signedPayload_def)
  from first second third fourth show ?thesis by (intro conjI)
qed

lemma blob_parts:
  "startsWith blobSignature ''0x''"
  "blobSignature \<noteq> []"
  "length blobSignature = 132"
  "take 64 (drop 2 blobSignature) = replicate 63 CHR ''0'' @ ''1''"
  "take 64 (drop 66 blobSignature) = replicate 63 CHR ''0'' @ ''2''"
  "drop 130 blobSignature = ''1b''"
  by (simp_all add: blobSignature_def)

lemma parseInt16_1b: "parseInt16 ''1b'' = Some 27"
  by (simp add: parseInt16_def isWhiteSpace_def radixTable_def)


text \<open>
  Claim C6 as stated speaks of every payload. The signed payload with the recovery
  identifier 1 for \<open>v\<close> does not come back: \<^verbatim>\<open>normalizeSignature\<close> answers false and the
  decoder gives \<open>null\<close>. The payload that carries its signature as one blob comes back with
  \<open>v\<close>, \<open>r\<close> and \<open>s\<close> filled in from the blob, which the original did not have.
\<close>

theorem header_round_trip_counterexample:
  "decodePaymentHeader (encodePaymentHeader recoveryIdPayload) = None \<and>
   decodePaymentHeader (encodePaymentHeader blobPayload) =
     Some (blobPayload\<lparr>payload := (payload blobPayload)
             \<lparr>payV := Some 27,
              payR := Some (''0x'' @ replicate 63 CHR ''0'' @ ''1''),
              payS := Some (''0x'' @ replicate 63 CHR ''0'' @ ''2'')\<rparr>\<rparr>) \<and>
   decodePaymentHeader (encodePaymentHeader blobPayload) \<noteq> Some blobPayload"
proof -
  have c: "normalizeSignature recoveryIdPayload = None"
    by (simp add: normalizeSignature_def recoveryIdPayload_def signedPayload_def payerAddress_def
        truthyText_def truthyNumber_def)
  have d: "normalizeSignature blobPayload =
     Some (blobPayload\<lparr>payload := (payload blobPayload)
             \<lparr>payV := Some 27,
              payR := Some (''0x'' @ replicate 63 CHR ''0'' @ ''1''),
              payS := Some (''0x'' @ replicate 63 CHR ''0'' @ ''2'')\<rparr>\<rparr>)"
    by (simp add: normalizeSignature_def blobPayload_def signedPayload_def payerAddress_def
        truthyText_def truthyNumber_def blob_parts parseInt16_1b Let_def)
  have e: "\<not> signedInFull blobPayload"
    by (simp add: signedInFull_def blobPayload_def)
  then have f: "normalizeSignature blobPayload \<noteq> Some blobPayload"
    by (simp add: normalizeSignature_fixed)
  from c d f show ?thesis by (simp only: decode_encode) simp
qed


end
